theory Spec2Isabelle
  imports Complex_Main "HOL-Library.Word"
begin

section \<open>Vectors and matrices of the GLM library\<close>

text \<open>
  The renderer of \<^verbatim>\<open>06-Shading/main.cpp\<close> computes with GLM vectors and matrices of
  \<^verbatim>\<open>float\<close>. A GLM matrix \<^verbatim>\<open>matCxR\<close> is an array of \<open>C\<close> columns with \<open>R\<close> entries each,
  indexed \<^verbatim>\<open>m[column][row]\<close>. The arithmetic of \<^verbatim>\<open>float\<close> is idealised as \<open>real\<close>; the
  functions below follow the definitions of GLM (a third-party library the program
  includes) for \<^verbatim>\<open>translate\<close>, \<^verbatim>\<open>rotate\<close>, \<^verbatim>\<open>radians\<close>, \<^verbatim>\<open>transpose\<close>, the
  matrix product and the conversion \<^verbatim>\<open>mat3x4(mat4x4)\<close>.
\<close>

type_synonym vec3 = "real \<times> real \<times> real"
type_synonym vec4 = "real \<times> real \<times> real \<times> real"
type_synonym mat4x4 = "vec4 \<times> vec4 \<times> vec4 \<times> vec4"
type_synonym mat3x4 = "vec4 \<times> vec4 \<times> vec4"

fun vec4_scale :: "vec4 \<Rightarrow> real \<Rightarrow> vec4" where
  "vec4_scale (x, y, z, w) s = (x * s, y * s, z * s, w * s)"

fun vec4_add :: "vec4 \<Rightarrow> vec4 \<Rightarrow> vec4" where
  "vec4_add (x, y, z, w) (x', y', z', w') = (x + x', y + y', z + z', w + w')"

definition mat4_identity :: mat4x4 where
  "mat4_identity = ((1, 0, 0, 0), (0, 1, 0, 0), (0, 0, 1, 0), (0, 0, 0, 1))"

text \<open>\<^verbatim>\<open>glm::translate(m, v)\<close>: the last column becomes \<^verbatim>\<open>m[0]*v[0] + m[1]*v[1] + m[2]*v[2] + m[3]\<close>.\<close>

fun glm_translate_m :: "mat4x4 \<Rightarrow> vec3 \<Rightarrow> mat4x4" where
  "glm_translate_m (m0, m1, m2, m3) (vx, vy, vz) =
     (m0, m1, m2,
      vec4_add (vec4_add (vec4_add (vec4_scale m0 vx) (vec4_scale m1 vy)) (vec4_scale m2 vz)) m3)"

definition glm_translate :: "vec3 \<Rightarrow> mat4x4" where
  "glm_translate v = glm_translate_m mat4_identity v"

text \<open>\<^verbatim>\<open>glm::normalize(v) = v * inversesqrt(dot(v, v))\<close>.\<close>

fun glm_normalize :: "vec3 \<Rightarrow> vec3" where
  "glm_normalize (x, y, z) =
     (let d = x * x + y * y + z * z; r = 1 / sqrt d in (x * r, y * r, z * r))"

text \<open>\<^verbatim>\<open>glm::rotate(m, angle, v)\<close>, with the axis normalised first.\<close>

fun glm_rotate_m :: "mat4x4 \<Rightarrow> real \<Rightarrow> vec3 \<Rightarrow> mat4x4" where
  "glm_rotate_m (m0, m1, m2, m3) a v =
     (let c = cos a; s = sin a;
          (ax, ay, az) = glm_normalize v;
          tx = (1 - c) * ax; ty = (1 - c) * ay; tz = (1 - c) * az;
          r00 = c + tx * ax; r01 = tx * ay + s * az; r02 = tx * az - s * ay;
          r10 = ty * ax - s * az; r11 = c + ty * ay; r12 = ty * az + s * ax;
          r20 = tz * ax + s * ay; r21 = tz * ay - s * ax; r22 = c + tz * az
      in (vec4_add (vec4_add (vec4_scale m0 r00) (vec4_scale m1 r01)) (vec4_scale m2 r02),
          vec4_add (vec4_add (vec4_scale m0 r10) (vec4_scale m1 r11)) (vec4_scale m2 r12),
          vec4_add (vec4_add (vec4_scale m0 r20) (vec4_scale m1 r21)) (vec4_scale m2 r22),
          m3))"

definition glm_rotate :: "real \<Rightarrow> vec3 \<Rightarrow> mat4x4" where
  "glm_rotate a v = glm_rotate_m mat4_identity a v"

definition glm_radians :: "real \<Rightarrow> real" where
  "glm_radians degrees = degrees * (pi / 180)"

text \<open>The product of two 4x4 matrices: column \<open>j\<close> of \<open>A * B\<close> is the combination of the
  columns of \<open>A\<close> with the entries of column \<open>j\<close> of \<open>B\<close>.\<close>

fun mat4_mul_col :: "mat4x4 \<Rightarrow> vec4 \<Rightarrow> vec4" where
  "mat4_mul_col (a0, a1, a2, a3) (b0, b1, b2, b3) =
     vec4_add (vec4_add (vec4_add (vec4_scale a0 b0) (vec4_scale a1 b1)) (vec4_scale a2 b2))
       (vec4_scale a3 b3)"

fun mat4_mul :: "mat4x4 \<Rightarrow> mat4x4 \<Rightarrow> mat4x4" where
  "mat4_mul A (b0, b1, b2, b3) =
     (mat4_mul_col A b0, mat4_mul_col A b1, mat4_mul_col A b2, mat4_mul_col A b3)"

text \<open>\<^verbatim>\<open>glm::transpose\<close>: \<^verbatim>\<open>result[i][j] = m[j][i]\<close>.\<close>

fun glm_transpose :: "mat4x4 \<Rightarrow> mat4x4" where
  "glm_transpose ((a0, a1, a2, a3), (b0, b1, b2, b3), (c0, c1, c2, c3), (d0, d1, d2, d3)) =
     ((a0, b0, c0, d0), (a1, b1, c1, d1), (a2, b2, c2, d2), (a3, b3, c3, d3))"

text \<open>The converting constructor \<^verbatim>\<open>mat3x4(mat4x4 const&)\<close> keeps the first three columns.\<close>

fun mat3x4_of_mat4x4 :: "mat4x4 \<Rightarrow> mat3x4" where
  "mat3x4_of_mat4x4 (m0, m1, m2, m3) = (m0, m1, m2)"

text \<open>\<^verbatim>\<open>glm::value_ptr\<close>: the entries in memory order, column after column.\<close>

fun vec4_floats :: "vec4 \<Rightarrow> real list" where
  "vec4_floats (x, y, z, w) = [x, y, z, w]"

fun mat3x4_floats :: "mat3x4 \<Rightarrow> real list" where
  "mat3x4_floats (m0, m1, m2) = vec4_floats m0 @ vec4_floats m1 @ vec4_floats m2"

fun mat4x4_floats :: "mat4x4 \<Rightarrow> real list" where
  "mat4x4_floats (m0, m1, m2, m3) =
     vec4_floats m0 @ vec4_floats m1 @ vec4_floats m2 @ vec4_floats m3"

text \<open>Sizes in bytes: a \<^verbatim>\<open>float\<close> has four bytes.\<close>

definition sizeof_float :: int where "sizeof_float = 4"
definition sizeof_mat3x4 :: int where "sizeof_mat3x4 = 3 * 4 * sizeof_float"
definition sizeof_mat4x4 :: int where "sizeof_mat4x4 = 4 * 4 * sizeof_float"

section \<open>Constants and the instance record\<close>

text \<open>\<^verbatim>\<open>static const unsigned int MAX_INSTANCES = 1024\<close> and \<^verbatim>\<open>static const GLsizei MSAA_SAMPLES = 4\<close>.\<close>

definition MAX_INSTANCES :: "32 word" where "MAX_INSTANCES = 1024"
definition MSAA_SAMPLES :: int where "MSAA_SAMPLES = 4"
definition DefaultWidth :: int where "DefaultWidth = 800"
definition DefaultHeight :: int where "DefaultHeight = 600"
definition INT_MAX :: int where "INT_MAX = 2147483647"

text \<open>\<^verbatim>\<open>struct InstanceData { glm::mat3x4 transformation; }\<close>\<close>

type_synonym InstanceData = mat3x4

definition sizeof_InstanceData :: int where "sizeof_InstanceData = sizeof_mat3x4"

text \<open>Undefined behaviour of the C++ program is a value of the model.\<close>

datatype fault = OutOfBounds | NullPointer | SignedOverflow | LengthError

section \<open>The instance loop of \<^verbatim>\<open>updateInstanceData\<close>\<close>

text \<open>
  The body of the loop: \<^verbatim>\<open>transformation = glm::translate(cubePositions[i]);\<close>
  \<^verbatim>\<open>transformation *= glm::rotate(glm::radians(i * angle), glm::vec3(1, 1, 1));\<close> with
  \<^verbatim>\<open>angle = 20.0f\<close>.
\<close>

definition instance_transformation :: "vec3 \<Rightarrow> int \<Rightarrow> mat4x4" where
  "instance_transformation p i =
     mat4_mul (glm_translate p) (glm_rotate (glm_radians (of_int i * 20)) (1, 1, 1))"

text \<open>
  \<^verbatim>\<open>for (int i = 0; i < numCubes; ++i)\<close> over the vector \<^verbatim>\<open>cubePositions\<close> and the static
  staging vector \<^verbatim>\<open>instanceData\<close>. Reading or writing a vector outside its size is
  undefined behaviour and ends the model with \<open>OutOfBounds\<close>.
\<close>

function instance_loop ::
  "int \<Rightarrow> int \<Rightarrow> vec3 list \<Rightarrow> InstanceData list \<Rightarrow> fault + InstanceData list" where
  "instance_loop i n ps buf =
     (if i < n then
        (if i < 0 \<or> int (length ps) \<le> i \<or> int (length buf) \<le> i then Inl OutOfBounds
         else instance_loop (i + 1) n ps
                (buf[nat i := mat3x4_of_mat4x4 (glm_transpose (instance_transformation (ps ! nat i) i))]))
      else Inr buf)"
  by pat_completeness auto
termination
  by (relation "measure (\<lambda>(i, n, ps, buf). nat (n - i))") auto

declare instance_loop.simps [simp del]

section \<open>The OpenGL state the program works on\<close>

text \<open>
  OpenGL is an external collaborator. The model keeps the part of its state that the
  program changes or asks about: the names in use in each name space (textures,
  renderbuffers, framebuffers, buffers and vertex arrays are separate name spaces), the
  names that are objects already (a name returned by \<^verbatim>\<open>glGen*\<close> becomes an object when
  it is first bound), the storage of textures and renderbuffers, the framebuffer
  bindings and attachments, the capabilities, and the log of all commands in the order
  the program issued them.

  The pixels of a framebuffer are not computed. What is kept for each framebuffer (0 is
  the window) is \<open>fb_image\<close>: the command log up to and including the latest command that
  wrote to it. Rendering is a function of the commands issued, so two runs that leave the
  same \<open>fb_image\<close> for a framebuffer leave the same pixels in it.
\<close>

datatype fb_target = GL_FRAMEBUFFER | GL_DRAW_FRAMEBUFFER | GL_READ_FRAMEBUFFER
datatype tex_target = GL_TEXTURE_2D | GL_TEXTURE_2D_MULTISAMPLE
datatype capability = GL_DEPTH_TEST | GL_MULTISAMPLE | GL_CULL_FACE | GL_FRAMEBUFFER_SRGB
datatype polygon_mode = GL_LINE | GL_FILL
datatype primitive = GL_TRIANGLES | GL_POINTS
datatype attachment = GL_COLOR_ATTACHMENT0 | GL_DEPTH_ATTACHMENT
datatype object_kind = Texture | Renderbuffer | Framebuffer | Buffer | VertexArray | Program

text \<open>
  The commands the program issues, in four groups. \<open>glGen k n\<close> stands for the
  \<^verbatim>\<open>glGen*\<close> command of the kind \<open>k\<close> that returned the name \<open>n\<close>, and \<open>glDelete k ns\<close>
  for the \<^verbatim>\<open>glDelete*\<close> command of that kind on the names \<open>ns\<close>. \<open>glBindBuffer\<close>,
  \<open>glBindBufferBase\<close>, \<open>glBufferData\<close>, \<open>glBufferSubData\<close>, \<open>glMapBuffer\<close> and
  \<open>glUnmapBuffer\<close> are always used with the target \<^verbatim>\<open>GL_UNIFORM_BUFFER\<close>, and
  \<open>memcpy_mapped\<close> is the \<^verbatim>\<open>memcpy\<close> into the mapped buffer (bytes copied, floats copied).
\<close>

datatype pipeline_cmd =
    glViewport int int int int
  | glEnable capability
  | glDisable capability
  | glCullFace
  | glDepthFunc
  | glDepthMask bool
  | glPolygonMode polygon_mode
  | glClearColor real real real real
  | glPointSize real
  | glDrawBuffers "attachment list"
  | glDrawBuffer

datatype object_cmd =
    glGen object_kind nat
  | glDelete object_kind "nat list"
  | glBindFramebuffer fb_target nat
  | glBindTexture tex_target nat
  | glBindRenderbuffer nat
  | glBindBuffer nat
  | glBindBufferBase nat nat
  | glBindVertexArray nat
  | glBindSampler nat nat
  | glActiveTexture nat
  | glUseProgram nat

datatype data_cmd =
    glTexImage2D tex_target int int
  | glTexImage2DMultisample tex_target int int int
  | glTexParameteri tex_target
  | glRenderbufferStorage int int
  | glRenderbufferStorageMultisample int int int
  | glFramebufferTexture2D fb_target attachment tex_target nat
  | glFramebufferRenderbuffer fb_target attachment nat
  | glBufferData int
  | glBufferSubData int int "real list"
  | glMapBuffer
  | memcpy_mapped int "real list"
  | glUnmapBuffer
  | glUniform int "real list"
  | glUniformMatrix4x3fv int "real list"

datatype draw_cmd =
    glClear bool bool
  | glDrawElements primitive int
  | glDrawElementsInstanced primitive int int
  | glDrawArrays primitive int int
  | glBlitFramebuffer int int int int int int int int

datatype gl_cmd = Pipeline pipeline_cmd | Object object_cmd | Data data_cmd | Draw draw_cmd

abbreviation glGenTextures :: "nat \<Rightarrow> gl_cmd" where
  "glGenTextures n \<equiv> Object (glGen Texture n)"
abbreviation glGenRenderbuffers :: "nat \<Rightarrow> gl_cmd" where
  "glGenRenderbuffers n \<equiv> Object (glGen Renderbuffer n)"
abbreviation glGenFramebuffers :: "nat \<Rightarrow> gl_cmd" where
  "glGenFramebuffers n \<equiv> Object (glGen Framebuffer n)"
abbreviation glGenBuffers :: "nat \<Rightarrow> gl_cmd" where
  "glGenBuffers n \<equiv> Object (glGen Buffer n)"
abbreviation glGenVertexArrays :: "nat \<Rightarrow> gl_cmd" where
  "glGenVertexArrays n \<equiv> Object (glGen VertexArray n)"
abbreviation glDeleteTextures :: "nat list \<Rightarrow> gl_cmd" where
  "glDeleteTextures ns \<equiv> Object (glDelete Texture ns)"
abbreviation glDeleteRenderbuffers :: "nat list \<Rightarrow> gl_cmd" where
  "glDeleteRenderbuffers ns \<equiv> Object (glDelete Renderbuffer ns)"
abbreviation glDeleteFramebuffers :: "nat list \<Rightarrow> gl_cmd" where
  "glDeleteFramebuffers ns \<equiv> Object (glDelete Framebuffer ns)"
abbreviation glDeleteBuffers :: "nat list \<Rightarrow> gl_cmd" where
  "glDeleteBuffers ns \<equiv> Object (glDelete Buffer ns)"
abbreviation glDeleteVertexArrays :: "nat list \<Rightarrow> gl_cmd" where
  "glDeleteVertexArrays ns \<equiv> Object (glDelete VertexArray ns)"
abbreviation glDeleteProgram :: "nat \<Rightarrow> gl_cmd" where
  "glDeleteProgram n \<equiv> Object (glDelete Program [n])"

text \<open>
  What an implementation accepts as storage: \<^verbatim>\<open>GL_MAX_TEXTURE_SIZE\<close>,
  \<^verbatim>\<open>GL_MAX_RENDERBUFFER_SIZE\<close>, and the largest sample counts it supports for a
  multisample texture of the format \<^verbatim>\<open>GL_RGB16F\<close> and for a renderbuffer of the format
  \<^verbatim>\<open>GL_DEPTH_COMPONENT32F\<close>. They belong to the context and no command changes them.
\<close>

record gl_limits =
  max_texture_size :: int
  max_renderbuffer_size :: int
  max_texture_samples :: int
  max_renderbuffer_samples :: int

text \<open>A width and a height are accepted when neither is negative or above the limit.\<close>

definition size_ok :: "int \<Rightarrow> int \<Rightarrow> int \<Rightarrow> bool" where
  "size_ok limit w h \<longleftrightarrow> 0 \<le> w \<and> w \<le> limit \<and> 0 \<le> h \<and> h \<le> limit"

record gl_state =
  calls :: "gl_cmd list"
  draw_framebuffer :: nat
  read_framebuffer :: nat
  fb_image :: "nat \<Rightarrow> gl_cmd list"
  enabled :: "capability \<Rightarrow> bool"
  texture_names :: "nat set"
  texture_objects :: "nat set"
  texture_storage :: "nat \<Rightarrow> (int \<times> int \<times> int) option"
  active_texture :: nat
  texture_binding :: "nat \<Rightarrow> tex_target \<Rightarrow> nat"
  renderbuffer_names :: "nat set"
  renderbuffer_objects :: "nat set"
  renderbuffer_storage :: "nat \<Rightarrow> (int \<times> int \<times> int) option"
  renderbuffer_binding :: nat
  framebuffer_names :: "nat set"
  color_attachment :: "nat \<Rightarrow> nat"
  depth_attachment :: "nat \<Rightarrow> nat"
  buffer_names :: "nat set"
  vertex_array_names :: "nat set"
  limits :: gl_limits

text \<open>The framebuffer a target stands for: \<^verbatim>\<open>GL_FRAMEBUFFER\<close> is the draw framebuffer.\<close>

fun bound_framebuffer :: "gl_state \<Rightarrow> fb_target \<Rightarrow> nat" where
  "bound_framebuffer g GL_READ_FRAMEBUFFER = read_framebuffer g"
| "bound_framebuffer g GL_DRAW_FRAMEBUFFER = draw_framebuffer g"
| "bound_framebuffer g GL_FRAMEBUFFER = draw_framebuffer g"

text \<open>A command that writes to a framebuffer leaves the log, itself included, as the
  image of that framebuffer.\<close>

definition write_framebuffer :: "nat \<Rightarrow> gl_cmd \<Rightarrow> gl_state \<Rightarrow> gl_state" where
  "write_framebuffer f c g = g\<lparr>fb_image := (fb_image g)(f := calls g @ [c])\<rparr>"

text \<open>
  The effect of a command on the state; \<open>gl_call\<close> below adds the command to the log
  afterwards. Names that are 0 or not in use are ignored by the deleting commands; a
  deleted texture or renderbuffer is unbound, and detached from the framebuffer that is
  bound. Binding a name that \<^verbatim>\<open>glGen*\<close> did not return is an error in the core profile
  and leaves the state as it was. Programs are not tracked.
\<close>

fun object_effect :: "object_cmd \<Rightarrow> gl_state \<Rightarrow> gl_state" where
  "object_effect (glGen Texture n) g = g\<lparr>texture_names := insert n (texture_names g)\<rparr>"
| "object_effect (glGen Renderbuffer n) g = g\<lparr>renderbuffer_names := insert n (renderbuffer_names g)\<rparr>"
| "object_effect (glGen Framebuffer n) g = g\<lparr>framebuffer_names := insert n (framebuffer_names g)\<rparr>"
| "object_effect (glGen Buffer n) g = g\<lparr>buffer_names := insert n (buffer_names g)\<rparr>"
| "object_effect (glGen VertexArray n) g = g\<lparr>vertex_array_names := insert n (vertex_array_names g)\<rparr>"
| "object_effect (glGen Program n) g = g"
| "object_effect (glDelete Texture ns) g =
     g\<lparr>texture_names := texture_names g - set ns,
       texture_objects := texture_objects g - set ns,
       texture_storage := (\<lambda>n. if n \<in> set ns then None else texture_storage g n),
       texture_binding := (\<lambda>u t. if texture_binding g u t \<in> set ns then 0 else texture_binding g u t),
       color_attachment := (\<lambda>f. if f = draw_framebuffer g \<and> color_attachment g f \<in> set ns
                                  then 0 else color_attachment g f)\<rparr>"
| "object_effect (glDelete Renderbuffer ns) g =
     g\<lparr>renderbuffer_names := renderbuffer_names g - set ns,
       renderbuffer_objects := renderbuffer_objects g - set ns,
       renderbuffer_storage := (\<lambda>n. if n \<in> set ns then None else renderbuffer_storage g n),
       renderbuffer_binding := (if renderbuffer_binding g \<in> set ns then 0 else renderbuffer_binding g),
       depth_attachment := (\<lambda>f. if f = draw_framebuffer g \<and> depth_attachment g f \<in> set ns
                                  then 0 else depth_attachment g f)\<rparr>"
| "object_effect (glDelete Framebuffer ns) g =
     g\<lparr>framebuffer_names := framebuffer_names g - set ns,
       draw_framebuffer := (if draw_framebuffer g \<in> set ns then 0 else draw_framebuffer g),
       read_framebuffer := (if read_framebuffer g \<in> set ns then 0 else read_framebuffer g)\<rparr>"
| "object_effect (glDelete Buffer ns) g = g\<lparr>buffer_names := buffer_names g - set ns\<rparr>"
| "object_effect (glDelete VertexArray ns) g = g\<lparr>vertex_array_names := vertex_array_names g - set ns\<rparr>"
| "object_effect (glDelete Program ns) g = g"
| "object_effect (glBindFramebuffer t n) g =
     (if n \<noteq> 0 \<and> n \<notin> framebuffer_names g then g
      else case t of
             GL_FRAMEBUFFER \<Rightarrow> g\<lparr>draw_framebuffer := n, read_framebuffer := n\<rparr>
           | GL_DRAW_FRAMEBUFFER \<Rightarrow> g\<lparr>draw_framebuffer := n\<rparr>
           | GL_READ_FRAMEBUFFER \<Rightarrow> g\<lparr>read_framebuffer := n\<rparr>)"
| "object_effect (glBindTexture t n) g =
     (if n \<noteq> 0 \<and> n \<notin> texture_names g then g
      else g\<lparr>texture_objects := (if n = 0 then texture_objects g else insert n (texture_objects g)),
             texture_binding := (texture_binding g)
               (active_texture g := (texture_binding g (active_texture g))(t := n))\<rparr>)"
| "object_effect (glBindRenderbuffer n) g =
     (if n \<noteq> 0 \<and> n \<notin> renderbuffer_names g then g
      else g\<lparr>renderbuffer_objects :=
               (if n = 0 then renderbuffer_objects g else insert n (renderbuffer_objects g)),
             renderbuffer_binding := n\<rparr>)"
| "object_effect (glActiveTexture u) g = g\<lparr>active_texture := u\<rparr>"
| "object_effect (glBindBuffer n) g = g"
| "object_effect (glBindBufferBase i n) g = g"
| "object_effect (glBindVertexArray n) g = g"
| "object_effect (glBindSampler u n) g = g"
| "object_effect (glUseProgram n) g = g"

text \<open>
  Storage is recorded as (width, height, samples), with one sample for a texture or
  renderbuffer that is not multisampled; the sample count recorded is the one asked for
  (the implementation may allocate more). A storage command whose width or height is
  negative or above the limit, or whose sample count the implementation does not
  support, is an error (\<^verbatim>\<open>GL_INVALID_VALUE\<close> or \<^verbatim>\<open>GL_INVALID_OPERATION\<close>): the command is
  ignored and the object keeps the storage it had. A multisample texture needs at least
  one sample; \<^verbatim>\<open>glRenderbufferStorageMultisample\<close> with no samples is
  \<^verbatim>\<open>glRenderbufferStorage\<close>. Running out of memory is not modelled. Attaching to a
  framebuffer changes its image.
\<close>

definition attach :: "nat \<Rightarrow> attachment \<Rightarrow> nat \<Rightarrow> gl_state \<Rightarrow> gl_state" where
  "attach f att n g =
     (case att of
        GL_COLOR_ATTACHMENT0 \<Rightarrow> g\<lparr>color_attachment := (color_attachment g)(f := n)\<rparr>
      | GL_DEPTH_ATTACHMENT \<Rightarrow> g\<lparr>depth_attachment := (depth_attachment g)(f := n)\<rparr>)"

fun data_effect :: "data_cmd \<Rightarrow> gl_state \<Rightarrow> gl_state" where
  "data_effect (glTexImage2D t w h) g =
     (let n = texture_binding g (active_texture g) t
      in if n = 0 \<or> \<not> size_ok (max_texture_size (limits g)) w h then g
         else g\<lparr>texture_storage := (texture_storage g)(n := Some (w, h, 1))\<rparr>)"
| "data_effect (glTexImage2DMultisample t samples w h) g =
     (let n = texture_binding g (active_texture g) t
      in if n = 0 \<or> \<not> size_ok (max_texture_size (limits g)) w h \<or>
            samples < 1 \<or> max_texture_samples (limits g) < samples then g
         else g\<lparr>texture_storage := (texture_storage g)(n := Some (w, h, samples))\<rparr>)"
| "data_effect (glRenderbufferStorage w h) g =
     (let n = renderbuffer_binding g
      in if n = 0 \<or> \<not> size_ok (max_renderbuffer_size (limits g)) w h then g
         else g\<lparr>renderbuffer_storage := (renderbuffer_storage g)(n := Some (w, h, 1))\<rparr>)"
| "data_effect (glRenderbufferStorageMultisample samples w h) g =
     (let n = renderbuffer_binding g
      in if n = 0 \<or> \<not> size_ok (max_renderbuffer_size (limits g)) w h \<or>
            samples < 0 \<or> max_renderbuffer_samples (limits g) < samples then g
         else g\<lparr>renderbuffer_storage :=
                  (renderbuffer_storage g)(n := Some (w, h, if samples = 0 then 1 else samples))\<rparr>)"
| "data_effect (glFramebufferTexture2D t att tt n) g =
     (let f = bound_framebuffer g t
      in if f = 0 then g
         else write_framebuffer f (Data (glFramebufferTexture2D t att tt n)) (attach f att n g))"
| "data_effect (glFramebufferRenderbuffer t att n) g =
     (let f = bound_framebuffer g t
      in if f = 0 then g
         else write_framebuffer f (Data (glFramebufferRenderbuffer t att n)) (attach f att n g))"
| "data_effect (glTexParameteri t) g = g"
| "data_effect (glBufferData n) g = g"
| "data_effect (glBufferSubData off n xs) g = g"
| "data_effect glMapBuffer g = g"
| "data_effect (memcpy_mapped n xs) g = g"
| "data_effect glUnmapBuffer g = g"
| "data_effect (glUniform l xs) g = g"
| "data_effect (glUniformMatrix4x3fv l xs) g = g"

fun pipeline_effect :: "pipeline_cmd \<Rightarrow> gl_state \<Rightarrow> gl_state" where
  "pipeline_effect (glEnable c) g = g\<lparr>enabled := (enabled g)(c := True)\<rparr>"
| "pipeline_effect (glDisable c) g = g\<lparr>enabled := (enabled g)(c := False)\<rparr>"
| "pipeline_effect c g = g"

text \<open>Clearing, drawing and blitting write to the draw framebuffer.\<close>

fun gl_effect :: "gl_cmd \<Rightarrow> gl_state \<Rightarrow> gl_state" where
  "gl_effect (Pipeline c) g = pipeline_effect c g"
| "gl_effect (Object c) g = object_effect c g"
| "gl_effect (Data c) g = data_effect c g"
| "gl_effect (Draw c) g = write_framebuffer (draw_framebuffer g) (Draw c) g"

definition gl_call :: "gl_cmd \<Rightarrow> gl_state \<Rightarrow> gl_state" where
  "gl_call c g = (gl_effect c g)\<lparr>calls := calls g @ [c]\<rparr>"

text \<open>A straight-line sequence of commands.\<close>

definition gl_calls :: "gl_cmd list \<Rightarrow> gl_state \<Rightarrow> gl_state" where
  "gl_calls cs g = fold gl_call cs g"

text \<open>The queries \<^verbatim>\<open>glIsTexture\<close>, \<^verbatim>\<open>glIsRenderbuffer\<close> and \<^verbatim>\<open>glIsEnabled\<close>.\<close>

definition glIsTexture :: "gl_state \<Rightarrow> nat \<Rightarrow> bool" where
  "glIsTexture g n \<longleftrightarrow> n \<noteq> 0 \<and> n \<in> texture_objects g"

definition glIsRenderbuffer :: "gl_state \<Rightarrow> nat \<Rightarrow> bool" where
  "glIsRenderbuffer g n \<longleftrightarrow> n \<noteq> 0 \<and> n \<in> renderbuffer_objects g"

definition glIsEnabled :: "gl_state \<Rightarrow> capability \<Rightarrow> bool" where
  "glIsEnabled g c = enabled g c"

section \<open>The program state and its collaborators\<close>

text \<open>
  \<^verbatim>\<open>Camera.h\<close>, \<^verbatim>\<open>Geometry.h\<close>, \<^verbatim>\<open>Textures.h\<close>, \<^verbatim>\<open>MathSupport.h\<close> and \<^verbatim>\<open>shaders.h\<close> are
  not among the sources. A camera is what its getters return, a mesh is its vertex array
  and the size of its index buffer.
\<close>

record camera =
  GetWorldToView :: mat4x4
  GetProjection :: mat4x4
  GetViewToWorld :: mat4x4

record mesh =
  GetVAO :: nat
  GetIBOSize :: int

text \<open>Modelled from the spec: the enumeration of \<^verbatim>\<open>shaders.h\<close>, "a fixed enumerated set of
  compiled program handles (Default, Instancing, PointRendering, Tonemapping)".\<close>

datatype ShaderProgram = Default | Instancing | PointRendering | Tonemapping

datatype LoadedTextures =
  White | Grey | Blue | CheckerBoard | Diffuse | Normal | Specular | Occlusion

definition all_textures :: "LoadedTextures list" where
  "all_textures = [White, Grey, Blue, CheckerBoard, Diffuse, Normal, Specular, Occlusion]"

definition all_programs :: "ShaderProgram list" where
  "all_programs = [Default, Instancing, PointRendering, Tonemapping]"

datatype key =
    GLFW_KEY_ESCAPE | GLFW_KEY_F1 | GLFW_KEY_F2 | GLFW_KEY_F3 | GLFW_KEY_F4 | GLFW_KEY_F5
  | GLFW_KEY_F6 | GLFW_KEY_KP_ADD | GLFW_KEY_EQUAL | GLFW_KEY_KP_SUBTRACT | GLFW_KEY_MINUS
  | GLFW_KEY_BACKSPACE | GLFW_KEY_OTHER

datatype action = GLFW_RELEASE | GLFW_PRESS | GLFW_REPEAT

text \<open>
  What the program is configured with and what its collaborators answer: the constant
  \<^verbatim>\<open>numCubes\<close> (a 32-bit \<^verbatim>\<open>int\<close>), the name the driver returns from a \<^verbatim>\<open>glGen*\<close> command
  in a given state, the outcome of the start-up calls, the compiled programs and their
  uniform blocks and locations, the random numbers of \<^verbatim>\<open>getRandom\<close> (the first argument
  counts the calls made before), the meshes of \<^verbatim>\<open>Geometry\<close>, the anisotropic sampler of
  \<^verbatim>\<open>Textures\<close>, the completeness status of the bound framebuffer, and the camera's
  operations.
\<close>

record env =
  numCubes :: "32 word"
  gen_name :: "object_kind \<Rightarrow> gl_state \<Rightarrow> nat"
  glfwInit :: bool
  glfwCreateWindow :: bool
  gladLoadGL :: bool
  GL_MAX_UNIFORM_BLOCK_SIZE :: int
  compileShaders :: bool
  compiledProgram :: "ShaderProgram \<Rightarrow> nat"
  uniformBlockDataSize :: "nat \<Rightarrow> string \<Rightarrow> int"
  glGetUniformLocation :: "nat \<Rightarrow> string \<Rightarrow> int"
  getRandom :: "nat \<Rightarrow> real \<Rightarrow> real \<Rightarrow> real"
  CreateQuadNormalTangentTex :: mesh
  CreateCubeNormalTangentTex :: mesh
  GetSamplerAnisotropic :: nat
  framebufferComplete :: "gl_state \<Rightarrow> bool"
  SetProjection :: "real \<Rightarrow> real \<Rightarrow> real \<Rightarrow> real \<Rightarrow> camera \<Rightarrow> camera"
  SetTransformation :: "vec3 \<Rightarrow> vec3 \<Rightarrow> vec3 \<Rightarrow> camera \<Rightarrow> camera"
  processInput :: "camera \<Rightarrow> camera"

text \<open>The globals of \<^verbatim>\<open>main.cpp\<close>, the static staging vector of \<^verbatim>\<open>updateInstanceData\<close>,
  what was printed, and the OpenGL state.\<close>

record app =
  width :: int
  height :: int
  handle :: bool
  shouldClose :: bool
  swapInterval :: int
  fov :: real
  msaaLevel :: int
  cubePositions :: "vec3 list"
  camera :: camera
  quad :: "mesh option"
  cube :: "mesh option"
  vao :: nat
  fbo :: nat
  renderTarget :: nat
  depthStencil :: nat
  vsync :: bool
  depthTest :: bool
  wireframe :: bool
  tonemapping :: bool
  instancingBuffer :: nat
  transformBlockUBO :: nat
  loadedTextures :: "LoadedTextures \<Rightarrow> nat"
  shaderProgram :: "ShaderProgram \<Rightarrow> nat"
  instanceData :: "InstanceData list"
  console :: "string list"
  gl :: gl_state

definition nearClipPlane :: real where "nearClipPlane = 1 / 10"
definition farClipPlane :: real where "farClipPlane = 1001 / 10"

text \<open>The names in use of a kind; programs are not tracked.\<close>

fun names_in_use :: "object_kind \<Rightarrow> gl_state \<Rightarrow> nat set" where
  "names_in_use Texture g = texture_names g"
| "names_in_use Renderbuffer g = renderbuffer_names g"
| "names_in_use Framebuffer g = framebuffer_names g"
| "names_in_use Buffer g = buffer_names g"
| "names_in_use VertexArray g = vertex_array_names g"
| "names_in_use Program g = {}"

text \<open>A \<^verbatim>\<open>glGen*\<close> command for one name: the driver chooses it, the state reserves it.\<close>

definition gen_object :: "env \<Rightarrow> object_kind \<Rightarrow> gl_state \<Rightarrow> nat \<times> gl_state" where
  "gen_object e k g = (let n = gen_name e k g in (n, gl_call (Object (glGen k n)) g))"

text \<open>Commands issued by the program go to its OpenGL state.\<close>

definition issue :: "gl_cmd list \<Rightarrow> app \<Rightarrow> app" where
  "issue cs a = a\<lparr>gl := gl_calls cs (gl a)\<rparr>"

definition print :: "string \<Rightarrow> app \<Rightarrow> app" where
  "print msg a = a\<lparr>console := console a @ [msg]\<rparr>"

section \<open>\<^verbatim>\<open>createFramebuffer\<close>\<close>

text \<open>
  Lines 458 to 547, in the four parts the source marks with its comments. The handles
  \<^verbatim>\<open>fbo\<close>, \<^verbatim>\<open>renderTarget\<close> and \<^verbatim>\<open>depthStencil\<close> are globals that the function assigns.
  None of the arguments is checked.
\<close>

text \<open>\<^verbatim>\<open>glGenFramebuffers(1, &fbo)\<close>, \<^verbatim>\<open>glGenTextures(1, &renderTarget)\<close> and
  \<^verbatim>\<open>glGenRenderbuffers(1, &depthStencil)\<close>.\<close>

definition gen_fbo :: "env \<Rightarrow> app \<Rightarrow> app" where
  "gen_fbo e a = (let (n, g) = gen_object e Framebuffer (gl a) in a\<lparr>fbo := n, gl := g\<rparr>)"

definition gen_renderTarget :: "env \<Rightarrow> app \<Rightarrow> app" where
  "gen_renderTarget e a =
     (let (n, g) = gen_object e Texture (gl a) in a\<lparr>renderTarget := n, gl := g\<rparr>)"

definition gen_depthStencil :: "env \<Rightarrow> app \<Rightarrow> app" where
  "gen_depthStencil e a =
     (let (n, g) = gen_object e Renderbuffer (gl a) in a\<lparr>depthStencil := n, gl := g\<rparr>)"

text \<open>Lines 460 to 470: the framebuffer object is generated once and bound.\<close>

definition bind_fbo :: "env \<Rightarrow> app \<Rightarrow> app" where
  "bind_fbo e a =
     (let a = issue [Object (glBindFramebuffer GL_FRAMEBUFFER 0)] a;
          a = (if fbo a = 0 then gen_fbo e a else a)
      in issue [Object (glBindFramebuffer GL_FRAMEBUFFER (fbo a))] a)"

text \<open>Lines 476 to 503: the render target texture.\<close>

definition recreate_renderTarget :: "env \<Rightarrow> int \<Rightarrow> int \<Rightarrow> int \<Rightarrow> app \<Rightarrow> app" where
  "recreate_renderTarget e w h MSAA a =
     (let a = (if glIsTexture (gl a) (renderTarget a)
               then (issue [glDeleteTextures [renderTarget a]] a)\<lparr>renderTarget := 0\<rparr>
               else a);
          a = (if renderTarget a = 0 then gen_renderTarget e a else a)
      in if MSAA > 1
         then issue [Object (glBindTexture GL_TEXTURE_2D_MULTISAMPLE (renderTarget a)),
                     Data (glTexImage2DMultisample GL_TEXTURE_2D_MULTISAMPLE MSAA w h),
                     Data (glFramebufferTexture2D GL_FRAMEBUFFER GL_COLOR_ATTACHMENT0
                             GL_TEXTURE_2D_MULTISAMPLE (renderTarget a))] a
         else issue [Object (glBindTexture GL_TEXTURE_2D (renderTarget a)),
                     Data (glTexImage2D GL_TEXTURE_2D w h),
                     Data (glTexParameteri GL_TEXTURE_2D),
                     Data (glTexParameteri GL_TEXTURE_2D),
                     Data (glFramebufferTexture2D GL_FRAMEBUFFER GL_COLOR_ATTACHMENT0
                             GL_TEXTURE_2D (renderTarget a))] a)"

text \<open>Lines 509 to 532: the depth buffer.\<close>

definition recreate_depthStencil :: "env \<Rightarrow> int \<Rightarrow> int \<Rightarrow> int \<Rightarrow> app \<Rightarrow> app" where
  "recreate_depthStencil e w h MSAA a =
     (let a = (if glIsRenderbuffer (gl a) (depthStencil a)
               then (issue [glDeleteRenderbuffers [depthStencil a]] a)\<lparr>depthStencil := 0\<rparr>
               else a);
          a = (if depthStencil a = 0 then gen_depthStencil e a else a);
          a = issue [Object (glBindRenderbuffer (depthStencil a))] a;
          a = (if MSAA > 1
               then issue [Data (glRenderbufferStorageMultisample MSAA w h)] a
               else issue [Data (glRenderbufferStorage w h)] a)
      in issue [Data (glFramebufferRenderbuffer GL_FRAMEBUFFER GL_DEPTH_ATTACHMENT
                        (depthStencil a))] a)"

text \<open>Lines 534 to 546: the draw buffers, the completeness check (the status is the
  driver's; an incomplete framebuffer is printed and the function goes on), and the
  window's framebuffer bound again.\<close>

definition finish_fbo :: "env \<Rightarrow> app \<Rightarrow> app" where
  "finish_fbo e a =
     (let a = issue [Pipeline (glDrawBuffers [GL_COLOR_ATTACHMENT0])] a;
          a = (if framebufferComplete e (gl a) then a else print ''Failed to create framebuffer'' a)
      in issue [Object (glBindFramebuffer GL_FRAMEBUFFER 0)] a)"

definition createFramebuffer :: "env \<Rightarrow> int \<Rightarrow> int \<Rightarrow> int \<Rightarrow> app \<Rightarrow> app" where
  "createFramebuffer e w h MSAA a =
     finish_fbo e (recreate_depthStencil e w h MSAA (recreate_renderTarget e w h MSAA (bind_fbo e a)))"

section \<open>The callbacks\<close>

text \<open>\<^verbatim>\<open>resizeCallback\<close>, lines 176 to 184. The aspect ratio goes to the camera, which is
  not modelled further.\<close>

definition resizeCallback :: "env \<Rightarrow> int \<Rightarrow> int \<Rightarrow> app \<Rightarrow> app" where
  "resizeCallback e w h a =
     (let a = a\<lparr>width := w, height := h\<rparr>;
          a = issue [Pipeline (glViewport 0 0 w h)] a;
          a = a\<lparr>camera := SetProjection e (fov a) (of_int w / of_int h) nearClipPlane farClipPlane
                              (camera a)\<rparr>
      in createFramebuffer e w h (msaaLevel a) a)"

text \<open>\<^verbatim>\<open>keyCallback\<close>, lines 195 to 276: one \<^verbatim>\<open>if\<close> after the other, with the precedence of
  \<^verbatim>\<open>||\<close> and \<^verbatim>\<open>&&\<close> as written in the zoom tests.\<close>

definition keyCallback :: "env \<Rightarrow> key \<Rightarrow> action \<Rightarrow> app \<Rightarrow> app" where
  "keyCallback e k act a =
     (let a = (if k = GLFW_KEY_ESCAPE \<and> act = GLFW_PRESS then a\<lparr>shouldClose := True\<rparr> else a);
          a = (if k = GLFW_KEY_F1 \<and> act = GLFW_PRESS
               then (let a = (if msaaLevel a > 1 then a\<lparr>msaaLevel := 1\<rparr>
                              else a\<lparr>msaaLevel := MSAA_SAMPLES\<rparr>)
                     in createFramebuffer e (width a) (height a) (msaaLevel a) a)
               else a);
          a = (if k = GLFW_KEY_F2 \<and> act = GLFW_PRESS then a\<lparr>wireframe := \<not> wireframe a\<rparr> else a);
          a = (if k = GLFW_KEY_F3 \<and> act = GLFW_PRESS
               then (if glIsEnabled (gl a) GL_CULL_FACE then issue [Pipeline (glDisable GL_CULL_FACE)] a
                     else issue [Pipeline (glEnable GL_CULL_FACE)] a)
               else a);
          a = (if k = GLFW_KEY_F4 \<and> act = GLFW_PRESS then a\<lparr>depthTest := \<not> depthTest a\<rparr> else a);
          a = (if k = GLFW_KEY_F5 \<and> act = GLFW_PRESS
               then (let a = a\<lparr>vsync := \<not> vsync a\<rparr>
                     in if vsync a then a\<lparr>swapInterval := 1\<rparr> else a\<lparr>swapInterval := 0\<rparr>)
               else a);
          a = (if k = GLFW_KEY_F6 \<and> act = GLFW_PRESS then a\<lparr>tonemapping := \<not> tonemapping a\<rparr> else a);
          a = (if k = GLFW_KEY_KP_ADD \<or> (k = GLFW_KEY_EQUAL \<and> act = GLFW_PRESS)
               then (let a = a\<lparr>fov := fov a - 1\<rparr> in if fov a < 5 then a\<lparr>fov := 5\<rparr> else a)
               else a);
          a = (if k = GLFW_KEY_KP_SUBTRACT \<or> (k = GLFW_KEY_MINUS \<and> act = GLFW_PRESS)
               then (let a = a\<lparr>fov := fov a + 1\<rparr> in if fov a \<ge> 180 then a\<lparr>fov := 179\<rparr> else a)
               else a);
          a = (if k = GLFW_KEY_BACKSPACE \<and> act = GLFW_PRESS then a\<lparr>fov := 45\<rparr> else a)
      in a\<lparr>camera := SetProjection e (fov a) (of_int (width a) / of_int (height a))
                          nearClipPlane farClipPlane (camera a)\<rparr>)"

section \<open>Start-up\<close>

text \<open>
  \<^verbatim>\<open>initOpenGL\<close>, lines 363 to 455. In \<^verbatim>\<open>numCubes > MAX_INSTANCES\<close> the \<^verbatim>\<open>int\<close> is
  converted to \<^verbatim>\<open>unsigned int\<close>: the comparison is the unsigned one of 32-bit words.
\<close>

definition initOpenGL :: "env \<Rightarrow> app \<Rightarrow> bool \<times> app" where
  "initOpenGL e a =
     (if \<not> glfwInit e then (False, a)
      else if \<not> glfwCreateWindow e then (False, print ''Failed to create the GLFW window!'' a)
      else let a = a\<lparr>handle := True\<rparr> in
      if \<not> gladLoadGL e then (False, print ''GLAD failed!'' a)
      else if GL_MAX_UNIFORM_BLOCK_SIZE e < 4096 * 4 * 4
      then (False, print ''Implementation allowed UBO size smaller than expected!'' a)
      else if numCubes e > MAX_INSTANCES
      then (False, print ''Trying to render more than the maximum number of cubes!'' a)
      else let a = (if vsync a then a\<lparr>swapInterval := 1\<rparr> else a\<lparr>swapInterval := 0\<rparr>);
               a = issue [Pipeline (glEnable GL_CULL_FACE), Pipeline glCullFace,
                          Pipeline (glEnable GL_DEPTH_TEST), Pipeline glDepthFunc,
                          Pipeline (glEnable GL_FRAMEBUFFER_SRGB)] a;
               a = resizeCallback e DefaultWidth DefaultHeight a;
               a = a\<lparr>camera := SetTransformation e (-3, 3, -5) (0, 0, 0) (0, 1, 0) (camera a)\<rparr>
           in (True, a))"

text \<open>
  The loop of \<^verbatim>\<open>createGeometry\<close>, lines 352 to 359:
  \<^verbatim>\<open>for (int i = 1; i <= numCubes; ++i)\<close> with three calls of \<^verbatim>\<open>getRandom\<close> and one
  \<^verbatim>\<open>push_back\<close> in each round. Incrementing \<^verbatim>\<open>INT_MAX\<close> is undefined.
\<close>

function position_loop :: "env \<Rightarrow> int \<Rightarrow> int \<Rightarrow> vec3 list \<Rightarrow> fault + vec3 list" where
  "position_loop e i n ps =
     (if i \<le> n then
        (let x = getRandom e (nat (3 * (i - 1))) (-5) 5;
             y = getRandom e (nat (3 * (i - 1) + 1)) 1 5;
             z = getRandom e (nat (3 * (i - 1) + 2)) (-5) 5;
             ps = ps @ [(x, y, z)]
         in if i = INT_MAX then Inl SignedOverflow else position_loop e (i + 1) n ps)
      else Inr ps)"
  by pat_completeness auto
termination
  by (relation "measure (\<lambda>(e, i, n, ps). nat (n + 1 - i))") auto

declare position_loop.simps [simp del]

text \<open>
  \<^verbatim>\<open>createGeometry\<close>, lines 298 to 360, in two parts: the vertex array, the meshes and
  the two uniform buffers (lines 300 to 345), and the cube positions (lines 347 to 359).
  \<^verbatim>\<open>reserve\<close> with a negative \<^verbatim>\<open>int\<close> asks for more than a vector can hold and throws.
\<close>

definition create_buffers :: "env \<Rightarrow> app \<Rightarrow> app" where
  "create_buffers e a =
     (let (v, g) = gen_object e VertexArray (gl a);
          a = a\<lparr>vao := v, gl := g,
                quad := Some (CreateQuadNormalTangentTex e),
                cube := Some (CreateCubeNormalTangentTex e)\<rparr>;
          (ib, g) = gen_object e Buffer (gl a);
          a = a\<lparr>instancingBuffer := ib, gl := g\<rparr>;
          a = issue [Object (glBindBuffer ib),
                     Data (glBufferData (uniformBlockDataSize e (shaderProgram a Instancing) ''InstanceBuffer'')),
                     Object (glBindBuffer 0)] a;
          (tb, g) = gen_object e Buffer (gl a);
          a = a\<lparr>transformBlockUBO := tb, gl := g\<rparr>
      in issue [Object (glBindBuffer tb),
                Data (glBufferData (uniformBlockDataSize e (shaderProgram a Default) ''TransformBlock'')),
                Object (glBindBufferBase 0 tb),
                Object (glBindBuffer 0)] a)"

definition createGeometry :: "env \<Rightarrow> app \<Rightarrow> fault + app" where
  "createGeometry e a =
     (let a = create_buffers e a
      in if sint (numCubes e) < 0 then Inl LengthError
         else case position_loop e 1 (sint (numCubes e)) (cubePositions a @ [(0, 1 / 2, 0)]) of
                Inl f \<Rightarrow> Inl f
              | Inr ps \<Rightarrow> Inr (a\<lparr>cubePositions := ps\<rparr>))"

text \<open>Modelled from the spec: \<^verbatim>\<open>Textures::CreateSingleColorTexture\<close>,
  \<^verbatim>\<open>CreateCheckerBoardTexture\<close> and \<^verbatim>\<open>LoadTexture\<close> are not among the sources; they
  "return opaque GPU handles": each call makes one texture object of its own.\<close>

definition create_texture :: "env \<Rightarrow> LoadedTextures \<Rightarrow> app \<Rightarrow> app" where
  "create_texture e t a =
     (let (n, g) = gen_object e Texture (gl a);
          g = gl_call (Object (glBindTexture GL_TEXTURE_2D n)) g
      in a\<lparr>loadedTextures := (loadedTextures a)(t := n), gl := g\<rparr>)"

text \<open>\<^verbatim>\<open>loadTextures\<close>, lines 281 to 295.\<close>

definition loadTextures :: "env \<Rightarrow> app \<Rightarrow> app" where
  "loadTextures e a = fold (create_texture e) all_textures a"

section \<open>\<^verbatim>\<open>shutDown\<close>\<close>

text \<open>
  Lines 550 to 583. The meshes release their own buffers in \<^verbatim>\<open>Geometry\<close>.
  \<^verbatim>\<open>glfwDestroyWindow\<close> ends the context; \<open>gl\<close> stays as the state the context was in at
  that moment.
\<close>

definition shutDown :: "app \<Rightarrow> app" where
  "shutDown a =
     (let a = issue (map (\<lambda>i. glDeleteProgram (shaderProgram a i)) all_programs) a;
          a = a\<lparr>quad := None, cube := None\<rparr>;
          a = issue [glDeleteBuffers [instancingBuffer a]] a;
          a = issue [glDeleteTextures [renderTarget a],
                     glDeleteTextures [depthStencil a],
                     glDeleteFramebuffers [fbo a]] a;
          a = issue [glDeleteVertexArrays [vao a]] a;
          a = issue [glDeleteTextures (map (loadedTextures a) all_textures)] a
      in a\<lparr>handle := False\<rparr>)"

section \<open>The frame\<close>

text \<open>\<^verbatim>\<open>bindTextures\<close>, lines 640 to 658.\<close>

definition bindTextures :: "env \<Rightarrow> nat \<Rightarrow> nat \<Rightarrow> nat \<Rightarrow> nat \<Rightarrow> app \<Rightarrow> app" where
  "bindTextures e diffuse normal specular occlusion a =
     issue [Object (glActiveTexture 0), Object (glBindTexture GL_TEXTURE_2D diffuse),
            Object (glBindSampler 0 (GetSamplerAnisotropic e)),
            Object (glActiveTexture 1), Object (glBindTexture GL_TEXTURE_2D normal),
            Object (glBindSampler 1 (GetSamplerAnisotropic e)),
            Object (glActiveTexture 2), Object (glBindTexture GL_TEXTURE_2D specular),
            Object (glBindSampler 2 (GetSamplerAnisotropic e)),
            Object (glActiveTexture 3), Object (glBindTexture GL_TEXTURE_2D occlusion),
            Object (glBindSampler 3 (GetSamplerAnisotropic e))] a"

text \<open>
  \<^verbatim>\<open>updateInstanceData\<close>, lines 661 to 685. The \<^verbatim>\<open>memcpy\<close> reads
  \<^verbatim>\<open>numCubes * sizeof(InstanceData)\<close> bytes from the staging vector; the product is taken
  in \<^verbatim>\<open>size_t\<close>, so a negative \<^verbatim>\<open>numCubes\<close> asks for more bytes than the vector has. The
  capacity of the mapped buffer is the size of the shader's block and is not checked by
  the program.
\<close>

definition updateInstanceData :: "env \<Rightarrow> app \<Rightarrow> fault + app" where
  "updateInstanceData e a =
     (let n = sint (numCubes e) in
      case instance_loop 0 n (cubePositions a) (instanceData a) of
        Inl f \<Rightarrow> Inl f
      | Inr buf \<Rightarrow>
          (let a = a\<lparr>instanceData := buf\<rparr>;
               a = issue [Object (glBindBufferBase 1 (instancingBuffer a)), Data glMapBuffer] a
           in if n < 0 \<or> int (length buf) < n then Inl OutOfBounds
              else Inr (issue [Data (memcpy_mapped (n * sizeof_InstanceData)
                                       (concat (map mat3x4_floats (take (nat n) buf)))),
                               Data glUnmapBuffer] a)))"

text \<open>\<^verbatim>\<open>updateProgramData\<close>, lines 687 to 699.\<close>

definition updateProgramData :: "env \<Rightarrow> nat \<Rightarrow> vec3 \<Rightarrow> app \<Rightarrow> app" where
  "updateProgramData e program lightPosition a =
     (let lightLoc = glGetUniformLocation e program ''lightPosWS'';
          (lx, ly, lz) = lightPosition;
          a = issue [Data (glUniform lightLoc [lx, ly, lz])] a;
          viewPosLoc = glGetUniformLocation e program ''viewPosWS'';
          (c0, c1, c2, viewPos) = GetViewToWorld (camera a)
      in issue [Data (glUniform viewPosLoc (vec4_floats viewPos))] a)"

text \<open>\<^verbatim>\<open>updateTransformBlock\<close>, lines 702 to 722.\<close>

definition updateTransformBlock :: "app \<Rightarrow> app" where
  "updateTransformBlock a =
     (let a = issue [Object (glBindBuffer (transformBlockUBO a))] a;
          worldToView = mat3x4_of_mat4x4 (glm_transpose (GetWorldToView (camera a)));
          a = issue [Data (glBufferSubData 0 sizeof_mat3x4 (mat3x4_floats worldToView))] a;
          a = issue [Data (glBufferSubData sizeof_mat3x4 sizeof_mat4x4
                             (mat4x4_floats (GetProjection (camera a))))] a
      in issue [Object (glBindBuffer 0)] a)"

text \<open>\<^verbatim>\<open>glm::scale(v)\<close> and the conversion to \<^verbatim>\<open>mat4x3\<close> (four columns of three rows), in
  memory order.\<close>

fun glm_scale :: "vec3 \<Rightarrow> mat4x4" where
  "glm_scale (x, y, z) = ((x, 0, 0, 0), (0, y, 0, 0), (0, 0, z, 0), (0, 0, 0, 1))"

fun mat4x3_floats :: "mat4x4 \<Rightarrow> real list" where
  "mat4x3_floats ((a0, a1, a2, a3), (b0, b1, b2, b3), (c0, c1, c2, c3), (d0, d1, d2, d3)) =
     [a0, a1, a2, b0, b1, b2, c0, c1, c2, d0, d1, d2]"

definition lightPosition :: vec3 where
  "lightPosition = (-3, 3, 0)"

text \<open>The parts of \<^verbatim>\<open>renderScene\<close>: binding and clearing the offscreen framebuffer
  (lines 728 to 757).\<close>

definition begin_offscreen :: "app \<Rightarrow> app" where
  "begin_offscreen a =
     (let a = issue [Object (glBindFramebuffer GL_FRAMEBUFFER (fbo a))] a;
          a = (if depthTest a
               then issue [Pipeline (glEnable GL_DEPTH_TEST), Pipeline glDepthFunc,
                           Pipeline (glDepthMask True)] a
               else issue [Pipeline (glDisable GL_DEPTH_TEST)] a);
          a = (if msaaLevel a > 1 then issue [Pipeline (glEnable GL_MULTISAMPLE)] a
               else issue [Pipeline (glDisable GL_MULTISAMPLE)] a);
          a = (if wireframe a then issue [Pipeline (glPolygonMode GL_LINE)] a
               else issue [Pipeline (glPolygonMode GL_FILL)] a)
      in issue [Pipeline (glClearColor (1 / 10) (2 / 10) (4 / 10) 1), Draw (glClear True True)] a)"

text \<open>Drawing the floor (lines 765 to 777); \<^verbatim>\<open>quad\<close> is dereferenced last.\<close>

definition draw_floor :: "env \<Rightarrow> app \<Rightarrow> fault + app" where
  "draw_floor e a =
     (let a = issue [Object (glUseProgram (shaderProgram a Default))] a;
          a = updateProgramData e (shaderProgram a Default) lightPosition a;
          a = issue [Data (glUniformMatrix4x3fv 0 (mat4x3_floats (glm_scale (30, 1, 30))))] a;
          a = bindTextures e (loadedTextures a CheckerBoard) (loadedTextures a Blue)
                (loadedTextures a Grey) (loadedTextures a White) a
      in case quad a of
           None \<Rightarrow> Inl NullPointer
         | Some q \<Rightarrow> Inr (issue [Object (glBindVertexArray (GetVAO q)),
                                 Draw (glDrawElements GL_TRIANGLES (GetIBOSize q))] a))"

text \<open>Drawing the cubes (lines 782 to 798).\<close>

definition draw_cubes :: "env \<Rightarrow> app \<Rightarrow> fault + app" where
  "draw_cubes e a =
     (let a = issue [Object (glUseProgram (shaderProgram a Instancing))] a;
          a = updateProgramData e (shaderProgram a Instancing) lightPosition a
      in case updateInstanceData e a of
           Inl f \<Rightarrow> Inl f
         | Inr a \<Rightarrow>
             (let a = bindTextures e (loadedTextures a Diffuse) (loadedTextures a Normal)
                        (loadedTextures a Specular) (loadedTextures a Occlusion) a
              in case cube a of
                   None \<Rightarrow> Inl NullPointer
                 | Some c \<Rightarrow>
                     Inr (issue [Object (glBindVertexArray (GetVAO c)),
                                 Draw (glDrawElementsInstanced GL_TRIANGLES (GetIBOSize c)
                                         (sint (numCubes e))),
                                 Object (glBindBufferBase 1 0)] a)))"

text \<open>Drawing the light and unbinding (lines 803 to 823).\<close>

definition draw_light :: "env \<Rightarrow> app \<Rightarrow> app" where
  "draw_light e a =
     (let a = issue [Object (glUseProgram (shaderProgram a PointRendering))] a;
          loc = glGetUniformLocation e (shaderProgram a PointRendering) ''position'';
          (lx, ly, lz) = lightPosition;
          a = issue [Data (glUniform loc [lx, ly, lz])] a;
          loc = glGetUniformLocation e (shaderProgram a PointRendering) ''color'';
          a = issue [Data (glUniform 0 [1, 1, 1]), Pipeline (glPointSize 10),
                     Object (glBindVertexArray (vao a)), Draw (glDrawArrays GL_POINTS 0 1)] a
      in issue [Object (glBindVertexArray 0), Object (glUseProgram 0)] a)"

text \<open>The two ways to the window (lines 825 to 868).\<close>

definition present :: "app \<Rightarrow> app" where
  "present a =
     (if tonemapping a
      then issue [Object (glBindFramebuffer GL_FRAMEBUFFER 0),
                  Pipeline (glPolygonMode GL_FILL),
                  Pipeline (glDisable GL_MULTISAMPLE), Pipeline (glDisable GL_DEPTH_TEST),
                  Pipeline (glClearColor 0 0 0 1), Draw (glClear True False),
                  Object (glUseProgram (shaderProgram a Tonemapping)),
                  Data (glUniform 0 [of_int (msaaLevel a)]),
                  Object (glActiveTexture 0),
                  Object (glBindTexture (if msaaLevel a > 1 then GL_TEXTURE_2D_MULTISAMPLE
                                         else GL_TEXTURE_2D) (renderTarget a)),
                  Object (glBindSampler 0 0),
                  Object (glBindVertexArray (vao a)), Draw (glDrawArrays GL_TRIANGLES 0 6),
                  Object (glBindVertexArray 0), Object (glUseProgram 0)] a
      else issue [Object (glBindFramebuffer GL_DRAW_FRAMEBUFFER 0),
                  Object (glBindFramebuffer GL_READ_FRAMEBUFFER (fbo a)),
                  Pipeline glDrawBuffer,
                  Draw (glBlitFramebuffer 0 0 (width a) (height a) 0 0 (width a) (height a))] a)"

text \<open>\<^verbatim>\<open>renderScene\<close>, lines 724 to 869.\<close>

definition renderScene :: "env \<Rightarrow> app \<Rightarrow> fault + app" where
  "renderScene e a =
     (let a = updateTransformBlock a;
          a = begin_offscreen a
      in case draw_floor e a of
           Inl f \<Rightarrow> Inl f
         | Inr a \<Rightarrow>
             (case draw_cubes e a of
                Inl f \<Rightarrow> Inl f
              | Inr a \<Rightarrow> Inr (present (draw_light e a))))"

section \<open>The main loop and the program\<close>

datatype event = Resize int int | Key key action | MouseMove real real

text \<open>\<^verbatim>\<open>glfwPollEvents\<close> runs the callbacks; the mouse position only feeds the camera.\<close>

fun dispatch :: "env \<Rightarrow> event \<Rightarrow> app \<Rightarrow> app" where
  "dispatch e (Resize w h) a = resizeCallback e w h a"
| "dispatch e (Key k act) a = keyCallback e k act a"
| "dispatch e (MouseMove x y) a = a"

text \<open>One round of \<^verbatim>\<open>mainLoop\<close> (lines 877 to 897) with the events that arrive in it.
  \<^verbatim>\<open>processInput\<close> (lines 588 to 637) reads the keys and the mouse and calls
  \<^verbatim>\<open>SetMovementSpeed\<close>, \<^verbatim>\<open>Move\<close>, \<^verbatim>\<open>SetProjection\<close> and \<^verbatim>\<open>SetTransformation\<close> of the
  camera; the class \<^verbatim>\<open>Camera\<close> is not among the sources, so what these calls make of
  the camera in a round is the environment's. Nothing else reads the mouse status.\<close>

definition frame :: "env \<Rightarrow> event list \<Rightarrow> app \<Rightarrow> fault + app" where
  "frame e evs a =
     (let a = fold (dispatch e) evs a;
          a = a\<lparr>camera := processInput e (camera a)\<rparr>
      in renderScene e a)"

text \<open>\<^verbatim>\<open>mainLoop\<close> over the events of finitely many rounds; it ends when the window is to
  close.\<close>

fun mainLoop :: "env \<Rightarrow> event list list \<Rightarrow> app \<Rightarrow> fault + app" where
  "mainLoop e [] a = Inr a"
| "mainLoop e (evs # rest) a =
     (if shouldClose a then Inr a
      else case frame e evs a of Inl f \<Rightarrow> Inl f | Inr a \<Rightarrow> mainLoop e rest a)"

text \<open>\<^verbatim>\<open>main\<close> up to the main loop (lines 903 to 923). The result \<open>False\<close> is the exit
  with -1 after \<^verbatim>\<open>shutDown\<close>; \<^verbatim>\<open>compileShaders\<close> is the collaborator's and leaves the
  program handles.\<close>

definition startup :: "env \<Rightarrow> app \<Rightarrow> fault + bool \<times> app" where
  "startup e a =
     (case initOpenGL e a of
        (ok, a) \<Rightarrow>
          (if \<not> ok then Inr (False, shutDown (print ''Failed to initialize OpenGL!'' a))
           else if \<not> compileShaders e
           then Inr (False, shutDown (print ''Failed to compile shaders!'' a))
           else (case createGeometry e (a\<lparr>shaderProgram := compiledProgram e\<rparr>) of
                   Inl f \<Rightarrow> Inl f
                 | Inr a \<Rightarrow> Inr (True, loadTextures e a))))"

text \<open>The state before \<^verbatim>\<open>main\<close>: the initial values of the globals, a staging vector of
  \<^verbatim>\<open>MAX_INSTANCES\<close> records, and a context with no objects, of an implementation with
  the limits \<open>lims\<close>.\<close>

definition gl_initial :: "gl_limits \<Rightarrow> gl_state" where
  "gl_initial lims =
     \<lparr>calls = [], draw_framebuffer = 0, read_framebuffer = 0, fb_image = (\<lambda>f. []),
      enabled = (\<lambda>c. c = GL_MULTISAMPLE),
      texture_names = {}, texture_objects = {}, texture_storage = (\<lambda>n. None),
      active_texture = 0, texture_binding = (\<lambda>u t. 0),
      renderbuffer_names = {}, renderbuffer_objects = {}, renderbuffer_storage = (\<lambda>n. None),
      renderbuffer_binding = 0,
      framebuffer_names = {}, color_attachment = (\<lambda>f. 0), depth_attachment = (\<lambda>f. 0),
      buffer_names = {}, vertex_array_names = {}, limits = lims\<rparr>"

definition app_initial :: "gl_limits \<Rightarrow> camera \<Rightarrow> app" where
  "app_initial lims cam =
     \<lparr>width = 0, height = 0, handle = False, shouldClose = False, swapInterval = 0,
      fov = 45, msaaLevel = MSAA_SAMPLES, cubePositions = [], camera = cam,
      quad = None, cube = None, vao = 0, fbo = 0, renderTarget = 0, depthStencil = 0,
      vsync = True, depthTest = True, wireframe = False, tonemapping = True,
      instancingBuffer = 0, transformBlockUBO = 0,
      loadedTextures = (\<lambda>t. 0), shaderProgram = (\<lambda>p. 0),
      instanceData = replicate (unat MAX_INSTANCES) ((0, 0, 0, 0), (0, 0, 0, 0), (0, 0, 0, 0)),
      console = [], gl = gl_initial lims\<rparr>"

section \<open>What the specification speaks of\<close>

text \<open>
  The matrices of the specification, written without GLM: the translation by a vector,
  the rotation about an axis by an angle in degrees (the axis is normalised), both as 4x4
  matrices in columns, and the three rows of four entries that are kept of a 4x4 matrix
  whose last row is (0, 0, 0, 1).
\<close>

fun translation_matrix :: "vec3 \<Rightarrow> mat4x4" where
  "translation_matrix (x, y, z) = ((1, 0, 0, 0), (0, 1, 0, 0), (0, 0, 1, 0), (x, y, z, 1))"

fun rotation_matrix :: "vec3 \<Rightarrow> real \<Rightarrow> mat4x4" where
  "rotation_matrix (x, y, z) degrees =
     (let l = sqrt (x * x + y * y + z * z);
          ux = x / l; uy = y / l; uz = z / l;
          c = cos (degrees * pi / 180); s = sin (degrees * pi / 180)
      in ((c + (1 - c) * ux * ux, (1 - c) * ux * uy + s * uz, (1 - c) * ux * uz - s * uy, 0),
          ((1 - c) * uy * ux - s * uz, c + (1 - c) * uy * uy, (1 - c) * uy * uz + s * ux, 0),
          ((1 - c) * uz * ux + s * uy, (1 - c) * uz * uy - s * ux, c + (1 - c) * uz * uz, 0),
          (0, 0, 0, 1)))"

fun rows_3x4 :: "mat4x4 \<Rightarrow> mat3x4" where
  "rows_3x4 ((a0, a1, a2, a3), (b0, b1, b2, b3), (c0, c1, c2, c3), (d0, d1, d2, d3)) =
     ((a0, b0, c0, d0), (a1, b1, c1, d1), (a2, b2, c2, d2))"

text \<open>Reading an instance record back: the column (0, 0, 0, 1) that the conversion to
  \<^verbatim>\<open>mat3x4\<close> dropped is put back, and the matrix is transposed again.\<close>

fun unpack_instance :: "mat3x4 \<Rightarrow> mat4x4" where
  "unpack_instance (r0, r1, r2) = glm_transpose (r0, r1, r2, (0, 0, 0, 1))"

section \<open>Invariants of a run\<close>

text \<open>The driver never returns 0 or a name that is in use.\<close>

definition driver_ok :: "env \<Rightarrow> bool" where
  "driver_ok e \<longleftrightarrow>
     (\<forall>k g. finite (names_in_use k g) \<longrightarrow> gen_name e k g \<noteq> 0 \<and> gen_name e k g \<notin> names_in_use k g)"

text \<open>Of textures, renderbuffers and framebuffers finitely many names are in use, 0 is
  none of them, and objects have names.\<close>

definition names_ok :: "gl_state \<Rightarrow> bool" where
  "names_ok g \<longleftrightarrow>
     finite (texture_names g) \<and> finite (renderbuffer_names g) \<and> finite (framebuffer_names g) \<and>
     0 \<notin> texture_names g \<and> 0 \<notin> renderbuffer_names g \<and> 0 \<notin> framebuffer_names g \<and>
     texture_objects g \<subseteq> texture_names g \<and> renderbuffer_objects g \<subseteq> renderbuffer_names g"

text \<open>Each of the three framebuffer handles of the program is 0 or an object of its kind.\<close>

definition handles_ok :: "app \<Rightarrow> bool" where
  "handles_ok a \<longleftrightarrow>
     names_ok (gl a) \<and>
     (fbo a = 0 \<or> fbo a \<in> framebuffer_names (gl a)) \<and>
     (renderTarget a = 0 \<or> renderTarget a \<in> texture_objects (gl a)) \<and>
     (depthStencil a = 0 \<or> depthStencil a \<in> renderbuffer_objects (gl a))"

text \<open>The scene after start-up: the staging vector has \<^verbatim>\<open>MAX_INSTANCES\<close> records, there
  are \<open>numCubes + 1\<close> positions, \<open>numCubes\<close> passed the check of \<^verbatim>\<open>initOpenGL\<close>, and the
  meshes exist.\<close>

definition scene_ok :: "env \<Rightarrow> app \<Rightarrow> bool" where
  "scene_ok e a \<longleftrightarrow>
     length (instanceData a) = unat MAX_INSTANCES \<and>
     int (length (cubePositions a)) = sint (numCubes e) + 1 \<and>
     0 \<le> sint (numCubes e) \<and> sint (numCubes e) \<le> 1024 \<and>
     quad a \<noteq> None \<and> cube a \<noteq> None"

section \<open>The commands of a frame\<close>

text \<open>The commands issued between two states, the draw calls among them, and the
  instanced ones.\<close>

definition calls_between :: "app \<Rightarrow> app \<Rightarrow> gl_cmd list" where
  "calls_between a a' = drop (length (calls (gl a))) (calls (gl a'))"

fun is_draw :: "gl_cmd \<Rightarrow> bool" where
  "is_draw (Draw (glDrawElements p n)) = True"
| "is_draw (Draw (glDrawElementsInstanced p n k)) = True"
| "is_draw (Draw (glDrawArrays p i n)) = True"
| "is_draw c = False"

fun is_instanced_draw :: "gl_cmd \<Rightarrow> bool" where
  "is_instanced_draw (Draw (glDrawElementsInstanced p n k)) = True"
| "is_instanced_draw c = False"

text \<open>
  The commands of one \<^verbatim>\<open>renderScene\<close> as lists, part by part, for a state \<open>a\<close> at the
  start of the frame, the staging vector \<open>buf\<close> after the instance update, and the two
  meshes. That \<^verbatim>\<open>renderScene\<close> issues exactly these is proved below.
\<close>

definition transform_block_calls :: "app \<Rightarrow> gl_cmd list" where
  "transform_block_calls a =
     [Object (glBindBuffer (transformBlockUBO a)),
      Data (glBufferSubData 0 sizeof_mat3x4
              (mat3x4_floats (mat3x4_of_mat4x4 (glm_transpose (GetWorldToView (camera a)))))),
      Data (glBufferSubData sizeof_mat3x4 sizeof_mat4x4 (mat4x4_floats (GetProjection (camera a)))),
      Object (glBindBuffer 0)]"

definition begin_offscreen_calls :: "app \<Rightarrow> gl_cmd list" where
  "begin_offscreen_calls a =
     [Object (glBindFramebuffer GL_FRAMEBUFFER (fbo a))] @
     (if depthTest a
      then [Pipeline (glEnable GL_DEPTH_TEST), Pipeline glDepthFunc, Pipeline (glDepthMask True)]
      else [Pipeline (glDisable GL_DEPTH_TEST)]) @
     [Pipeline (if msaaLevel a > 1 then glEnable GL_MULTISAMPLE else glDisable GL_MULTISAMPLE),
      Pipeline (glPolygonMode (if wireframe a then GL_LINE else GL_FILL)),
      Pipeline (glClearColor (1 / 10) (2 / 10) (4 / 10) 1), Draw (glClear True True)]"

definition program_data_calls :: "env \<Rightarrow> nat \<Rightarrow> app \<Rightarrow> gl_cmd list" where
  "program_data_calls e program a =
     [Data (glUniform (glGetUniformLocation e program ''lightPosWS'') [-3, 3, 0]),
      Data (glUniform (glGetUniformLocation e program ''viewPosWS'')
              (vec4_floats (snd (snd (snd (GetViewToWorld (camera a)))))))]"

definition bind_textures_calls :: "env \<Rightarrow> nat \<Rightarrow> nat \<Rightarrow> nat \<Rightarrow> nat \<Rightarrow> gl_cmd list" where
  "bind_textures_calls e diffuse normal specular occlusion =
     [Object (glActiveTexture 0), Object (glBindTexture GL_TEXTURE_2D diffuse),
      Object (glBindSampler 0 (GetSamplerAnisotropic e)),
      Object (glActiveTexture 1), Object (glBindTexture GL_TEXTURE_2D normal),
      Object (glBindSampler 1 (GetSamplerAnisotropic e)),
      Object (glActiveTexture 2), Object (glBindTexture GL_TEXTURE_2D specular),
      Object (glBindSampler 2 (GetSamplerAnisotropic e)),
      Object (glActiveTexture 3), Object (glBindTexture GL_TEXTURE_2D occlusion),
      Object (glBindSampler 3 (GetSamplerAnisotropic e))]"

definition floor_calls :: "env \<Rightarrow> app \<Rightarrow> mesh \<Rightarrow> gl_cmd list" where
  "floor_calls e a q =
     [Object (glUseProgram (shaderProgram a Default))] @
     program_data_calls e (shaderProgram a Default) a @
     [Data (glUniformMatrix4x3fv 0 [30, 0, 0, 0, 1, 0, 0, 0, 30, 0, 0, 0])] @
     bind_textures_calls e (loadedTextures a CheckerBoard) (loadedTextures a Blue)
       (loadedTextures a Grey) (loadedTextures a White) @
     [Object (glBindVertexArray (GetVAO q)), Draw (glDrawElements GL_TRIANGLES (GetIBOSize q))]"

definition instance_upload_calls :: "env \<Rightarrow> app \<Rightarrow> InstanceData list \<Rightarrow> gl_cmd list" where
  "instance_upload_calls e a buf =
     [Object (glBindBufferBase 1 (instancingBuffer a)), Data glMapBuffer,
      Data (memcpy_mapped (sint (numCubes e) * sizeof_InstanceData)
              (concat (map mat3x4_floats (take (nat (sint (numCubes e))) buf)))),
      Data glUnmapBuffer]"

definition cubes_calls :: "env \<Rightarrow> app \<Rightarrow> InstanceData list \<Rightarrow> mesh \<Rightarrow> gl_cmd list" where
  "cubes_calls e a buf c =
     [Object (glUseProgram (shaderProgram a Instancing))] @
     program_data_calls e (shaderProgram a Instancing) a @
     instance_upload_calls e a buf @
     bind_textures_calls e (loadedTextures a Diffuse) (loadedTextures a Normal)
       (loadedTextures a Specular) (loadedTextures a Occlusion) @
     [Object (glBindVertexArray (GetVAO c)),
      Draw (glDrawElementsInstanced GL_TRIANGLES (GetIBOSize c) (sint (numCubes e))),
      Object (glBindBufferBase 1 0)]"

definition light_calls :: "env \<Rightarrow> app \<Rightarrow> gl_cmd list" where
  "light_calls e a =
     [Object (glUseProgram (shaderProgram a PointRendering)),
      Data (glUniform (glGetUniformLocation e (shaderProgram a PointRendering) ''position'') [-3, 3, 0]),
      Data (glUniform 0 [1, 1, 1]), Pipeline (glPointSize 10),
      Object (glBindVertexArray (vao a)), Draw (glDrawArrays GL_POINTS 0 1),
      Object (glBindVertexArray 0), Object (glUseProgram 0)]"

definition present_calls :: "app \<Rightarrow> gl_cmd list" where
  "present_calls a =
     (if tonemapping a
      then [Object (glBindFramebuffer GL_FRAMEBUFFER 0),
            Pipeline (glPolygonMode GL_FILL),
            Pipeline (glDisable GL_MULTISAMPLE), Pipeline (glDisable GL_DEPTH_TEST),
            Pipeline (glClearColor 0 0 0 1), Draw (glClear True False),
            Object (glUseProgram (shaderProgram a Tonemapping)),
            Data (glUniform 0 [of_int (msaaLevel a)]),
            Object (glActiveTexture 0),
            Object (glBindTexture (if msaaLevel a > 1 then GL_TEXTURE_2D_MULTISAMPLE
                                   else GL_TEXTURE_2D) (renderTarget a)),
            Object (glBindSampler 0 0),
            Object (glBindVertexArray (vao a)), Draw (glDrawArrays GL_TRIANGLES 0 6),
            Object (glBindVertexArray 0), Object (glUseProgram 0)]
      else [Object (glBindFramebuffer GL_DRAW_FRAMEBUFFER 0),
            Object (glBindFramebuffer GL_READ_FRAMEBUFFER (fbo a)),
            Pipeline glDrawBuffer,
            Draw (glBlitFramebuffer 0 0 (width a) (height a) 0 0 (width a) (height a))])"

definition offscreen_calls :: "env \<Rightarrow> app \<Rightarrow> InstanceData list \<Rightarrow> mesh \<Rightarrow> mesh \<Rightarrow> gl_cmd list" where
  "offscreen_calls e a buf q c =
     begin_offscreen_calls a @ floor_calls e a q @ cubes_calls e a buf c @ light_calls e a"

text \<open>The state \<^verbatim>\<open>initOpenGL\<close> hands to \<^verbatim>\<open>resizeCallback\<close> (lines 423 to 437).\<close>

definition init_context :: "app \<Rightarrow> app" where
  "init_context a =
     issue [Pipeline (glEnable GL_CULL_FACE), Pipeline glCullFace,
            Pipeline (glEnable GL_DEPTH_TEST), Pipeline glDepthFunc,
            Pipeline (glEnable GL_FRAMEBUFFER_SRGB)]
       (a\<lparr>handle := True, swapInterval := (if vsync a then 1 else 0)\<rparr>)"

text \<open>A state in which frames are rendered: the scene is there, the handles are objects,
  the framebuffer object exists, and the multisample level is 1 or \<^verbatim>\<open>MSAA_SAMPLES\<close>.\<close>

definition ready :: "env \<Rightarrow> app \<Rightarrow> bool" where
  "ready e a \<longleftrightarrow>
     scene_ok e a \<and> handles_ok a \<and> fbo a \<noteq> 0 \<and> renderTarget a \<noteq> 0 \<and> depthStencil a \<noteq> 0 \<and>
     (msaaLevel a = 1 \<or> msaaLevel a = MSAA_SAMPLES)"

text \<open>The commands that give the render target and the depth buffer their storage and
  attach them (lines 490 to 503 and 523 to 532).\<close>

definition renderTarget_storage_calls :: "int \<Rightarrow> int \<Rightarrow> int \<Rightarrow> nat \<Rightarrow> gl_cmd list" where
  "renderTarget_storage_calls w h m n =
     (if m > 1
      then [Object (glBindTexture GL_TEXTURE_2D_MULTISAMPLE n),
            Data (glTexImage2DMultisample GL_TEXTURE_2D_MULTISAMPLE m w h),
            Data (glFramebufferTexture2D GL_FRAMEBUFFER GL_COLOR_ATTACHMENT0
                    GL_TEXTURE_2D_MULTISAMPLE n)]
      else [Object (glBindTexture GL_TEXTURE_2D n),
            Data (glTexImage2D GL_TEXTURE_2D w h),
            Data (glTexParameteri GL_TEXTURE_2D),
            Data (glTexParameteri GL_TEXTURE_2D),
            Data (glFramebufferTexture2D GL_FRAMEBUFFER GL_COLOR_ATTACHMENT0 GL_TEXTURE_2D n)])"

definition depthStencil_storage_calls :: "int \<Rightarrow> int \<Rightarrow> int \<Rightarrow> nat \<Rightarrow> gl_cmd list" where
  "depthStencil_storage_calls w h m n =
     [Object (glBindRenderbuffer n),
      (if m > 1 then Data (glRenderbufferStorageMultisample m w h)
       else Data (glRenderbufferStorage w h)),
      Data (glFramebufferRenderbuffer GL_FRAMEBUFFER GL_DEPTH_ATTACHMENT n)]"

text \<open>The commands that reserve or release names.\<close>

fun allocates :: "gl_cmd \<Rightarrow> bool" where
  "allocates (Object (glGen k n)) = True"
| "allocates (Object (glDelete k ns)) = True"
| "allocates c = False"

text \<open>The commands that change what a framebuffer renders to: those that reserve or
  release names, give storage, or attach.\<close>

fun changes_targets :: "gl_cmd \<Rightarrow> bool" where
  "changes_targets (Object (glGen k n)) = True"
| "changes_targets (Object (glDelete k ns)) = True"
| "changes_targets (Data (glTexImage2D t w h)) = True"
| "changes_targets (Data (glTexImage2DMultisample t m w h)) = True"
| "changes_targets (Data (glRenderbufferStorage w h)) = True"
| "changes_targets (Data (glRenderbufferStorageMultisample m w h)) = True"
| "changes_targets (Data (glFramebufferTexture2D ft att t n)) = True"
| "changes_targets (Data (glFramebufferRenderbuffer ft att n)) = True"
| "changes_targets c = False"

text \<open>An implementation with the limits \<open>l\<close> accepts the storage commands that
  \<^verbatim>\<open>createFramebuffer\<close> issues for the width \<open>w\<close>, the height \<open>h\<close> and \<open>m\<close> samples.\<close>

definition storage_accepted :: "gl_limits \<Rightarrow> int \<Rightarrow> int \<Rightarrow> int \<Rightarrow> bool" where
  "storage_accepted l w h m \<longleftrightarrow>
     size_ok (max_texture_size l) w h \<and> size_ok (max_renderbuffer_size l) w h \<and>
     (m \<le> 1 \<or> m \<le> max_texture_samples l \<and> m \<le> max_renderbuffer_samples l)"

text \<open>The arguments the specification calls valid for \<^verbatim>\<open>createFramebuffer\<close>.\<close>

definition valid_fb_args :: "int \<Rightarrow> int \<Rightarrow> int \<Rightarrow> bool" where
  "valid_fb_args w h MSAA \<longleftrightarrow> 0 < w \<and> 0 < h \<and> (MSAA = 1 \<or> MSAA = MSAA_SAMPLES)"

section \<open>A configuration to run the model on\<close>

text \<open>
  Ten cubes as in the source, a driver that returns the name after the largest one in
  use and has the limits of a common desktop implementation, collaborators that
  succeed, and a camera that stays where it is.
\<close>

definition example_limits :: gl_limits where
  "example_limits =
     \<lparr>max_texture_size = 16384, max_renderbuffer_size = 16384,
      max_texture_samples = 8, max_renderbuffer_samples = 8\<rparr>"

definition example_camera :: camera where
  "example_camera =
     \<lparr>GetWorldToView = ((1, 0, 0, 0), (0, 1, 0, 0), (0, 0, 1, 0), (1, 2, 3, 1)),
      GetProjection = ((2, 0, 0, 0), (0, 3, 0, 0), (0, 0, -1, -1), (0, 0, -2, 0)),
      GetViewToWorld = ((1, 0, 0, 0), (0, 1, 0, 0), (0, 0, 1, 0), (-1, -2, -3, 1))\<rparr>"

definition example_env :: env where
  "example_env =
     \<lparr>numCubes = 10,
      gen_name = (\<lambda>k g. Suc (Max (insert 0 (names_in_use k g)))),
      glfwInit = True, glfwCreateWindow = True, gladLoadGL = True,
      GL_MAX_UNIFORM_BLOCK_SIZE = 65536,
      compileShaders = True,
      compiledProgram = (\<lambda>p. case p of Default \<Rightarrow> 1 | Instancing \<Rightarrow> 2
                               | PointRendering \<Rightarrow> 3 | Tonemapping \<Rightarrow> 4),
      uniformBlockDataSize = (\<lambda>p n. 49152),
      glGetUniformLocation = (\<lambda>p n. 0),
      getRandom = (\<lambda>k lo hi. lo),
      CreateQuadNormalTangentTex = \<lparr>GetVAO = 1, GetIBOSize = 6\<rparr>,
      CreateCubeNormalTangentTex = \<lparr>GetVAO = 2, GetIBOSize = 36\<rparr>,
      GetSamplerAnisotropic = 1,
      framebufferComplete = (\<lambda>g. True),
      SetProjection = (\<lambda>fv aspect near far c. c),
      SetTransformation = (\<lambda>eye target up c. c),
      processInput = (\<lambda>c. c)\<rparr>"

text \<open>The state in which the first frame of this configuration is rendered.\<close>

definition example_scene :: app where
  "example_scene = snd (projr (startup example_env (app_initial example_limits example_camera)))"

section \<open>Commands and the log\<close>

lemma calls_gl_call [simp]: "calls (gl_call c g) = calls g @ [c]"
  by (simp add: gl_call_def)

lemma gl_calls_Nil: "gl_calls [] g = g"
  by (simp add: gl_calls_def)

lemma gl_calls_Cons: "gl_calls (c # cs) g = gl_calls cs (gl_call c g)"
  by (simp add: gl_calls_def)

lemma gl_calls_append: "gl_calls (cs @ ds) g = gl_calls ds (gl_calls cs g)"
  by (simp add: gl_calls_def)

lemma calls_gl_calls [simp]: "calls (gl_calls cs g) = calls g @ cs"
  by (induction cs arbitrary: g) (simp_all add: gl_calls_Nil gl_calls_Cons)

lemma issue_fields [simp]:
  "width (issue cs a) = width a"
  "height (issue cs a) = height a"
  "handle (issue cs a) = handle a"
  "shouldClose (issue cs a) = shouldClose a"
  "swapInterval (issue cs a) = swapInterval a"
  "fov (issue cs a) = fov a"
  "msaaLevel (issue cs a) = msaaLevel a"
  "cubePositions (issue cs a) = cubePositions a"
  "camera (issue cs a) = camera a"
  "quad (issue cs a) = quad a"
  "cube (issue cs a) = cube a"
  "vao (issue cs a) = vao a"
  "fbo (issue cs a) = fbo a"
  "renderTarget (issue cs a) = renderTarget a"
  "depthStencil (issue cs a) = depthStencil a"
  "vsync (issue cs a) = vsync a"
  "depthTest (issue cs a) = depthTest a"
  "wireframe (issue cs a) = wireframe a"
  "tonemapping (issue cs a) = tonemapping a"
  "instancingBuffer (issue cs a) = instancingBuffer a"
  "transformBlockUBO (issue cs a) = transformBlockUBO a"
  "loadedTextures (issue cs a) = loadedTextures a"
  "shaderProgram (issue cs a) = shaderProgram a"
  "instanceData (issue cs a) = instanceData a"
  "console (issue cs a) = console a"
  "gl (issue cs a) = gl_calls cs (gl a)"
  by (simp_all add: issue_def)

lemma issue_issue: "issue ds (issue cs a) = issue (cs @ ds) a"
  by (simp add: issue_def gl_calls_append)

lemma print_fields [simp]:
  "width (print msg a) = width a"
  "height (print msg a) = height a"
  "handle (print msg a) = handle a"
  "shouldClose (print msg a) = shouldClose a"
  "swapInterval (print msg a) = swapInterval a"
  "fov (print msg a) = fov a"
  "msaaLevel (print msg a) = msaaLevel a"
  "cubePositions (print msg a) = cubePositions a"
  "camera (print msg a) = camera a"
  "quad (print msg a) = quad a"
  "cube (print msg a) = cube a"
  "vao (print msg a) = vao a"
  "fbo (print msg a) = fbo a"
  "renderTarget (print msg a) = renderTarget a"
  "depthStencil (print msg a) = depthStencil a"
  "vsync (print msg a) = vsync a"
  "depthTest (print msg a) = depthTest a"
  "wireframe (print msg a) = wireframe a"
  "tonemapping (print msg a) = tonemapping a"
  "instancingBuffer (print msg a) = instancingBuffer a"
  "transformBlockUBO (print msg a) = transformBlockUBO a"
  "loadedTextures (print msg a) = loadedTextures a"
  "shaderProgram (print msg a) = shaderProgram a"
  "instanceData (print msg a) = instanceData a"
  "gl (print msg a) = gl a"
  by (simp_all add: print_def)

section \<open>What a command leaves as it is\<close>

lemma gl_call_Pipeline [simp]:
  "draw_framebuffer (gl_call (Pipeline c) g) = draw_framebuffer g"
  "read_framebuffer (gl_call (Pipeline c) g) = read_framebuffer g"
  "fb_image (gl_call (Pipeline c) g) = fb_image g"
  "texture_names (gl_call (Pipeline c) g) = texture_names g"
  "texture_objects (gl_call (Pipeline c) g) = texture_objects g"
  "texture_storage (gl_call (Pipeline c) g) = texture_storage g"
  "active_texture (gl_call (Pipeline c) g) = active_texture g"
  "texture_binding (gl_call (Pipeline c) g) = texture_binding g"
  "renderbuffer_names (gl_call (Pipeline c) g) = renderbuffer_names g"
  "renderbuffer_objects (gl_call (Pipeline c) g) = renderbuffer_objects g"
  "renderbuffer_storage (gl_call (Pipeline c) g) = renderbuffer_storage g"
  "renderbuffer_binding (gl_call (Pipeline c) g) = renderbuffer_binding g"
  "framebuffer_names (gl_call (Pipeline c) g) = framebuffer_names g"
  "color_attachment (gl_call (Pipeline c) g) = color_attachment g"
  "depth_attachment (gl_call (Pipeline c) g) = depth_attachment g"
  "buffer_names (gl_call (Pipeline c) g) = buffer_names g"
  "vertex_array_names (gl_call (Pipeline c) g) = vertex_array_names g"
  by (cases c; simp add: gl_call_def)+

lemma gl_call_Draw [simp]:
  "draw_framebuffer (gl_call (Draw c) g) = draw_framebuffer g"
  "read_framebuffer (gl_call (Draw c) g) = read_framebuffer g"
  "enabled (gl_call (Draw c) g) = enabled g"
  "texture_names (gl_call (Draw c) g) = texture_names g"
  "texture_objects (gl_call (Draw c) g) = texture_objects g"
  "texture_storage (gl_call (Draw c) g) = texture_storage g"
  "active_texture (gl_call (Draw c) g) = active_texture g"
  "texture_binding (gl_call (Draw c) g) = texture_binding g"
  "renderbuffer_names (gl_call (Draw c) g) = renderbuffer_names g"
  "renderbuffer_objects (gl_call (Draw c) g) = renderbuffer_objects g"
  "renderbuffer_storage (gl_call (Draw c) g) = renderbuffer_storage g"
  "renderbuffer_binding (gl_call (Draw c) g) = renderbuffer_binding g"
  "framebuffer_names (gl_call (Draw c) g) = framebuffer_names g"
  "color_attachment (gl_call (Draw c) g) = color_attachment g"
  "depth_attachment (gl_call (Draw c) g) = depth_attachment g"
  "buffer_names (gl_call (Draw c) g) = buffer_names g"
  "vertex_array_names (gl_call (Draw c) g) = vertex_array_names g"
  by (simp_all add: gl_call_def write_framebuffer_def)

lemma gl_call_Data [simp]:
  "draw_framebuffer (gl_call (Data c) g) = draw_framebuffer g"
  "read_framebuffer (gl_call (Data c) g) = read_framebuffer g"
  "enabled (gl_call (Data c) g) = enabled g"
  "texture_names (gl_call (Data c) g) = texture_names g"
  "texture_objects (gl_call (Data c) g) = texture_objects g"
  "active_texture (gl_call (Data c) g) = active_texture g"
  "texture_binding (gl_call (Data c) g) = texture_binding g"
  "renderbuffer_names (gl_call (Data c) g) = renderbuffer_names g"
  "renderbuffer_objects (gl_call (Data c) g) = renderbuffer_objects g"
  "renderbuffer_binding (gl_call (Data c) g) = renderbuffer_binding g"
  "framebuffer_names (gl_call (Data c) g) = framebuffer_names g"
  "buffer_names (gl_call (Data c) g) = buffer_names g"
  "vertex_array_names (gl_call (Data c) g) = vertex_array_names g"
  by (cases c; simp add: gl_call_def Let_def write_framebuffer_def attach_def split: attachment.splits)+

lemma gl_call_glBindBuffer [simp]:
  "draw_framebuffer (gl_call (Object (glBindBuffer n)) g) = draw_framebuffer g"
  "read_framebuffer (gl_call (Object (glBindBuffer n)) g) = read_framebuffer g"
  "fb_image (gl_call (Object (glBindBuffer n)) g) = fb_image g"
  "enabled (gl_call (Object (glBindBuffer n)) g) = enabled g"
  "texture_names (gl_call (Object (glBindBuffer n)) g) = texture_names g"
  "texture_objects (gl_call (Object (glBindBuffer n)) g) = texture_objects g"
  "texture_storage (gl_call (Object (glBindBuffer n)) g) = texture_storage g"
  "active_texture (gl_call (Object (glBindBuffer n)) g) = active_texture g"
  "texture_binding (gl_call (Object (glBindBuffer n)) g) = texture_binding g"
  "renderbuffer_names (gl_call (Object (glBindBuffer n)) g) = renderbuffer_names g"
  "renderbuffer_objects (gl_call (Object (glBindBuffer n)) g) = renderbuffer_objects g"
  "renderbuffer_storage (gl_call (Object (glBindBuffer n)) g) = renderbuffer_storage g"
  "renderbuffer_binding (gl_call (Object (glBindBuffer n)) g) = renderbuffer_binding g"
  "framebuffer_names (gl_call (Object (glBindBuffer n)) g) = framebuffer_names g"
  "color_attachment (gl_call (Object (glBindBuffer n)) g) = color_attachment g"
  "depth_attachment (gl_call (Object (glBindBuffer n)) g) = depth_attachment g"
  "buffer_names (gl_call (Object (glBindBuffer n)) g) = buffer_names g"
  "vertex_array_names (gl_call (Object (glBindBuffer n)) g) = vertex_array_names g"
  by (simp_all add: gl_call_def)

lemma gl_call_glBindBufferBase [simp]:
  "draw_framebuffer (gl_call (Object (glBindBufferBase i n)) g) = draw_framebuffer g"
  "read_framebuffer (gl_call (Object (glBindBufferBase i n)) g) = read_framebuffer g"
  "fb_image (gl_call (Object (glBindBufferBase i n)) g) = fb_image g"
  "enabled (gl_call (Object (glBindBufferBase i n)) g) = enabled g"
  "texture_names (gl_call (Object (glBindBufferBase i n)) g) = texture_names g"
  "texture_objects (gl_call (Object (glBindBufferBase i n)) g) = texture_objects g"
  "texture_storage (gl_call (Object (glBindBufferBase i n)) g) = texture_storage g"
  "active_texture (gl_call (Object (glBindBufferBase i n)) g) = active_texture g"
  "texture_binding (gl_call (Object (glBindBufferBase i n)) g) = texture_binding g"
  "renderbuffer_names (gl_call (Object (glBindBufferBase i n)) g) = renderbuffer_names g"
  "renderbuffer_objects (gl_call (Object (glBindBufferBase i n)) g) = renderbuffer_objects g"
  "renderbuffer_storage (gl_call (Object (glBindBufferBase i n)) g) = renderbuffer_storage g"
  "renderbuffer_binding (gl_call (Object (glBindBufferBase i n)) g) = renderbuffer_binding g"
  "framebuffer_names (gl_call (Object (glBindBufferBase i n)) g) = framebuffer_names g"
  "color_attachment (gl_call (Object (glBindBufferBase i n)) g) = color_attachment g"
  "depth_attachment (gl_call (Object (glBindBufferBase i n)) g) = depth_attachment g"
  "buffer_names (gl_call (Object (glBindBufferBase i n)) g) = buffer_names g"
  "vertex_array_names (gl_call (Object (glBindBufferBase i n)) g) = vertex_array_names g"
  by (simp_all add: gl_call_def)

lemma gl_call_glBindVertexArray [simp]:
  "draw_framebuffer (gl_call (Object (glBindVertexArray n)) g) = draw_framebuffer g"
  "read_framebuffer (gl_call (Object (glBindVertexArray n)) g) = read_framebuffer g"
  "fb_image (gl_call (Object (glBindVertexArray n)) g) = fb_image g"
  "enabled (gl_call (Object (glBindVertexArray n)) g) = enabled g"
  "texture_names (gl_call (Object (glBindVertexArray n)) g) = texture_names g"
  "texture_objects (gl_call (Object (glBindVertexArray n)) g) = texture_objects g"
  "texture_storage (gl_call (Object (glBindVertexArray n)) g) = texture_storage g"
  "active_texture (gl_call (Object (glBindVertexArray n)) g) = active_texture g"
  "texture_binding (gl_call (Object (glBindVertexArray n)) g) = texture_binding g"
  "renderbuffer_names (gl_call (Object (glBindVertexArray n)) g) = renderbuffer_names g"
  "renderbuffer_objects (gl_call (Object (glBindVertexArray n)) g) = renderbuffer_objects g"
  "renderbuffer_storage (gl_call (Object (glBindVertexArray n)) g) = renderbuffer_storage g"
  "renderbuffer_binding (gl_call (Object (glBindVertexArray n)) g) = renderbuffer_binding g"
  "framebuffer_names (gl_call (Object (glBindVertexArray n)) g) = framebuffer_names g"
  "color_attachment (gl_call (Object (glBindVertexArray n)) g) = color_attachment g"
  "depth_attachment (gl_call (Object (glBindVertexArray n)) g) = depth_attachment g"
  "buffer_names (gl_call (Object (glBindVertexArray n)) g) = buffer_names g"
  "vertex_array_names (gl_call (Object (glBindVertexArray n)) g) = vertex_array_names g"
  by (simp_all add: gl_call_def)

lemma gl_call_glBindSampler [simp]:
  "draw_framebuffer (gl_call (Object (glBindSampler u n)) g) = draw_framebuffer g"
  "read_framebuffer (gl_call (Object (glBindSampler u n)) g) = read_framebuffer g"
  "fb_image (gl_call (Object (glBindSampler u n)) g) = fb_image g"
  "enabled (gl_call (Object (glBindSampler u n)) g) = enabled g"
  "texture_names (gl_call (Object (glBindSampler u n)) g) = texture_names g"
  "texture_objects (gl_call (Object (glBindSampler u n)) g) = texture_objects g"
  "texture_storage (gl_call (Object (glBindSampler u n)) g) = texture_storage g"
  "active_texture (gl_call (Object (glBindSampler u n)) g) = active_texture g"
  "texture_binding (gl_call (Object (glBindSampler u n)) g) = texture_binding g"
  "renderbuffer_names (gl_call (Object (glBindSampler u n)) g) = renderbuffer_names g"
  "renderbuffer_objects (gl_call (Object (glBindSampler u n)) g) = renderbuffer_objects g"
  "renderbuffer_storage (gl_call (Object (glBindSampler u n)) g) = renderbuffer_storage g"
  "renderbuffer_binding (gl_call (Object (glBindSampler u n)) g) = renderbuffer_binding g"
  "framebuffer_names (gl_call (Object (glBindSampler u n)) g) = framebuffer_names g"
  "color_attachment (gl_call (Object (glBindSampler u n)) g) = color_attachment g"
  "depth_attachment (gl_call (Object (glBindSampler u n)) g) = depth_attachment g"
  "buffer_names (gl_call (Object (glBindSampler u n)) g) = buffer_names g"
  "vertex_array_names (gl_call (Object (glBindSampler u n)) g) = vertex_array_names g"
  by (simp_all add: gl_call_def)

lemma gl_call_glUseProgram [simp]:
  "draw_framebuffer (gl_call (Object (glUseProgram n)) g) = draw_framebuffer g"
  "read_framebuffer (gl_call (Object (glUseProgram n)) g) = read_framebuffer g"
  "fb_image (gl_call (Object (glUseProgram n)) g) = fb_image g"
  "enabled (gl_call (Object (glUseProgram n)) g) = enabled g"
  "texture_names (gl_call (Object (glUseProgram n)) g) = texture_names g"
  "texture_objects (gl_call (Object (glUseProgram n)) g) = texture_objects g"
  "texture_storage (gl_call (Object (glUseProgram n)) g) = texture_storage g"
  "active_texture (gl_call (Object (glUseProgram n)) g) = active_texture g"
  "texture_binding (gl_call (Object (glUseProgram n)) g) = texture_binding g"
  "renderbuffer_names (gl_call (Object (glUseProgram n)) g) = renderbuffer_names g"
  "renderbuffer_objects (gl_call (Object (glUseProgram n)) g) = renderbuffer_objects g"
  "renderbuffer_storage (gl_call (Object (glUseProgram n)) g) = renderbuffer_storage g"
  "renderbuffer_binding (gl_call (Object (glUseProgram n)) g) = renderbuffer_binding g"
  "framebuffer_names (gl_call (Object (glUseProgram n)) g) = framebuffer_names g"
  "color_attachment (gl_call (Object (glUseProgram n)) g) = color_attachment g"
  "depth_attachment (gl_call (Object (glUseProgram n)) g) = depth_attachment g"
  "buffer_names (gl_call (Object (glUseProgram n)) g) = buffer_names g"
  "vertex_array_names (gl_call (Object (glUseProgram n)) g) = vertex_array_names g"
  by (simp_all add: gl_call_def)

lemma gl_call_glActiveTexture [simp]:
  "draw_framebuffer (gl_call (Object (glActiveTexture u)) g) = draw_framebuffer g"
  "read_framebuffer (gl_call (Object (glActiveTexture u)) g) = read_framebuffer g"
  "fb_image (gl_call (Object (glActiveTexture u)) g) = fb_image g"
  "enabled (gl_call (Object (glActiveTexture u)) g) = enabled g"
  "texture_names (gl_call (Object (glActiveTexture u)) g) = texture_names g"
  "texture_objects (gl_call (Object (glActiveTexture u)) g) = texture_objects g"
  "texture_storage (gl_call (Object (glActiveTexture u)) g) = texture_storage g"
  "texture_binding (gl_call (Object (glActiveTexture u)) g) = texture_binding g"
  "renderbuffer_names (gl_call (Object (glActiveTexture u)) g) = renderbuffer_names g"
  "renderbuffer_objects (gl_call (Object (glActiveTexture u)) g) = renderbuffer_objects g"
  "renderbuffer_storage (gl_call (Object (glActiveTexture u)) g) = renderbuffer_storage g"
  "renderbuffer_binding (gl_call (Object (glActiveTexture u)) g) = renderbuffer_binding g"
  "framebuffer_names (gl_call (Object (glActiveTexture u)) g) = framebuffer_names g"
  "color_attachment (gl_call (Object (glActiveTexture u)) g) = color_attachment g"
  "depth_attachment (gl_call (Object (glActiveTexture u)) g) = depth_attachment g"
  "buffer_names (gl_call (Object (glActiveTexture u)) g) = buffer_names g"
  "vertex_array_names (gl_call (Object (glActiveTexture u)) g) = vertex_array_names g"
  by (simp_all add: gl_call_def)

lemma gl_call_glBindFramebuffer [simp]:
  "fb_image (gl_call (Object (glBindFramebuffer t n)) g) = fb_image g"
  "enabled (gl_call (Object (glBindFramebuffer t n)) g) = enabled g"
  "texture_names (gl_call (Object (glBindFramebuffer t n)) g) = texture_names g"
  "texture_objects (gl_call (Object (glBindFramebuffer t n)) g) = texture_objects g"
  "texture_storage (gl_call (Object (glBindFramebuffer t n)) g) = texture_storage g"
  "active_texture (gl_call (Object (glBindFramebuffer t n)) g) = active_texture g"
  "texture_binding (gl_call (Object (glBindFramebuffer t n)) g) = texture_binding g"
  "renderbuffer_names (gl_call (Object (glBindFramebuffer t n)) g) = renderbuffer_names g"
  "renderbuffer_objects (gl_call (Object (glBindFramebuffer t n)) g) = renderbuffer_objects g"
  "renderbuffer_storage (gl_call (Object (glBindFramebuffer t n)) g) = renderbuffer_storage g"
  "renderbuffer_binding (gl_call (Object (glBindFramebuffer t n)) g) = renderbuffer_binding g"
  "framebuffer_names (gl_call (Object (glBindFramebuffer t n)) g) = framebuffer_names g"
  "color_attachment (gl_call (Object (glBindFramebuffer t n)) g) = color_attachment g"
  "depth_attachment (gl_call (Object (glBindFramebuffer t n)) g) = depth_attachment g"
  "buffer_names (gl_call (Object (glBindFramebuffer t n)) g) = buffer_names g"
  "vertex_array_names (gl_call (Object (glBindFramebuffer t n)) g) = vertex_array_names g"
  by (simp_all add: gl_call_def split: fb_target.splits)

lemma gl_call_glBindTexture [simp]:
  "draw_framebuffer (gl_call (Object (glBindTexture t n)) g) = draw_framebuffer g"
  "read_framebuffer (gl_call (Object (glBindTexture t n)) g) = read_framebuffer g"
  "fb_image (gl_call (Object (glBindTexture t n)) g) = fb_image g"
  "enabled (gl_call (Object (glBindTexture t n)) g) = enabled g"
  "texture_names (gl_call (Object (glBindTexture t n)) g) = texture_names g"
  "texture_storage (gl_call (Object (glBindTexture t n)) g) = texture_storage g"
  "active_texture (gl_call (Object (glBindTexture t n)) g) = active_texture g"
  "renderbuffer_names (gl_call (Object (glBindTexture t n)) g) = renderbuffer_names g"
  "renderbuffer_objects (gl_call (Object (glBindTexture t n)) g) = renderbuffer_objects g"
  "renderbuffer_storage (gl_call (Object (glBindTexture t n)) g) = renderbuffer_storage g"
  "renderbuffer_binding (gl_call (Object (glBindTexture t n)) g) = renderbuffer_binding g"
  "framebuffer_names (gl_call (Object (glBindTexture t n)) g) = framebuffer_names g"
  "color_attachment (gl_call (Object (glBindTexture t n)) g) = color_attachment g"
  "depth_attachment (gl_call (Object (glBindTexture t n)) g) = depth_attachment g"
  "buffer_names (gl_call (Object (glBindTexture t n)) g) = buffer_names g"
  "vertex_array_names (gl_call (Object (glBindTexture t n)) g) = vertex_array_names g"
  by (simp_all add: gl_call_def)

lemma gl_call_glBindRenderbuffer [simp]:
  "draw_framebuffer (gl_call (Object (glBindRenderbuffer n)) g) = draw_framebuffer g"
  "read_framebuffer (gl_call (Object (glBindRenderbuffer n)) g) = read_framebuffer g"
  "fb_image (gl_call (Object (glBindRenderbuffer n)) g) = fb_image g"
  "enabled (gl_call (Object (glBindRenderbuffer n)) g) = enabled g"
  "texture_names (gl_call (Object (glBindRenderbuffer n)) g) = texture_names g"
  "texture_objects (gl_call (Object (glBindRenderbuffer n)) g) = texture_objects g"
  "texture_storage (gl_call (Object (glBindRenderbuffer n)) g) = texture_storage g"
  "active_texture (gl_call (Object (glBindRenderbuffer n)) g) = active_texture g"
  "texture_binding (gl_call (Object (glBindRenderbuffer n)) g) = texture_binding g"
  "renderbuffer_names (gl_call (Object (glBindRenderbuffer n)) g) = renderbuffer_names g"
  "renderbuffer_storage (gl_call (Object (glBindRenderbuffer n)) g) = renderbuffer_storage g"
  "framebuffer_names (gl_call (Object (glBindRenderbuffer n)) g) = framebuffer_names g"
  "color_attachment (gl_call (Object (glBindRenderbuffer n)) g) = color_attachment g"
  "depth_attachment (gl_call (Object (glBindRenderbuffer n)) g) = depth_attachment g"
  "buffer_names (gl_call (Object (glBindRenderbuffer n)) g) = buffer_names g"
  "vertex_array_names (gl_call (Object (glBindRenderbuffer n)) g) = vertex_array_names g"
  by (simp_all add: gl_call_def)

lemma gl_call_glGenTextures [simp]:
  "draw_framebuffer (gl_call (glGenTextures n) g) = draw_framebuffer g"
  "read_framebuffer (gl_call (glGenTextures n) g) = read_framebuffer g"
  "fb_image (gl_call (glGenTextures n) g) = fb_image g"
  "enabled (gl_call (glGenTextures n) g) = enabled g"
  "texture_objects (gl_call (glGenTextures n) g) = texture_objects g"
  "texture_storage (gl_call (glGenTextures n) g) = texture_storage g"
  "active_texture (gl_call (glGenTextures n) g) = active_texture g"
  "texture_binding (gl_call (glGenTextures n) g) = texture_binding g"
  "renderbuffer_names (gl_call (glGenTextures n) g) = renderbuffer_names g"
  "renderbuffer_objects (gl_call (glGenTextures n) g) = renderbuffer_objects g"
  "renderbuffer_storage (gl_call (glGenTextures n) g) = renderbuffer_storage g"
  "renderbuffer_binding (gl_call (glGenTextures n) g) = renderbuffer_binding g"
  "framebuffer_names (gl_call (glGenTextures n) g) = framebuffer_names g"
  "color_attachment (gl_call (glGenTextures n) g) = color_attachment g"
  "depth_attachment (gl_call (glGenTextures n) g) = depth_attachment g"
  "buffer_names (gl_call (glGenTextures n) g) = buffer_names g"
  "vertex_array_names (gl_call (glGenTextures n) g) = vertex_array_names g"
  by (simp_all add: gl_call_def)

lemma gl_call_glGenRenderbuffers [simp]:
  "draw_framebuffer (gl_call (glGenRenderbuffers n) g) = draw_framebuffer g"
  "read_framebuffer (gl_call (glGenRenderbuffers n) g) = read_framebuffer g"
  "fb_image (gl_call (glGenRenderbuffers n) g) = fb_image g"
  "enabled (gl_call (glGenRenderbuffers n) g) = enabled g"
  "texture_names (gl_call (glGenRenderbuffers n) g) = texture_names g"
  "texture_objects (gl_call (glGenRenderbuffers n) g) = texture_objects g"
  "texture_storage (gl_call (glGenRenderbuffers n) g) = texture_storage g"
  "active_texture (gl_call (glGenRenderbuffers n) g) = active_texture g"
  "texture_binding (gl_call (glGenRenderbuffers n) g) = texture_binding g"
  "renderbuffer_objects (gl_call (glGenRenderbuffers n) g) = renderbuffer_objects g"
  "renderbuffer_storage (gl_call (glGenRenderbuffers n) g) = renderbuffer_storage g"
  "renderbuffer_binding (gl_call (glGenRenderbuffers n) g) = renderbuffer_binding g"
  "framebuffer_names (gl_call (glGenRenderbuffers n) g) = framebuffer_names g"
  "color_attachment (gl_call (glGenRenderbuffers n) g) = color_attachment g"
  "depth_attachment (gl_call (glGenRenderbuffers n) g) = depth_attachment g"
  "buffer_names (gl_call (glGenRenderbuffers n) g) = buffer_names g"
  "vertex_array_names (gl_call (glGenRenderbuffers n) g) = vertex_array_names g"
  by (simp_all add: gl_call_def)

lemma gl_call_glGenFramebuffers [simp]:
  "draw_framebuffer (gl_call (glGenFramebuffers n) g) = draw_framebuffer g"
  "read_framebuffer (gl_call (glGenFramebuffers n) g) = read_framebuffer g"
  "fb_image (gl_call (glGenFramebuffers n) g) = fb_image g"
  "enabled (gl_call (glGenFramebuffers n) g) = enabled g"
  "texture_names (gl_call (glGenFramebuffers n) g) = texture_names g"
  "texture_objects (gl_call (glGenFramebuffers n) g) = texture_objects g"
  "texture_storage (gl_call (glGenFramebuffers n) g) = texture_storage g"
  "active_texture (gl_call (glGenFramebuffers n) g) = active_texture g"
  "texture_binding (gl_call (glGenFramebuffers n) g) = texture_binding g"
  "renderbuffer_names (gl_call (glGenFramebuffers n) g) = renderbuffer_names g"
  "renderbuffer_objects (gl_call (glGenFramebuffers n) g) = renderbuffer_objects g"
  "renderbuffer_storage (gl_call (glGenFramebuffers n) g) = renderbuffer_storage g"
  "renderbuffer_binding (gl_call (glGenFramebuffers n) g) = renderbuffer_binding g"
  "color_attachment (gl_call (glGenFramebuffers n) g) = color_attachment g"
  "depth_attachment (gl_call (glGenFramebuffers n) g) = depth_attachment g"
  "buffer_names (gl_call (glGenFramebuffers n) g) = buffer_names g"
  "vertex_array_names (gl_call (glGenFramebuffers n) g) = vertex_array_names g"
  by (simp_all add: gl_call_def)

lemma gl_call_glGenBuffers [simp]:
  "draw_framebuffer (gl_call (glGenBuffers n) g) = draw_framebuffer g"
  "read_framebuffer (gl_call (glGenBuffers n) g) = read_framebuffer g"
  "fb_image (gl_call (glGenBuffers n) g) = fb_image g"
  "enabled (gl_call (glGenBuffers n) g) = enabled g"
  "texture_names (gl_call (glGenBuffers n) g) = texture_names g"
  "texture_objects (gl_call (glGenBuffers n) g) = texture_objects g"
  "texture_storage (gl_call (glGenBuffers n) g) = texture_storage g"
  "active_texture (gl_call (glGenBuffers n) g) = active_texture g"
  "texture_binding (gl_call (glGenBuffers n) g) = texture_binding g"
  "renderbuffer_names (gl_call (glGenBuffers n) g) = renderbuffer_names g"
  "renderbuffer_objects (gl_call (glGenBuffers n) g) = renderbuffer_objects g"
  "renderbuffer_storage (gl_call (glGenBuffers n) g) = renderbuffer_storage g"
  "renderbuffer_binding (gl_call (glGenBuffers n) g) = renderbuffer_binding g"
  "framebuffer_names (gl_call (glGenBuffers n) g) = framebuffer_names g"
  "color_attachment (gl_call (glGenBuffers n) g) = color_attachment g"
  "depth_attachment (gl_call (glGenBuffers n) g) = depth_attachment g"
  "vertex_array_names (gl_call (glGenBuffers n) g) = vertex_array_names g"
  by (simp_all add: gl_call_def)

lemma gl_call_glGenVertexArrays [simp]:
  "draw_framebuffer (gl_call (glGenVertexArrays n) g) = draw_framebuffer g"
  "read_framebuffer (gl_call (glGenVertexArrays n) g) = read_framebuffer g"
  "fb_image (gl_call (glGenVertexArrays n) g) = fb_image g"
  "enabled (gl_call (glGenVertexArrays n) g) = enabled g"
  "texture_names (gl_call (glGenVertexArrays n) g) = texture_names g"
  "texture_objects (gl_call (glGenVertexArrays n) g) = texture_objects g"
  "texture_storage (gl_call (glGenVertexArrays n) g) = texture_storage g"
  "active_texture (gl_call (glGenVertexArrays n) g) = active_texture g"
  "texture_binding (gl_call (glGenVertexArrays n) g) = texture_binding g"
  "renderbuffer_names (gl_call (glGenVertexArrays n) g) = renderbuffer_names g"
  "renderbuffer_objects (gl_call (glGenVertexArrays n) g) = renderbuffer_objects g"
  "renderbuffer_storage (gl_call (glGenVertexArrays n) g) = renderbuffer_storage g"
  "renderbuffer_binding (gl_call (glGenVertexArrays n) g) = renderbuffer_binding g"
  "framebuffer_names (gl_call (glGenVertexArrays n) g) = framebuffer_names g"
  "color_attachment (gl_call (glGenVertexArrays n) g) = color_attachment g"
  "depth_attachment (gl_call (glGenVertexArrays n) g) = depth_attachment g"
  "buffer_names (gl_call (glGenVertexArrays n) g) = buffer_names g"
  by (simp_all add: gl_call_def)

lemma gl_call_glDeleteTextures [simp]:
  "draw_framebuffer (gl_call (glDeleteTextures ns) g) = draw_framebuffer g"
  "read_framebuffer (gl_call (glDeleteTextures ns) g) = read_framebuffer g"
  "fb_image (gl_call (glDeleteTextures ns) g) = fb_image g"
  "enabled (gl_call (glDeleteTextures ns) g) = enabled g"
  "active_texture (gl_call (glDeleteTextures ns) g) = active_texture g"
  "renderbuffer_names (gl_call (glDeleteTextures ns) g) = renderbuffer_names g"
  "renderbuffer_objects (gl_call (glDeleteTextures ns) g) = renderbuffer_objects g"
  "renderbuffer_storage (gl_call (glDeleteTextures ns) g) = renderbuffer_storage g"
  "renderbuffer_binding (gl_call (glDeleteTextures ns) g) = renderbuffer_binding g"
  "framebuffer_names (gl_call (glDeleteTextures ns) g) = framebuffer_names g"
  "depth_attachment (gl_call (glDeleteTextures ns) g) = depth_attachment g"
  "buffer_names (gl_call (glDeleteTextures ns) g) = buffer_names g"
  "vertex_array_names (gl_call (glDeleteTextures ns) g) = vertex_array_names g"
  by (simp_all add: gl_call_def)

lemma gl_call_glDeleteRenderbuffers [simp]:
  "draw_framebuffer (gl_call (glDeleteRenderbuffers ns) g) = draw_framebuffer g"
  "read_framebuffer (gl_call (glDeleteRenderbuffers ns) g) = read_framebuffer g"
  "fb_image (gl_call (glDeleteRenderbuffers ns) g) = fb_image g"
  "enabled (gl_call (glDeleteRenderbuffers ns) g) = enabled g"
  "texture_names (gl_call (glDeleteRenderbuffers ns) g) = texture_names g"
  "texture_objects (gl_call (glDeleteRenderbuffers ns) g) = texture_objects g"
  "texture_storage (gl_call (glDeleteRenderbuffers ns) g) = texture_storage g"
  "active_texture (gl_call (glDeleteRenderbuffers ns) g) = active_texture g"
  "texture_binding (gl_call (glDeleteRenderbuffers ns) g) = texture_binding g"
  "framebuffer_names (gl_call (glDeleteRenderbuffers ns) g) = framebuffer_names g"
  "color_attachment (gl_call (glDeleteRenderbuffers ns) g) = color_attachment g"
  "buffer_names (gl_call (glDeleteRenderbuffers ns) g) = buffer_names g"
  "vertex_array_names (gl_call (glDeleteRenderbuffers ns) g) = vertex_array_names g"
  by (simp_all add: gl_call_def)

lemma gl_call_glDeleteFramebuffers [simp]:
  "fb_image (gl_call (glDeleteFramebuffers ns) g) = fb_image g"
  "enabled (gl_call (glDeleteFramebuffers ns) g) = enabled g"
  "texture_names (gl_call (glDeleteFramebuffers ns) g) = texture_names g"
  "texture_objects (gl_call (glDeleteFramebuffers ns) g) = texture_objects g"
  "texture_storage (gl_call (glDeleteFramebuffers ns) g) = texture_storage g"
  "active_texture (gl_call (glDeleteFramebuffers ns) g) = active_texture g"
  "texture_binding (gl_call (glDeleteFramebuffers ns) g) = texture_binding g"
  "renderbuffer_names (gl_call (glDeleteFramebuffers ns) g) = renderbuffer_names g"
  "renderbuffer_objects (gl_call (glDeleteFramebuffers ns) g) = renderbuffer_objects g"
  "renderbuffer_storage (gl_call (glDeleteFramebuffers ns) g) = renderbuffer_storage g"
  "renderbuffer_binding (gl_call (glDeleteFramebuffers ns) g) = renderbuffer_binding g"
  "color_attachment (gl_call (glDeleteFramebuffers ns) g) = color_attachment g"
  "depth_attachment (gl_call (glDeleteFramebuffers ns) g) = depth_attachment g"
  "buffer_names (gl_call (glDeleteFramebuffers ns) g) = buffer_names g"
  "vertex_array_names (gl_call (glDeleteFramebuffers ns) g) = vertex_array_names g"
  by (simp_all add: gl_call_def)

lemma gl_call_glDeleteBuffers [simp]:
  "draw_framebuffer (gl_call (glDeleteBuffers ns) g) = draw_framebuffer g"
  "read_framebuffer (gl_call (glDeleteBuffers ns) g) = read_framebuffer g"
  "fb_image (gl_call (glDeleteBuffers ns) g) = fb_image g"
  "enabled (gl_call (glDeleteBuffers ns) g) = enabled g"
  "texture_names (gl_call (glDeleteBuffers ns) g) = texture_names g"
  "texture_objects (gl_call (glDeleteBuffers ns) g) = texture_objects g"
  "texture_storage (gl_call (glDeleteBuffers ns) g) = texture_storage g"
  "active_texture (gl_call (glDeleteBuffers ns) g) = active_texture g"
  "texture_binding (gl_call (glDeleteBuffers ns) g) = texture_binding g"
  "renderbuffer_names (gl_call (glDeleteBuffers ns) g) = renderbuffer_names g"
  "renderbuffer_objects (gl_call (glDeleteBuffers ns) g) = renderbuffer_objects g"
  "renderbuffer_storage (gl_call (glDeleteBuffers ns) g) = renderbuffer_storage g"
  "renderbuffer_binding (gl_call (glDeleteBuffers ns) g) = renderbuffer_binding g"
  "framebuffer_names (gl_call (glDeleteBuffers ns) g) = framebuffer_names g"
  "color_attachment (gl_call (glDeleteBuffers ns) g) = color_attachment g"
  "depth_attachment (gl_call (glDeleteBuffers ns) g) = depth_attachment g"
  "vertex_array_names (gl_call (glDeleteBuffers ns) g) = vertex_array_names g"
  by (simp_all add: gl_call_def)

lemma gl_call_glDeleteVertexArrays [simp]:
  "draw_framebuffer (gl_call (glDeleteVertexArrays ns) g) = draw_framebuffer g"
  "read_framebuffer (gl_call (glDeleteVertexArrays ns) g) = read_framebuffer g"
  "fb_image (gl_call (glDeleteVertexArrays ns) g) = fb_image g"
  "enabled (gl_call (glDeleteVertexArrays ns) g) = enabled g"
  "texture_names (gl_call (glDeleteVertexArrays ns) g) = texture_names g"
  "texture_objects (gl_call (glDeleteVertexArrays ns) g) = texture_objects g"
  "texture_storage (gl_call (glDeleteVertexArrays ns) g) = texture_storage g"
  "active_texture (gl_call (glDeleteVertexArrays ns) g) = active_texture g"
  "texture_binding (gl_call (glDeleteVertexArrays ns) g) = texture_binding g"
  "renderbuffer_names (gl_call (glDeleteVertexArrays ns) g) = renderbuffer_names g"
  "renderbuffer_objects (gl_call (glDeleteVertexArrays ns) g) = renderbuffer_objects g"
  "renderbuffer_storage (gl_call (glDeleteVertexArrays ns) g) = renderbuffer_storage g"
  "renderbuffer_binding (gl_call (glDeleteVertexArrays ns) g) = renderbuffer_binding g"
  "framebuffer_names (gl_call (glDeleteVertexArrays ns) g) = framebuffer_names g"
  "color_attachment (gl_call (glDeleteVertexArrays ns) g) = color_attachment g"
  "depth_attachment (gl_call (glDeleteVertexArrays ns) g) = depth_attachment g"
  "buffer_names (gl_call (glDeleteVertexArrays ns) g) = buffer_names g"
  by (simp_all add: gl_call_def)

lemma gl_call_glDeleteProgram [simp]:
  "draw_framebuffer (gl_call (Object (glDelete Program ns)) g) = draw_framebuffer g"
  "read_framebuffer (gl_call (Object (glDelete Program ns)) g) = read_framebuffer g"
  "fb_image (gl_call (Object (glDelete Program ns)) g) = fb_image g"
  "enabled (gl_call (Object (glDelete Program ns)) g) = enabled g"
  "texture_names (gl_call (Object (glDelete Program ns)) g) = texture_names g"
  "texture_objects (gl_call (Object (glDelete Program ns)) g) = texture_objects g"
  "texture_storage (gl_call (Object (glDelete Program ns)) g) = texture_storage g"
  "active_texture (gl_call (Object (glDelete Program ns)) g) = active_texture g"
  "texture_binding (gl_call (Object (glDelete Program ns)) g) = texture_binding g"
  "renderbuffer_names (gl_call (Object (glDelete Program ns)) g) = renderbuffer_names g"
  "renderbuffer_objects (gl_call (Object (glDelete Program ns)) g) = renderbuffer_objects g"
  "renderbuffer_storage (gl_call (Object (glDelete Program ns)) g) = renderbuffer_storage g"
  "renderbuffer_binding (gl_call (Object (glDelete Program ns)) g) = renderbuffer_binding g"
  "framebuffer_names (gl_call (Object (glDelete Program ns)) g) = framebuffer_names g"
  "color_attachment (gl_call (Object (glDelete Program ns)) g) = color_attachment g"
  "depth_attachment (gl_call (Object (glDelete Program ns)) g) = depth_attachment g"
  "buffer_names (gl_call (Object (glDelete Program ns)) g) = buffer_names g"
  "vertex_array_names (gl_call (Object (glDelete Program ns)) g) = vertex_array_names g"
  by (simp_all add: gl_call_def)

section \<open>What a command changes\<close>

lemma gl_call_gen [simp]:
  "texture_names (gl_call (glGenTextures n) g) = insert n (texture_names g)"
  "renderbuffer_names (gl_call (glGenRenderbuffers n) g) = insert n (renderbuffer_names g)"
  "framebuffer_names (gl_call (glGenFramebuffers n) g) = insert n (framebuffer_names g)"
  "buffer_names (gl_call (glGenBuffers n) g) = insert n (buffer_names g)"
  "vertex_array_names (gl_call (glGenVertexArrays n) g) = insert n (vertex_array_names g)"
  by (simp_all add: gl_call_def)

lemma gl_call_delete [simp]:
  "texture_names (gl_call (glDeleteTextures ns) g) = texture_names g - set ns"
  "texture_objects (gl_call (glDeleteTextures ns) g) = texture_objects g - set ns"
  "renderbuffer_names (gl_call (glDeleteRenderbuffers ns) g) = renderbuffer_names g - set ns"
  "renderbuffer_objects (gl_call (glDeleteRenderbuffers ns) g) = renderbuffer_objects g - set ns"
  "framebuffer_names (gl_call (glDeleteFramebuffers ns) g) = framebuffer_names g - set ns"
  "buffer_names (gl_call (glDeleteBuffers ns) g) = buffer_names g - set ns"
  "vertex_array_names (gl_call (glDeleteVertexArrays ns) g) = vertex_array_names g - set ns"
  by (simp_all add: gl_call_def)

lemma gl_call_bind_framebuffer [simp]:
  "draw_framebuffer (gl_call (Object (glBindFramebuffer t n)) g) =
     (if (n = 0 \<or> n \<in> framebuffer_names g) \<and> t \<noteq> GL_READ_FRAMEBUFFER then n else draw_framebuffer g)"
  "read_framebuffer (gl_call (Object (glBindFramebuffer t n)) g) =
     (if (n = 0 \<or> n \<in> framebuffer_names g) \<and> t \<noteq> GL_DRAW_FRAMEBUFFER then n else read_framebuffer g)"
  by (cases t; simp add: gl_call_def)+

lemma gl_call_bind_texture [simp]:
  "texture_objects (gl_call (Object (glBindTexture t n)) g) =
     (if n \<in> texture_names g \<and> n \<noteq> 0 then insert n (texture_objects g) else texture_objects g)"
  "texture_binding (gl_call (Object (glBindTexture t n)) g) =
     (if n = 0 \<or> n \<in> texture_names g
      then (texture_binding g)(active_texture g := (texture_binding g (active_texture g))(t := n))
      else texture_binding g)"
  by (auto simp add: gl_call_def)

lemma gl_call_bind_renderbuffer [simp]:
  "renderbuffer_objects (gl_call (Object (glBindRenderbuffer n)) g) =
     (if n \<in> renderbuffer_names g \<and> n \<noteq> 0 then insert n (renderbuffer_objects g)
      else renderbuffer_objects g)"
  "renderbuffer_binding (gl_call (Object (glBindRenderbuffer n)) g) =
     (if n = 0 \<or> n \<in> renderbuffer_names g then n else renderbuffer_binding g)"
  by (auto simp add: gl_call_def)

lemma gl_call_active_texture [simp]:
  "active_texture (gl_call (Object (glActiveTexture u)) g) = u"
  by (simp add: gl_call_def)

lemma gl_call_storage [simp]:
  "texture_storage (gl_call (Data c) g) =
     (case c of
        glTexImage2D t w h \<Rightarrow>
          (if texture_binding g (active_texture g) t = 0 \<or>
              \<not> size_ok (max_texture_size (limits g)) w h then texture_storage g
           else (texture_storage g)(texture_binding g (active_texture g) t := Some (w, h, 1)))
      | glTexImage2DMultisample t m w h \<Rightarrow>
          (if texture_binding g (active_texture g) t = 0 \<or>
              \<not> size_ok (max_texture_size (limits g)) w h \<or>
              m < 1 \<or> max_texture_samples (limits g) < m then texture_storage g
           else (texture_storage g)(texture_binding g (active_texture g) t := Some (w, h, m)))
      | _ \<Rightarrow> texture_storage g)"
  "renderbuffer_storage (gl_call (Data c) g) =
     (case c of
        glRenderbufferStorage w h \<Rightarrow>
          (if renderbuffer_binding g = 0 \<or>
              \<not> size_ok (max_renderbuffer_size (limits g)) w h then renderbuffer_storage g
           else (renderbuffer_storage g)(renderbuffer_binding g := Some (w, h, 1)))
      | glRenderbufferStorageMultisample m w h \<Rightarrow>
          (if renderbuffer_binding g = 0 \<or>
              \<not> size_ok (max_renderbuffer_size (limits g)) w h \<or>
              m < 0 \<or> max_renderbuffer_samples (limits g) < m then renderbuffer_storage g
           else (renderbuffer_storage g)
                  (renderbuffer_binding g := Some (w, h, if m = 0 then 1 else m)))
      | _ \<Rightarrow> renderbuffer_storage g)"
  by (cases c; simp add: gl_call_def Let_def write_framebuffer_def attach_def split: attachment.splits)+

text \<open>No command changes the limits of the context.\<close>

lemma gl_call_limits [simp]: "limits (gl_call c g) = limits g"
proof (cases c)
  case (Pipeline p)
  then show ?thesis by (cases p) (simp_all add: gl_call_def)
next
  case (Object ob)
  then show ?thesis
  proof (cases ob)
    case (glGen k n)
    with Object show ?thesis by (cases k) (simp_all add: gl_call_def)
  next
    case (glDelete k ns)
    with Object show ?thesis by (cases k) (simp_all add: gl_call_def)
  next
    case (glBindFramebuffer t n)
    with Object show ?thesis by (cases t) (simp_all add: gl_call_def)
  qed (simp_all add: Object gl_call_def)
next
  case (Data d)
  then show ?thesis
    by (cases d) (simp_all add: gl_call_def Let_def write_framebuffer_def attach_def
        split: attachment.splits)
next
  case (Draw d)
  then show ?thesis by (simp add: gl_call_def write_framebuffer_def)
qed

lemma gl_calls_limits [simp]: "limits (gl_calls cs g) = limits g"
  by (induction cs arbitrary: g) (simp_all add: gl_calls_def)

lemma gl_call_attach [simp]:
  "color_attachment (gl_call (Data c) g) =
     (case c of
        glFramebufferTexture2D ft att t n \<Rightarrow>
          (if bound_framebuffer g ft \<noteq> 0 \<and> att = GL_COLOR_ATTACHMENT0
           then (color_attachment g)(bound_framebuffer g ft := n) else color_attachment g)
      | glFramebufferRenderbuffer ft att n \<Rightarrow>
          (if bound_framebuffer g ft \<noteq> 0 \<and> att = GL_COLOR_ATTACHMENT0
           then (color_attachment g)(bound_framebuffer g ft := n) else color_attachment g)
      | _ \<Rightarrow> color_attachment g)"
  "depth_attachment (gl_call (Data c) g) =
     (case c of
        glFramebufferTexture2D ft att t n \<Rightarrow>
          (if bound_framebuffer g ft \<noteq> 0 \<and> att = GL_DEPTH_ATTACHMENT
           then (depth_attachment g)(bound_framebuffer g ft := n) else depth_attachment g)
      | glFramebufferRenderbuffer ft att n \<Rightarrow>
          (if bound_framebuffer g ft \<noteq> 0 \<and> att = GL_DEPTH_ATTACHMENT
           then (depth_attachment g)(bound_framebuffer g ft := n) else depth_attachment g)
      | _ \<Rightarrow> depth_attachment g)"
  by (cases c; simp add: gl_call_def Let_def write_framebuffer_def attach_def split: attachment.splits)+

lemma gl_call_enabled [simp]:
  "enabled (gl_call (Pipeline (glEnable c)) g) = (enabled g)(c := True)"
  "enabled (gl_call (Pipeline (glDisable c)) g) = (enabled g)(c := False)"
  by (simp_all add: gl_call_def)

text \<open>The image of a framebuffer changes when a command writes to it.\<close>

lemma gl_call_image [simp]:
  "fb_image (gl_call (Draw d) g) = (fb_image g)(draw_framebuffer g := calls g @ [Draw d])"
  "fb_image (gl_call (Data c) g) =
     (case c of
        glFramebufferTexture2D ft att t n \<Rightarrow>
          (if bound_framebuffer g ft = 0 then fb_image g
           else (fb_image g)(bound_framebuffer g ft := calls g @ [Data c]))
      | glFramebufferRenderbuffer ft att n \<Rightarrow>
          (if bound_framebuffer g ft = 0 then fb_image g
           else (fb_image g)(bound_framebuffer g ft := calls g @ [Data c]))
      | _ \<Rightarrow> fb_image g)"
  by (cases c; simp add: gl_call_def Let_def write_framebuffer_def attach_def split: attachment.splits)+

section \<open>The instance loop\<close>

lemma instance_loop_ok:
  "0 \<le> i \<Longrightarrow> n \<le> int (length ps) \<Longrightarrow> n \<le> int (length buf) \<Longrightarrow>
   \<exists>buf'. instance_loop i n ps buf = Inr buf' \<and> length buf' = length buf \<and>
     (\<forall>k. int k < i \<or> n \<le> int k \<longrightarrow> buf' ! k = buf ! k) \<and>
     (\<forall>k. i \<le> int k \<and> int k < n \<longrightarrow>
        buf' ! k = mat3x4_of_mat4x4 (glm_transpose (instance_transformation (ps ! k) (int k))))"
proof (induction i n ps buf rule: instance_loop.induct)
  case (1 i n ps buf)
  show ?case
  proof (cases "i < n")
    case False
    then show ?thesis by (auto simp: instance_loop.simps)
  next
    case True
    let ?buf = "buf[nat i := mat3x4_of_mat4x4 (glm_transpose (instance_transformation (ps ! nat i) i))]"
    have inb: "\<not> (i < 0 \<or> int (length ps) \<le> i \<or> int (length buf) \<le> i)"
      using True "1.prems" by auto
    from "1.IH"[OF True inb] "1.prems"
    obtain buf' where b: "instance_loop (i + 1) n ps ?buf = Inr buf'" "length buf' = length buf"
      "\<forall>k. int k < i + 1 \<or> n \<le> int k \<longrightarrow> buf' ! k = ?buf ! k"
      "\<forall>k. i + 1 \<le> int k \<and> int k < n \<longrightarrow>
        buf' ! k = mat3x4_of_mat4x4 (glm_transpose (instance_transformation (ps ! k) (int k)))"
      by auto
    have eq: "instance_loop i n ps buf = Inr buf'"
      using True inb b(1) by (subst instance_loop.simps) simp
    have old: "buf' ! k = buf ! k" if "int k < i \<or> n \<le> int k" for k
    proof -
      have "k \<noteq> nat i" using that True "1.prems" by linarith
      moreover have "buf' ! k = ?buf ! k" using b(3) that by auto
      ultimately show ?thesis by simp
    qed
    have new: "buf' ! k = mat3x4_of_mat4x4 (glm_transpose (instance_transformation (ps ! k) (int k)))"
      if "i \<le> int k \<and> int k < n" for k
    proof (cases "int k = i")
      case False
      then show ?thesis using b(4) that by auto
    next
      case k: True
      then have "buf' ! k = ?buf ! k" using b(3) by auto
      moreover have "nat i = k" using k by auto
      moreover have "k < length buf" using that "1.prems" by auto
      ultimately show ?thesis using k by auto
    qed
    show ?thesis using eq b(2) old new by blast
  qed
qed

lemma instance_loop_fault:
  "0 \<le> i \<Longrightarrow> i < n \<Longrightarrow> int (length ps) < n \<or> int (length buf) < n \<Longrightarrow>
   instance_loop i n ps buf = Inl OutOfBounds"
proof (induction i n ps buf rule: instance_loop.induct)
  case (1 i n ps buf)
  show ?case
  proof (cases "i < 0 \<or> int (length ps) \<le> i \<or> int (length buf) \<le> i")
    case True
    then show ?thesis using "1.prems" by (subst instance_loop.simps) simp
  next
    case False
    have "i + 1 < n" using False "1.prems" by auto
    with "1.IH"[OF _ False] "1.prems" have "instance_loop (i + 1) n ps
       (buf[nat i := mat3x4_of_mat4x4 (glm_transpose (instance_transformation (ps ! nat i) i))]) = Inl OutOfBounds"
      by auto
    then show ?thesis using False "1.prems" by (subst instance_loop.simps) simp
  qed
qed

lemma instance_transformation_rows:
  "\<exists>c0 c1 c2. glm_transpose (instance_transformation p i) = (c0, c1, c2, (0, 0, 0, 1))"
  by (cases p) (simp add: instance_transformation_def glm_translate_def glm_rotate_def
      mat4_identity_def Let_def split: prod.splits)

lemma glm_translate_eq: "glm_translate p = translation_matrix p"
  by (cases p) (simp add: glm_translate_def mat4_identity_def)

lemma pack_rows: "mat3x4_of_mat4x4 (glm_transpose M) = rows_3x4 M"
  by (cases M rule: glm_transpose.cases) simp

lemma glm_rotate_eq: "glm_rotate (glm_radians d) v = rotation_matrix v d"
  by (cases v) (simp add: glm_rotate_def glm_radians_def mat4_identity_def Let_def)

lemma instance_transformation_eq:
  "instance_transformation p i = mat4_mul (translation_matrix p) (rotation_matrix (1, 1, 1) (of_int i * 20))"
  unfolding instance_transformation_def glm_translate_eq glm_rotate_eq ..

lemma updateInstanceData_ok:
  assumes "0 \<le> sint (numCubes e)"
    and "sint (numCubes e) \<le> int (length (cubePositions a))"
    and "sint (numCubes e) \<le> int (length (instanceData a))"
  shows "\<exists>buf. instance_loop 0 (sint (numCubes e)) (cubePositions a) (instanceData a) = Inr buf \<and>
     length buf = length (instanceData a) \<and>
     (\<forall>k. sint (numCubes e) \<le> int k \<longrightarrow> buf ! k = instanceData a ! k) \<and>
     (\<forall>k. int k < sint (numCubes e) \<longrightarrow>
         buf ! k = mat3x4_of_mat4x4 (glm_transpose (instance_transformation (cubePositions a ! k) (int k)))) \<and>
     updateInstanceData e a =
       Inr (issue [Object (glBindBufferBase 1 (instancingBuffer a)), Data glMapBuffer,
                   Data (memcpy_mapped (sint (numCubes e) * sizeof_InstanceData)
                           (concat (map mat3x4_floats (take (nat (sint (numCubes e))) buf)))),
                   Data glUnmapBuffer] (a\<lparr>instanceData := buf\<rparr>))"
proof -
  from instance_loop_ok[of 0 "sint (numCubes e)" "cubePositions a" "instanceData a"] assms
  obtain buf where b: "instance_loop 0 (sint (numCubes e)) (cubePositions a) (instanceData a) = Inr buf"
    "length buf = length (instanceData a)"
    "\<forall>k. int k < 0 \<or> sint (numCubes e) \<le> int k \<longrightarrow> buf ! k = instanceData a ! k"
    "\<forall>k. 0 \<le> int k \<and> int k < sint (numCubes e) \<longrightarrow>
        buf ! k = mat3x4_of_mat4x4 (glm_transpose (instance_transformation (cubePositions a ! k) (int k)))"
    by auto
  have "updateInstanceData e a =
       Inr (issue [Object (glBindBufferBase 1 (instancingBuffer a)), Data glMapBuffer,
                   Data (memcpy_mapped (sint (numCubes e) * sizeof_InstanceData)
                           (concat (map mat3x4_floats (take (nat (sint (numCubes e))) buf)))),
                   Data glUnmapBuffer] (a\<lparr>instanceData := buf\<rparr>))"
    using b(1,2) assms by (simp add: updateInstanceData_def Let_def issue_def gl_calls_Cons gl_calls_Nil)
  with b show ?thesis by auto
qed

lemma sint_example_numCubes: "sint (numCubes example_env) = 10"
  by (simp add: example_env_def)

lemma world_transform_rows:
  "rows_3x4 (mat4_mul (translation_matrix (x, y, z)) (rotation_matrix (1, 1, 1) t)) =
     (let c = cos (t * pi / 180); s = sin (t * pi / 180);
          d = c + (1 - c) / 3; p = (1 - c) / 3 + s / sqrt 3; m = (1 - c) / 3 - s / sqrt 3
      in ((d, m, p, x), (p, d, m, y), (m, p, d, z)))"
  by (simp add: Let_def)

text \<open>
  C5. When the staging vector and the position vector hold at least \<open>numCubes\<close> entries,
  the instance update returns, and for every index \<open>i\<close> below \<open>numCubes\<close> the record \<open>i\<close>
  of the staging vector holds three rows of four entries: with \<open>c\<close> and \<open>s\<close> the cosine
  and the sine of \<open>i\<close> times 20 degrees, the rows \<open>(d, m, p)\<close>, \<open>(p, d, m)\<close> and \<open>(m, p, d)\<close>
  of the rotation about the normalised axis (1, 1, 1), where \<open>d = c + (1 - c) / 3\<close>,
  \<open>p = (1 - c) / 3 + s / sqrt 3\<close> and \<open>m = (1 - c) / 3 - s / sqrt 3\<close>, each followed by the
  coordinate of \<open>cubePositions[i]\<close> of that row. These are the first three rows of the
  product of the translation with the rotation: the world transform, transposed and cut
  to a 3x4 matrix.
\<close>

theorem instance_transform_stored:
  assumes "0 \<le> sint (numCubes e)"
    and "sint (numCubes e) \<le> int (length (cubePositions a))"
    and "sint (numCubes e) \<le> int (length (instanceData a))"
  shows "\<exists>a'. updateInstanceData e a = Inr a' \<and>
     (\<forall>i. int i < sint (numCubes e) \<longrightarrow>
        instanceData a' ! i =
          (let (x, y, z) = cubePositions a ! i;
               c = cos (of_nat i * 20 * pi / 180); s = sin (of_nat i * 20 * pi / 180);
               d = c + (1 - c) / 3; p = (1 - c) / 3 + s / sqrt 3; m = (1 - c) / 3 - s / sqrt 3
           in ((d, m, p, x), (p, d, m, y), (m, p, d, z))) \<and>
        instanceData a' ! i =
          mat3x4_of_mat4x4 (glm_transpose
            (mat4_mul (translation_matrix (cubePositions a ! i))
               (rotation_matrix (1, 1, 1) (of_nat i * 20)))) \<and>
        instanceData a' ! i =
          rows_3x4 (mat4_mul (translation_matrix (cubePositions a ! i))
                      (rotation_matrix (1, 1, 1) (of_nat i * 20))))"
proof -
  from updateInstanceData_ok[OF assms] obtain buf where
    b: "\<forall>k. int k < sint (numCubes e) \<longrightarrow>
         buf ! k = mat3x4_of_mat4x4 (glm_transpose (instance_transformation (cubePositions a ! k) (int k)))"
     and u: "updateInstanceData e a =
       Inr (issue [Object (glBindBufferBase 1 (instancingBuffer a)), Data glMapBuffer,
                   Data (memcpy_mapped (sint (numCubes e) * sizeof_InstanceData)
                           (concat (map mat3x4_floats (take (nat (sint (numCubes e))) buf)))),
                   Data glUnmapBuffer] (a\<lparr>instanceData := buf\<rparr>))"
    by blast
  have stored: "instanceData (issue cs (a\<lparr>instanceData := buf\<rparr>)) = buf" for cs
    by (simp add: issue_def)
  have rows: "rows_3x4 (mat4_mul (translation_matrix q) (rotation_matrix (1, 1, 1) (of_nat i * 20))) =
          (let (x, y, z) = q;
               c = cos (of_nat i * 20 * pi / 180); s = sin (of_nat i * 20 * pi / 180);
               d = c + (1 - c) / 3; p = (1 - c) / 3 + s / sqrt 3; m = (1 - c) / 3 - s / sqrt 3
           in ((d, m, p, x), (p, d, m, y), (m, p, d, z)))" for q and i :: nat
  proof -
    obtain x y z where q: "q = (x, y, z)"
      by (cases q) auto
    show ?thesis
      unfolding q world_transform_rows by (simp add: Let_def)
  qed
  have "instanceData (issue cs (a\<lparr>instanceData := buf\<rparr>)) ! i =
      rows_3x4 (mat4_mul (translation_matrix (cubePositions a ! i))
                  (rotation_matrix (1, 1, 1) (of_nat i * 20)))"
    if "int i < sint (numCubes e)" for i cs
    using b that by (simp add: stored pack_rows instance_transformation_eq del: rotation_matrix.simps)
  then show ?thesis
    unfolding u by (intro exI conjI allI impI refl) (simp_all only: rows[symmetric] pack_rows)
qed

theorem instance_transform_stored_witness:
  "0 \<le> sint (numCubes example_env) \<and>
   sint (numCubes example_env) \<le>
     int (length (cubePositions ((app_initial example_limits example_camera)\<lparr>cubePositions := replicate 11 (0, 1 / 2, 0)\<rparr>))) \<and>
   sint (numCubes example_env) \<le>
     int (length (instanceData ((app_initial example_limits example_camera)\<lparr>cubePositions := replicate 11 (0, 1 / 2, 0)\<rparr>))) \<and>
   (\<exists>a'. updateInstanceData example_env
            ((app_initial example_limits example_camera)\<lparr>cubePositions := replicate 11 (0, 1 / 2, 0)\<rparr>) = Inr a' \<and>
      instanceData a' ! 3 =
        ((2 / 3, - (1 / 3), 2 / 3, 0), (2 / 3, 2 / 3, - (1 / 3), 1 / 2), (- (1 / 3), 2 / 3, 2 / 3, 0)) \<and>
      instanceData a' ! 3 =
        rows_3x4 (mat4_mul (translation_matrix (0, 1 / 2, 0)) (rotation_matrix (1, 1, 1) 60)))"
proof -
  let ?a = "(app_initial example_limits example_camera)\<lparr>cubePositions := replicate 11 (0, 1 / 2, 0)\<rparr>"
  have h1: "0 \<le> sint (numCubes example_env)"
    by (simp add: sint_example_numCubes)
  have h2: "sint (numCubes example_env) \<le> int (length (cubePositions ?a))"
    by (simp add: sint_example_numCubes)
  have h3: "sint (numCubes example_env) \<le> int (length (instanceData ?a))"
    by (simp add: sint_example_numCubes app_initial_def MAX_INSTANCES_def)
  from instance_transform_stored[OF h1 h2 h3] obtain a' where
    a': "updateInstanceData example_env ?a = Inr a'"
    and all: "\<forall>i. int i < sint (numCubes example_env) \<longrightarrow>
        instanceData a' ! i =
          (let (x, y, z) = cubePositions ?a ! i;
               c = cos (of_nat i * 20 * pi / 180); s = sin (of_nat i * 20 * pi / 180);
               d = c + (1 - c) / 3; p = (1 - c) / 3 + s / sqrt 3; m = (1 - c) / 3 - s / sqrt 3
           in ((d, m, p, x), (p, d, m, y), (m, p, d, z))) \<and>
        instanceData a' ! i =
          rows_3x4 (mat4_mul (translation_matrix (cubePositions ?a ! i))
                      (rotation_matrix (1, 1, 1) (of_nat i * 20)))"
    by blast
  have "int 3 < sint (numCubes example_env)"
    by (simp add: sint_example_numCubes)
  with all have three: "instanceData a' ! 3 =
          (let (x, y, z) = cubePositions ?a ! 3;
               c = cos (of_nat 3 * 20 * pi / 180); s = sin (of_nat 3 * 20 * pi / 180);
               d = c + (1 - c) / 3; p = (1 - c) / 3 + s / sqrt 3; m = (1 - c) / 3 - s / sqrt 3
           in ((d, m, p, x), (p, d, m, y), (m, p, d, z)))"
    "instanceData a' ! 3 =
      rows_3x4 (mat4_mul (translation_matrix (cubePositions ?a ! 3))
                  (rotation_matrix (1, 1, 1) (of_nat 3 * 20)))"
    by blast+
  have angle: "of_nat 3 * 20 * pi / 180 = pi / 3"
    by simp
  have "instanceData a' ! 3 =
        ((2 / 3, - (1 / 3), 2 / 3, 0), (2 / 3, 2 / 3, - (1 / 3), 1 / 2), (- (1 / 3), 2 / 3, 2 / 3, 0))"
    unfolding three(1) angle by (simp add: cos_60 sin_60 Let_def)
  moreover from three(2) have "instanceData a' ! 3 =
      rows_3x4 (mat4_mul (translation_matrix (0, 1 / 2, 0)) (rotation_matrix (1, 1, 1) 60))"
    by (simp del: rotation_matrix.simps translation_matrix.simps)
  ultimately show ?thesis
    using h1 h2 h3 a' by blast
qed

text \<open>
  C6. The world transform of every instance has the last row (0, 0, 0, 1), which is the
  fourth column of its transpose; this column is the one the instance record leaves
  out. Putting it back and transposing again gives the world transform itself, entry
  by entry: the packing loses nothing, whatever the tolerance.
\<close>

theorem instance_packing_invertible:
  "(\<exists>c0 c1 c2. glm_transpose (instance_transformation p i) = (c0, c1, c2, (0, 0, 0, 1))) \<and>
   unpack_instance (mat3x4_of_mat4x4 (glm_transpose (instance_transformation p i))) =
     instance_transformation p i"
proof -
  obtain c0 c1 c2 where t: "glm_transpose (instance_transformation p i) = (c0, c1, c2, (0, 0, 0, 1))"
    using instance_transformation_rows by blast
  have tt: "glm_transpose (glm_transpose M) = M" for M
    by (cases M rule: glm_transpose.cases) simp
  have "unpack_instance (mat3x4_of_mat4x4 (glm_transpose (instance_transformation p i))) =
      glm_transpose (glm_transpose (instance_transformation p i))"
    by (simp add: t)
  then show ?thesis using t tt by metis
qed

section \<open>\<^verbatim>\<open>createFramebuffer\<close> and the names in use\<close>

lemmas gl_run = gl_calls_Nil gl_calls_Cons

lemma driver_fresh:
  "driver_ok e \<Longrightarrow> finite (names_in_use k g) \<Longrightarrow>
   gen_name e k g \<noteq> 0 \<and> gen_name e k g \<notin> names_in_use k g"
  by (simp add: driver_ok_def)

lemmas names_ok_sets = names_ok_def

lemma gen_object_fields [simp]:
  "fst (gen_object e k g) = gen_name e k g"
  "snd (gen_object e k g) = gl_call (Object (glGen k (gen_name e k g))) g"
  by (simp_all add: gen_object_def Let_def)

text \<open>The first part: afterwards the framebuffer object exists and is bound.\<close>

lemma bind_fbo_fields [simp]:
  "width (bind_fbo e a) = width a"
  "height (bind_fbo e a) = height a"
  "handle (bind_fbo e a) = handle a"
  "shouldClose (bind_fbo e a) = shouldClose a"
  "swapInterval (bind_fbo e a) = swapInterval a"
  "fov (bind_fbo e a) = fov a"
  "msaaLevel (bind_fbo e a) = msaaLevel a"
  "cubePositions (bind_fbo e a) = cubePositions a"
  "camera (bind_fbo e a) = camera a"
  "quad (bind_fbo e a) = quad a"
  "cube (bind_fbo e a) = cube a"
  "vao (bind_fbo e a) = vao a"
  "renderTarget (bind_fbo e a) = renderTarget a"
  "depthStencil (bind_fbo e a) = depthStencil a"
  "vsync (bind_fbo e a) = vsync a"
  "depthTest (bind_fbo e a) = depthTest a"
  "wireframe (bind_fbo e a) = wireframe a"
  "tonemapping (bind_fbo e a) = tonemapping a"
  "instancingBuffer (bind_fbo e a) = instancingBuffer a"
  "transformBlockUBO (bind_fbo e a) = transformBlockUBO a"
  "loadedTextures (bind_fbo e a) = loadedTextures a"
  "shaderProgram (bind_fbo e a) = shaderProgram a"
  "instanceData (bind_fbo e a) = instanceData a"
  "console (bind_fbo e a) = console a"
  "texture_names (gl (bind_fbo e a)) = texture_names (gl a)"
  "texture_objects (gl (bind_fbo e a)) = texture_objects (gl a)"
  "texture_storage (gl (bind_fbo e a)) = texture_storage (gl a)"
  "renderbuffer_names (gl (bind_fbo e a)) = renderbuffer_names (gl a)"
  "renderbuffer_objects (gl (bind_fbo e a)) = renderbuffer_objects (gl a)"
  "renderbuffer_storage (gl (bind_fbo e a)) = renderbuffer_storage (gl a)"
  "buffer_names (gl (bind_fbo e a)) = buffer_names (gl a)"
  "vertex_array_names (gl (bind_fbo e a)) = vertex_array_names (gl a)"
  "limits (gl (bind_fbo e a)) = limits (gl a)"
  by (simp_all add: bind_fbo_def gen_fbo_def split_def gl_run Let_def)

lemma bind_fbo_bound:
  assumes "driver_ok e" "handles_ok a"
  shows "fbo (bind_fbo e a) \<noteq> 0"
    and "fbo (bind_fbo e a) \<in> framebuffer_names (gl (bind_fbo e a))"
    and "draw_framebuffer (gl (bind_fbo e a)) = fbo (bind_fbo e a)"
    and "framebuffer_names (gl (bind_fbo e a)) = insert (fbo (bind_fbo e a)) (framebuffer_names (gl a))"
    and "fbo a \<noteq> 0 \<Longrightarrow> fbo (bind_fbo e a) = fbo a"
proof -
  have fin: "finite (framebuffer_names (gl a))" "0 \<notin> framebuffer_names (gl a)"
    using assms(2) by (simp_all add: handles_ok_def names_ok_sets)
  have ok: "fbo a = 0 \<or> fbo a \<in> framebuffer_names (gl a)"
    using assms(2) by (simp add: handles_ok_def)
  have fresh: "gen_name e Framebuffer g \<noteq> 0" if "framebuffer_names g = framebuffer_names (gl a)" for g
    using driver_fresh[OF assms(1), of Framebuffer g] fin that by simp
  show "fbo (bind_fbo e a) \<noteq> 0"
    using fresh by (simp add: bind_fbo_def gen_fbo_def split_def gl_run Let_def)
  show "fbo (bind_fbo e a) \<in> framebuffer_names (gl (bind_fbo e a))"
    using ok fresh by (auto simp add: bind_fbo_def gen_fbo_def split_def gl_run Let_def)
  show "draw_framebuffer (gl (bind_fbo e a)) = fbo (bind_fbo e a)"
    using ok fresh by (auto simp add: bind_fbo_def gen_fbo_def split_def gl_run Let_def)
  show "framebuffer_names (gl (bind_fbo e a)) = insert (fbo (bind_fbo e a)) (framebuffer_names (gl a))"
    using ok fresh by (auto simp add: bind_fbo_def gen_fbo_def split_def gl_run Let_def)
  show "fbo a \<noteq> 0 \<Longrightarrow> fbo (bind_fbo e a) = fbo a"
    by (simp add: bind_fbo_def gl_run Let_def)
qed

text \<open>The second part: the old render target is deleted, a new one is generated, given
  storage and attached.\<close>

lemma recreate_renderTarget_fields [simp]:
  "width (recreate_renderTarget e w h m a) = width a"
  "height (recreate_renderTarget e w h m a) = height a"
  "handle (recreate_renderTarget e w h m a) = handle a"
  "shouldClose (recreate_renderTarget e w h m a) = shouldClose a"
  "swapInterval (recreate_renderTarget e w h m a) = swapInterval a"
  "fov (recreate_renderTarget e w h m a) = fov a"
  "msaaLevel (recreate_renderTarget e w h m a) = msaaLevel a"
  "cubePositions (recreate_renderTarget e w h m a) = cubePositions a"
  "camera (recreate_renderTarget e w h m a) = camera a"
  "quad (recreate_renderTarget e w h m a) = quad a"
  "cube (recreate_renderTarget e w h m a) = cube a"
  "vao (recreate_renderTarget e w h m a) = vao a"
  "fbo (recreate_renderTarget e w h m a) = fbo a"
  "depthStencil (recreate_renderTarget e w h m a) = depthStencil a"
  "vsync (recreate_renderTarget e w h m a) = vsync a"
  "depthTest (recreate_renderTarget e w h m a) = depthTest a"
  "wireframe (recreate_renderTarget e w h m a) = wireframe a"
  "tonemapping (recreate_renderTarget e w h m a) = tonemapping a"
  "instancingBuffer (recreate_renderTarget e w h m a) = instancingBuffer a"
  "transformBlockUBO (recreate_renderTarget e w h m a) = transformBlockUBO a"
  "loadedTextures (recreate_renderTarget e w h m a) = loadedTextures a"
  "shaderProgram (recreate_renderTarget e w h m a) = shaderProgram a"
  "instanceData (recreate_renderTarget e w h m a) = instanceData a"
  "console (recreate_renderTarget e w h m a) = console a"
  "renderbuffer_names (gl (recreate_renderTarget e w h m a)) = renderbuffer_names (gl a)"
  "renderbuffer_objects (gl (recreate_renderTarget e w h m a)) = renderbuffer_objects (gl a)"
  "renderbuffer_storage (gl (recreate_renderTarget e w h m a)) = renderbuffer_storage (gl a)"
  "framebuffer_names (gl (recreate_renderTarget e w h m a)) = framebuffer_names (gl a)"
  "buffer_names (gl (recreate_renderTarget e w h m a)) = buffer_names (gl a)"
  "vertex_array_names (gl (recreate_renderTarget e w h m a)) = vertex_array_names (gl a)"
  "draw_framebuffer (gl (recreate_renderTarget e w h m a)) = draw_framebuffer (gl a)"
  "limits (gl (recreate_renderTarget e w h m a)) = limits (gl a)"
  by (simp_all add: recreate_renderTarget_def gen_renderTarget_def split_def gl_run Let_def)

lemma recreate_renderTarget_new:
  fixes w h m :: int
  assumes e: "driver_ok e" and n: "names_ok (gl a)"
    and rt: "renderTarget a = 0 \<or> renderTarget a \<in> texture_objects (gl a)"
    and fb: "draw_framebuffer (gl a) \<noteq> 0"
  defines "a' \<equiv> recreate_renderTarget e w h m a"
  shows "renderTarget a' \<noteq> 0"
    and "renderTarget a' \<notin> texture_names (gl a) - {renderTarget a}"
    and "texture_names (gl a') = insert (renderTarget a') (texture_names (gl a) - {renderTarget a})"
    and "texture_objects (gl a') = insert (renderTarget a') (texture_objects (gl a) - {renderTarget a})"
    and "storage_accepted (limits (gl a)) w h m \<Longrightarrow>
         texture_storage (gl a') (renderTarget a') = Some (w, h, if m > 1 then m else 1)"
    and "color_attachment (gl a') (draw_framebuffer (gl a)) = renderTarget a'"
proof -
  define a1 where "a1 = (if glIsTexture (gl a) (renderTarget a)
               then (issue [glDeleteTextures [renderTarget a]] a)\<lparr>renderTarget := 0\<rparr> else a)"
  define a2 where "a2 = gen_renderTarget e a1"
  have is_tex: "glIsTexture (gl a) (renderTarget a) \<longleftrightarrow> renderTarget a \<noteq> 0"
    using rt n by (auto simp add: glIsTexture_def names_ok_sets)
  have a1: "renderTarget a1 = 0"
    "texture_names (gl a1) = texture_names (gl a) - {renderTarget a}"
    "texture_objects (gl a1) = texture_objects (gl a) - {renderTarget a}"
    "draw_framebuffer (gl a1) = draw_framebuffer (gl a)"
    "active_texture (gl a1) = active_texture (gl a)"
    "limits (gl a1) = limits (gl a)"
    using n by (auto simp add: a1_def is_tex gl_run names_ok_sets)
  have fin: "finite (names_in_use Texture (gl a1))"
    using n a1(2) by (simp add: names_ok_sets)
  have fresh: "gen_name e Texture (gl a1) \<noteq> 0" "gen_name e Texture (gl a1) \<notin> texture_names (gl a1)"
    using driver_fresh[OF e fin] by simp_all
  have a2: "renderTarget a2 = gen_name e Texture (gl a1)"
    "texture_names (gl a2) = insert (renderTarget a2) (texture_names (gl a1))"
    "texture_objects (gl a2) = texture_objects (gl a1)"
    "draw_framebuffer (gl a2) = draw_framebuffer (gl a)"
    "active_texture (gl a2) = active_texture (gl a)"
    "limits (gl a2) = limits (gl a)"
    by (simp_all add: a2_def gen_renderTarget_def split_def gl_run Let_def a1)
  have a': "a' = (if m > 1
         then issue [Object (glBindTexture GL_TEXTURE_2D_MULTISAMPLE (renderTarget a2)),
                     Data (glTexImage2DMultisample GL_TEXTURE_2D_MULTISAMPLE m w h),
                     Data (glFramebufferTexture2D GL_FRAMEBUFFER GL_COLOR_ATTACHMENT0
                             GL_TEXTURE_2D_MULTISAMPLE (renderTarget a2))] a2
         else issue [Object (glBindTexture GL_TEXTURE_2D (renderTarget a2)),
                     Data (glTexImage2D GL_TEXTURE_2D w h),
                     Data (glTexParameteri GL_TEXTURE_2D),
                     Data (glTexParameteri GL_TEXTURE_2D),
                     Data (glFramebufferTexture2D GL_FRAMEBUFFER GL_COLOR_ATTACHMENT0
                             GL_TEXTURE_2D (renderTarget a2))] a2)"
    by (simp add: a'_def recreate_renderTarget_def Let_def a1_def[symmetric] a1(1) a2_def[symmetric])
  have rt': "renderTarget a' = renderTarget a2"
    by (simp add: a')
  show "renderTarget a' \<noteq> 0"
    using fresh by (simp add: rt' a2)
  show "renderTarget a' \<notin> texture_names (gl a) - {renderTarget a}"
    using fresh by (simp add: rt' a2 a1)
  show "texture_names (gl a') = insert (renderTarget a') (texture_names (gl a) - {renderTarget a})"
    using a2(2) by (simp add: rt' a' a1 gl_run)
  show "texture_objects (gl a') = insert (renderTarget a') (texture_objects (gl a) - {renderTarget a})"
    using a2(2,3) fresh(1) by (simp add: rt' a' a1 a2(1) gl_run)
  show "texture_storage (gl a') (renderTarget a') = Some (w, h, if m > 1 then m else 1)"
    if "storage_accepted (limits (gl a)) w h m"
    using a2(2) fresh(1) that by (auto simp add: rt' a' a2(1) a2(6) gl_run storage_accepted_def)
  show "color_attachment (gl a') (draw_framebuffer (gl a)) = renderTarget a'"
    using a2(2,4) fresh(1) fb by (simp add: rt' a' a2(1) gl_run)
qed

text \<open>The third part: the same for the depth buffer.\<close>

lemma recreate_depthStencil_fields [simp]:
  "width (recreate_depthStencil e w h m a) = width a"
  "height (recreate_depthStencil e w h m a) = height a"
  "handle (recreate_depthStencil e w h m a) = handle a"
  "shouldClose (recreate_depthStencil e w h m a) = shouldClose a"
  "swapInterval (recreate_depthStencil e w h m a) = swapInterval a"
  "fov (recreate_depthStencil e w h m a) = fov a"
  "msaaLevel (recreate_depthStencil e w h m a) = msaaLevel a"
  "cubePositions (recreate_depthStencil e w h m a) = cubePositions a"
  "camera (recreate_depthStencil e w h m a) = camera a"
  "quad (recreate_depthStencil e w h m a) = quad a"
  "cube (recreate_depthStencil e w h m a) = cube a"
  "vao (recreate_depthStencil e w h m a) = vao a"
  "fbo (recreate_depthStencil e w h m a) = fbo a"
  "renderTarget (recreate_depthStencil e w h m a) = renderTarget a"
  "vsync (recreate_depthStencil e w h m a) = vsync a"
  "depthTest (recreate_depthStencil e w h m a) = depthTest a"
  "wireframe (recreate_depthStencil e w h m a) = wireframe a"
  "tonemapping (recreate_depthStencil e w h m a) = tonemapping a"
  "instancingBuffer (recreate_depthStencil e w h m a) = instancingBuffer a"
  "transformBlockUBO (recreate_depthStencil e w h m a) = transformBlockUBO a"
  "loadedTextures (recreate_depthStencil e w h m a) = loadedTextures a"
  "shaderProgram (recreate_depthStencil e w h m a) = shaderProgram a"
  "instanceData (recreate_depthStencil e w h m a) = instanceData a"
  "console (recreate_depthStencil e w h m a) = console a"
  "texture_names (gl (recreate_depthStencil e w h m a)) = texture_names (gl a)"
  "texture_objects (gl (recreate_depthStencil e w h m a)) = texture_objects (gl a)"
  "texture_storage (gl (recreate_depthStencil e w h m a)) = texture_storage (gl a)"
  "color_attachment (gl (recreate_depthStencil e w h m a)) = color_attachment (gl a)"
  "framebuffer_names (gl (recreate_depthStencil e w h m a)) = framebuffer_names (gl a)"
  "buffer_names (gl (recreate_depthStencil e w h m a)) = buffer_names (gl a)"
  "vertex_array_names (gl (recreate_depthStencil e w h m a)) = vertex_array_names (gl a)"
  "draw_framebuffer (gl (recreate_depthStencil e w h m a)) = draw_framebuffer (gl a)"
  "limits (gl (recreate_depthStencil e w h m a)) = limits (gl a)"
  by (simp_all add: recreate_depthStencil_def gen_depthStencil_def split_def gl_run Let_def)

lemma recreate_depthStencil_new:
  fixes w h m :: int
  assumes e: "driver_ok e" and n: "names_ok (gl a)"
    and ds: "depthStencil a = 0 \<or> depthStencil a \<in> renderbuffer_objects (gl a)"
    and fb: "draw_framebuffer (gl a) \<noteq> 0"
  defines "a' \<equiv> recreate_depthStencil e w h m a"
  shows "depthStencil a' \<noteq> 0"
    and "depthStencil a' \<notin> renderbuffer_names (gl a) - {depthStencil a}"
    and "renderbuffer_names (gl a') = insert (depthStencil a') (renderbuffer_names (gl a) - {depthStencil a})"
    and "renderbuffer_objects (gl a') = insert (depthStencil a') (renderbuffer_objects (gl a) - {depthStencil a})"
    and "storage_accepted (limits (gl a)) w h m \<Longrightarrow>
         renderbuffer_storage (gl a') (depthStencil a') = Some (w, h, if m > 1 then m else 1)"
    and "depth_attachment (gl a') (draw_framebuffer (gl a)) = depthStencil a'"
proof -
  define a1 where "a1 = (if glIsRenderbuffer (gl a) (depthStencil a)
               then (issue [glDeleteRenderbuffers [depthStencil a]] a)\<lparr>depthStencil := 0\<rparr> else a)"
  define a2 where "a2 = gen_depthStencil e a1"
  have is_rb: "glIsRenderbuffer (gl a) (depthStencil a) \<longleftrightarrow> depthStencil a \<noteq> 0"
    using ds n by (auto simp add: glIsRenderbuffer_def names_ok_sets)
  have a1: "depthStencil a1 = 0"
    "renderbuffer_names (gl a1) = renderbuffer_names (gl a) - {depthStencil a}"
    "renderbuffer_objects (gl a1) = renderbuffer_objects (gl a) - {depthStencil a}"
    "draw_framebuffer (gl a1) = draw_framebuffer (gl a)"
    "limits (gl a1) = limits (gl a)"
    using n by (auto simp add: a1_def is_rb gl_run names_ok_sets)
  have fin: "finite (names_in_use Renderbuffer (gl a1))"
    using n a1(2) by (simp add: names_ok_sets)
  have fresh: "gen_name e Renderbuffer (gl a1) \<noteq> 0"
    "gen_name e Renderbuffer (gl a1) \<notin> renderbuffer_names (gl a1)"
    using driver_fresh[OF e fin] by simp_all
  have a2: "depthStencil a2 = gen_name e Renderbuffer (gl a1)"
    "renderbuffer_names (gl a2) = insert (depthStencil a2) (renderbuffer_names (gl a1))"
    "renderbuffer_objects (gl a2) = renderbuffer_objects (gl a1)"
    "draw_framebuffer (gl a2) = draw_framebuffer (gl a)"
    "limits (gl a2) = limits (gl a)"
    by (simp_all add: a2_def gen_depthStencil_def split_def gl_run Let_def a1)
  have a': "a' = issue [Data (glFramebufferRenderbuffer GL_FRAMEBUFFER GL_DEPTH_ATTACHMENT (depthStencil a2))]
        (if m > 1
         then issue [Data (glRenderbufferStorageMultisample m w h)]
                (issue [Object (glBindRenderbuffer (depthStencil a2))] a2)
         else issue [Data (glRenderbufferStorage w h)]
                (issue [Object (glBindRenderbuffer (depthStencil a2))] a2))"
    by (simp add: a'_def recreate_depthStencil_def Let_def a1_def[symmetric] a1(1) a2_def[symmetric])
  have ds': "depthStencil a' = depthStencil a2"
    by (simp add: a')
  show "depthStencil a' \<noteq> 0"
    using fresh by (simp add: ds' a2)
  show "depthStencil a' \<notin> renderbuffer_names (gl a) - {depthStencil a}"
    using fresh by (simp add: ds' a2 a1)
  show "renderbuffer_names (gl a') = insert (depthStencil a') (renderbuffer_names (gl a) - {depthStencil a})"
    using a2(2) by (simp add: ds' a' a1 gl_run)
  show "renderbuffer_objects (gl a') = insert (depthStencil a') (renderbuffer_objects (gl a) - {depthStencil a})"
    using a2(2,3) fresh(1) by (simp add: ds' a' a1 a2(1) gl_run)
  show "renderbuffer_storage (gl a') (depthStencil a') = Some (w, h, if m > 1 then m else 1)"
    if "storage_accepted (limits (gl a)) w h m"
    using a2(2) fresh(1) that by (auto simp add: ds' a' a2(1) a2(5) gl_run storage_accepted_def)
  show "depth_attachment (gl a') (draw_framebuffer (gl a)) = depthStencil a'"
    using a2(2,4) fresh(1) fb by (simp add: ds' a' a2(1) gl_run)
qed

text \<open>The last part changes no name and binds the window's framebuffer.\<close>

lemma finish_fbo_fields [simp]:
  "width (finish_fbo e a) = width a"
  "height (finish_fbo e a) = height a"
  "handle (finish_fbo e a) = handle a"
  "shouldClose (finish_fbo e a) = shouldClose a"
  "swapInterval (finish_fbo e a) = swapInterval a"
  "fov (finish_fbo e a) = fov a"
  "msaaLevel (finish_fbo e a) = msaaLevel a"
  "cubePositions (finish_fbo e a) = cubePositions a"
  "camera (finish_fbo e a) = camera a"
  "quad (finish_fbo e a) = quad a"
  "cube (finish_fbo e a) = cube a"
  "vao (finish_fbo e a) = vao a"
  "fbo (finish_fbo e a) = fbo a"
  "renderTarget (finish_fbo e a) = renderTarget a"
  "depthStencil (finish_fbo e a) = depthStencil a"
  "vsync (finish_fbo e a) = vsync a"
  "depthTest (finish_fbo e a) = depthTest a"
  "wireframe (finish_fbo e a) = wireframe a"
  "tonemapping (finish_fbo e a) = tonemapping a"
  "instancingBuffer (finish_fbo e a) = instancingBuffer a"
  "transformBlockUBO (finish_fbo e a) = transformBlockUBO a"
  "loadedTextures (finish_fbo e a) = loadedTextures a"
  "shaderProgram (finish_fbo e a) = shaderProgram a"
  "instanceData (finish_fbo e a) = instanceData a"
  "texture_names (gl (finish_fbo e a)) = texture_names (gl a)"
  "texture_objects (gl (finish_fbo e a)) = texture_objects (gl a)"
  "texture_storage (gl (finish_fbo e a)) = texture_storage (gl a)"
  "renderbuffer_names (gl (finish_fbo e a)) = renderbuffer_names (gl a)"
  "renderbuffer_objects (gl (finish_fbo e a)) = renderbuffer_objects (gl a)"
  "renderbuffer_storage (gl (finish_fbo e a)) = renderbuffer_storage (gl a)"
  "color_attachment (gl (finish_fbo e a)) = color_attachment (gl a)"
  "depth_attachment (gl (finish_fbo e a)) = depth_attachment (gl a)"
  "framebuffer_names (gl (finish_fbo e a)) = framebuffer_names (gl a)"
  "buffer_names (gl (finish_fbo e a)) = buffer_names (gl a)"
  "vertex_array_names (gl (finish_fbo e a)) = vertex_array_names (gl a)"
  "draw_framebuffer (gl (finish_fbo e a)) = 0"
  "limits (gl (finish_fbo e a)) = limits (gl a)"
  by (simp_all add: finish_fbo_def gl_run Let_def)

text \<open>The whole function.\<close>

lemma createFramebuffer_fields [simp]:
  "width (createFramebuffer e w h m a) = width a"
  "height (createFramebuffer e w h m a) = height a"
  "handle (createFramebuffer e w h m a) = handle a"
  "shouldClose (createFramebuffer e w h m a) = shouldClose a"
  "swapInterval (createFramebuffer e w h m a) = swapInterval a"
  "fov (createFramebuffer e w h m a) = fov a"
  "msaaLevel (createFramebuffer e w h m a) = msaaLevel a"
  "cubePositions (createFramebuffer e w h m a) = cubePositions a"
  "camera (createFramebuffer e w h m a) = camera a"
  "quad (createFramebuffer e w h m a) = quad a"
  "cube (createFramebuffer e w h m a) = cube a"
  "vao (createFramebuffer e w h m a) = vao a"
  "vsync (createFramebuffer e w h m a) = vsync a"
  "depthTest (createFramebuffer e w h m a) = depthTest a"
  "wireframe (createFramebuffer e w h m a) = wireframe a"
  "tonemapping (createFramebuffer e w h m a) = tonemapping a"
  "instancingBuffer (createFramebuffer e w h m a) = instancingBuffer a"
  "transformBlockUBO (createFramebuffer e w h m a) = transformBlockUBO a"
  "loadedTextures (createFramebuffer e w h m a) = loadedTextures a"
  "shaderProgram (createFramebuffer e w h m a) = shaderProgram a"
  "instanceData (createFramebuffer e w h m a) = instanceData a"
  "buffer_names (gl (createFramebuffer e w h m a)) = buffer_names (gl a)"
  "vertex_array_names (gl (createFramebuffer e w h m a)) = vertex_array_names (gl a)"
  "draw_framebuffer (gl (createFramebuffer e w h m a)) = 0"
  "limits (gl (createFramebuffer e w h m a)) = limits (gl a)"
  by (simp_all add: createFramebuffer_def)

lemma createFramebuffer_summary:
  fixes w h m :: int
  assumes e: "driver_ok e" and ok: "handles_ok a"
  defines "a' \<equiv> createFramebuffer e w h m a"
  shows "fbo a' \<noteq> 0"
    and "fbo a \<noteq> 0 \<Longrightarrow> fbo a' = fbo a"
    and "framebuffer_names (gl a') = insert (fbo a') (framebuffer_names (gl a))"
    and "renderTarget a' \<noteq> 0"
    and "renderTarget a' \<notin> texture_names (gl a) - {renderTarget a}"
    and "texture_names (gl a') = insert (renderTarget a') (texture_names (gl a) - {renderTarget a})"
    and "texture_objects (gl a') = insert (renderTarget a') (texture_objects (gl a) - {renderTarget a})"
    and "storage_accepted (limits (gl a)) w h m \<Longrightarrow>
         texture_storage (gl a') (renderTarget a') = Some (w, h, if m > 1 then m else 1)"
    and "color_attachment (gl a') (fbo a') = renderTarget a'"
    and "depthStencil a' \<noteq> 0"
    and "depthStencil a' \<notin> renderbuffer_names (gl a) - {depthStencil a}"
    and "renderbuffer_names (gl a') = insert (depthStencil a') (renderbuffer_names (gl a) - {depthStencil a})"
    and "renderbuffer_objects (gl a') = insert (depthStencil a') (renderbuffer_objects (gl a) - {depthStencil a})"
    and "storage_accepted (limits (gl a)) w h m \<Longrightarrow>
         renderbuffer_storage (gl a') (depthStencil a') = Some (w, h, if m > 1 then m else 1)"
    and "depth_attachment (gl a') (fbo a') = depthStencil a'"
proof -
  define b where "b = bind_fbo e a"
  define c where "c = recreate_renderTarget e w h m b"
  define d where "d = recreate_depthStencil e w h m c"
  have a': "a' = finish_fbo e d"
    by (simp add: a'_def createFramebuffer_def b_def c_def d_def)
  note B = bind_fbo_bound[OF e ok, folded b_def]
  have nb: "names_ok (gl b)"
    using ok B(1,4) by (simp add: handles_ok_def names_ok_sets b_def)
  have rtb: "renderTarget b = 0 \<or> renderTarget b \<in> texture_objects (gl b)"
    using ok by (simp add: handles_ok_def b_def)
  have fbb: "draw_framebuffer (gl b) \<noteq> 0"
    using B(1,3) by simp
  note C = recreate_renderTarget_new[OF e nb rtb fbb, of w h m, folded c_def]
  have nc: "names_ok (gl c)"
    using nb C(1,3,4) by (auto simp add: names_ok_sets c_def)
  have dsc: "depthStencil c = 0 \<or> depthStencil c \<in> renderbuffer_objects (gl c)"
    using ok by (simp add: handles_ok_def b_def c_def)
  have fbc: "draw_framebuffer (gl c) \<noteq> 0"
    using fbb by (simp add: c_def)
  note D = recreate_depthStencil_new[OF e nc dsc fbc, of w h m, folded d_def]
  show "fbo a' \<noteq> 0"
    using B(1) by (simp add: a' d_def c_def)
  show "fbo a \<noteq> 0 \<Longrightarrow> fbo a' = fbo a"
    using B(5) by (simp add: a' d_def c_def)
  show "framebuffer_names (gl a') = insert (fbo a') (framebuffer_names (gl a))"
    using B(4) by (simp add: a' d_def c_def)
  show "renderTarget a' \<noteq> 0"
    using C(1) by (simp add: a' d_def)
  show "renderTarget a' \<notin> texture_names (gl a) - {renderTarget a}"
    using C(2) by (simp add: a' d_def b_def)
  show "texture_names (gl a') = insert (renderTarget a') (texture_names (gl a) - {renderTarget a})"
    using C(3) by (simp add: a' d_def b_def)
  show "texture_objects (gl a') = insert (renderTarget a') (texture_objects (gl a) - {renderTarget a})"
    using C(4) by (simp add: a' d_def b_def)
  show "texture_storage (gl a') (renderTarget a') = Some (w, h, if m > 1 then m else 1)"
    if "storage_accepted (limits (gl a)) w h m"
    using C(5) that by (simp add: a' d_def b_def)
  show "color_attachment (gl a') (fbo a') = renderTarget a'"
    using C(6) B(3) by (simp add: a' d_def c_def)
  show "depthStencil a' \<noteq> 0"
    using D(1) by (simp add: a')
  show "depthStencil a' \<notin> renderbuffer_names (gl a) - {depthStencil a}"
    using D(2) by (simp add: a' c_def b_def)
  show "renderbuffer_names (gl a') = insert (depthStencil a') (renderbuffer_names (gl a) - {depthStencil a})"
    using D(3) by (simp add: a' c_def b_def)
  show "renderbuffer_objects (gl a') = insert (depthStencil a') (renderbuffer_objects (gl a) - {depthStencil a})"
    using D(4) by (simp add: a' c_def b_def)
  show "renderbuffer_storage (gl a') (depthStencil a') = Some (w, h, if m > 1 then m else 1)"
    if "storage_accepted (limits (gl a)) w h m"
    using D(5) that by (simp add: a' c_def b_def)
  show "depth_attachment (gl a') (fbo a') = depthStencil a'"
    using D(6) B(3) by (simp add: a' d_def c_def)
qed

lemma createFramebuffer_handles_ok:
  assumes "driver_ok e" "handles_ok a"
  shows "handles_ok (createFramebuffer e w h m a)"
proof -
  note S = createFramebuffer_summary[OF assms, of w h m]
  have n: "names_ok (gl a)"
    using assms(2) by (simp add: handles_ok_def)
  then have "names_ok (gl (createFramebuffer e w h m a))"
    unfolding names_ok_sets using S(1,3,4,6,7,10,12,13) by auto
  then show ?thesis
    unfolding handles_ok_def using S(3,7,13) by auto
qed

text \<open>The commands of each part, in order.\<close>

lemma bind_fbo_calls:
  "calls (gl (bind_fbo e a)) =
     calls (gl a) @ [Object (glBindFramebuffer GL_FRAMEBUFFER 0)] @
     (if fbo a = 0 then [glGenFramebuffers (fbo (bind_fbo e a))] else []) @
     [Object (glBindFramebuffer GL_FRAMEBUFFER (fbo (bind_fbo e a)))]"
  by (simp add: bind_fbo_def gen_fbo_def split_def gl_run Let_def)

lemma recreate_renderTarget_calls:
  "calls (gl (recreate_renderTarget e w h m a)) =
     calls (gl a) @
     (if glIsTexture (gl a) (renderTarget a) then [glDeleteTextures [renderTarget a]] else []) @
     (if glIsTexture (gl a) (renderTarget a) \<or> renderTarget a = 0
      then [glGenTextures (renderTarget (recreate_renderTarget e w h m a))] else []) @
     renderTarget_storage_calls w h m (renderTarget (recreate_renderTarget e w h m a))"
  by (simp add: recreate_renderTarget_def gen_renderTarget_def split_def gl_run Let_def
      renderTarget_storage_calls_def)

lemma recreate_depthStencil_calls:
  "calls (gl (recreate_depthStencil e w h m a)) =
     calls (gl a) @
     (if glIsRenderbuffer (gl a) (depthStencil a) then [glDeleteRenderbuffers [depthStencil a]] else []) @
     (if glIsRenderbuffer (gl a) (depthStencil a) \<or> depthStencil a = 0
      then [glGenRenderbuffers (depthStencil (recreate_depthStencil e w h m a))] else []) @
     depthStencil_storage_calls w h m (depthStencil (recreate_depthStencil e w h m a))"
  by (simp add: recreate_depthStencil_def gen_depthStencil_def split_def gl_run Let_def
      depthStencil_storage_calls_def)

lemma finish_fbo_calls:
  "calls (gl (finish_fbo e a)) =
     calls (gl a) @ [Pipeline (glDrawBuffers [GL_COLOR_ATTACHMENT0]),
                     Object (glBindFramebuffer GL_FRAMEBUFFER 0)]"
  by (simp add: finish_fbo_def gl_run Let_def)

lemma createFramebuffer_calls:
  fixes e :: env and w h m :: int
  assumes ok: "handles_ok a"
  defines "a' \<equiv> createFramebuffer e w h m a"
  shows "calls (gl a') =
     calls (gl a) @
     [Object (glBindFramebuffer GL_FRAMEBUFFER 0)] @
     (if fbo a = 0 then [glGenFramebuffers (fbo a')] else []) @
     [Object (glBindFramebuffer GL_FRAMEBUFFER (fbo a'))] @
     (if renderTarget a = 0 then [] else [glDeleteTextures [renderTarget a]]) @
     [glGenTextures (renderTarget a')] @
     renderTarget_storage_calls w h m (renderTarget a') @
     (if depthStencil a = 0 then [] else [glDeleteRenderbuffers [depthStencil a]]) @
     [glGenRenderbuffers (depthStencil a')] @
     depthStencil_storage_calls w h m (depthStencil a') @
     [Pipeline (glDrawBuffers [GL_COLOR_ATTACHMENT0]),
      Object (glBindFramebuffer GL_FRAMEBUFFER 0)]"
proof -
  have n: "names_ok (gl a)"
    using ok by (simp add: handles_ok_def)
  have is_tex: "glIsTexture (gl a) (renderTarget a) \<longleftrightarrow> renderTarget a \<noteq> 0"
    using ok n by (auto simp add: glIsTexture_def handles_ok_def names_ok_sets)
  have is_rb: "glIsRenderbuffer (gl a) (depthStencil a) \<longleftrightarrow> depthStencil a \<noteq> 0"
    using ok n by (auto simp add: glIsRenderbuffer_def handles_ok_def names_ok_sets)
  have t: "glIsTexture (gl (bind_fbo e a)) (renderTarget a) \<longleftrightarrow> renderTarget a \<noteq> 0"
    using is_tex by (simp add: glIsTexture_def)
  have r: "glIsRenderbuffer (gl (recreate_renderTarget e w h m (bind_fbo e a))) (depthStencil a) \<longleftrightarrow>
      depthStencil a \<noteq> 0"
    using is_rb by (simp add: glIsRenderbuffer_def)
  show ?thesis
    unfolding a'_def createFramebuffer_def
    by (auto simp add: finish_fbo_calls recreate_depthStencil_calls recreate_renderTarget_calls
        bind_fbo_calls t r)
qed

lemma card_replace:
  assumes "finite S" "y \<in> S" "x \<notin> S - {y}"
  shows "card (insert x (S - {y})) = card S"
proof -
  have "card (insert x (S - {y})) = Suc (card (S - {y}))"
    using assms(1,3) by (intro card_insert_disjoint) auto
  also have "\<dots> = card S"
    using assms(1,2) by (rule card_Suc_Diff1)
  finally show ?thesis .
qed

lemma driver_ok_example: "driver_ok example_env"
proof -
  have "Suc (Max (insert 0 S)) \<notin> S" if "finite S" for S :: "nat set"
  proof
    assume "Suc (Max (insert 0 S)) \<in> S"
    then have "Suc (Max (insert 0 S)) \<le> Max (insert 0 S)"
      using that by (intro Max_ge) auto
    then show False by simp
  qed
  then show ?thesis
    by (simp add: driver_ok_def example_env_def)
qed

lemma handles_ok_initial: "handles_ok (app_initial lims cam)"
  by (simp add: handles_ok_def names_ok_sets app_initial_def gl_initial_def)

text \<open>
  C2. In a state where the handles of the program are 0 or objects of their kind (which
  holds initially and after every call), a call of \<^verbatim>\<open>createFramebuffer\<close>, whatever its
  arguments, leaves as texture names the old ones without the old render target, and
  one new name, the new render target; the same holds for the renderbuffer names and the
  depth-stencil buffer. When there was a render target (a depth-stencil buffer), the
  number of names is the same after the call as before, and the command that deletes
  the old object comes before the one that generates the new name.
\<close>

theorem createFramebuffer_no_leak:
  assumes "driver_ok e" and "handles_ok a"
  shows "handles_ok (createFramebuffer e w h m a) \<and>
     renderTarget (createFramebuffer e w h m a) \<noteq> 0 \<and>
     renderTarget (createFramebuffer e w h m a) \<notin> texture_names (gl a) - {renderTarget a} \<and>
     texture_names (gl (createFramebuffer e w h m a)) =
       insert (renderTarget (createFramebuffer e w h m a)) (texture_names (gl a) - {renderTarget a}) \<and>
     depthStencil (createFramebuffer e w h m a) \<noteq> 0 \<and>
     depthStencil (createFramebuffer e w h m a) \<notin> renderbuffer_names (gl a) - {depthStencil a} \<and>
     renderbuffer_names (gl (createFramebuffer e w h m a)) =
       insert (depthStencil (createFramebuffer e w h m a))
         (renderbuffer_names (gl a) - {depthStencil a}) \<and>
     (renderTarget a \<noteq> 0 \<longrightarrow>
        card (texture_names (gl (createFramebuffer e w h m a))) = card (texture_names (gl a)) \<and>
        (\<exists>pre mid post. calls_between a (createFramebuffer e w h m a) =
           pre @ [glDeleteTextures [renderTarget a]] @ mid @
           [glGenTextures (renderTarget (createFramebuffer e w h m a))] @ post)) \<and>
     (depthStencil a \<noteq> 0 \<longrightarrow>
        card (renderbuffer_names (gl (createFramebuffer e w h m a))) =
          card (renderbuffer_names (gl a)) \<and>
        (\<exists>pre mid post. calls_between a (createFramebuffer e w h m a) =
           pre @ [glDeleteRenderbuffers [depthStencil a]] @ mid @
           [glGenRenderbuffers (depthStencil (createFramebuffer e w h m a))] @ post)) \<and>
     (renderTarget a = 0 \<longrightarrow>
        card (texture_names (gl (createFramebuffer e w h m a))) = Suc (card (texture_names (gl a)))) \<and>
     (depthStencil a = 0 \<longrightarrow>
        card (renderbuffer_names (gl (createFramebuffer e w h m a))) =
          Suc (card (renderbuffer_names (gl a))))"
proof -
  let ?a' = "createFramebuffer e w h m a"
  note S = createFramebuffer_summary[OF assms, of w h m]
  note C = createFramebuffer_calls[OF assms(2), of e w h m]
  have n: "names_ok (gl a)"
    using assms(2) by (simp add: handles_ok_def)
  have fin: "finite (texture_names (gl a))" "finite (renderbuffer_names (gl a))"
    "0 \<notin> texture_names (gl a)" "0 \<notin> renderbuffer_names (gl a)"
    using n by (simp_all add: names_ok_sets)
  have between: "calls_between a ?a' = drop (length (calls (gl a))) (calls (gl ?a'))"
    by (simp add: calls_between_def)
  have tex: "card (texture_names (gl ?a')) = card (texture_names (gl a)) \<and>
        (\<exists>pre mid post. calls_between a ?a' =
           pre @ [glDeleteTextures [renderTarget a]] @ mid @ [glGenTextures (renderTarget ?a')] @ post)"
    if rt: "renderTarget a \<noteq> 0"
  proof
    have "renderTarget a \<in> texture_names (gl a)"
      using rt assms(2) n by (auto simp add: handles_ok_def names_ok_sets)
    then show "card (texture_names (gl ?a')) = card (texture_names (gl a))"
      unfolding S(6) using S(5) fin(1) by (intro card_replace)
    have "calls_between a ?a' =
        ([Object (glBindFramebuffer GL_FRAMEBUFFER 0)] @
         (if fbo a = 0 then [glGenFramebuffers (fbo ?a')] else []) @
         [Object (glBindFramebuffer GL_FRAMEBUFFER (fbo ?a'))]) @
        [glDeleteTextures [renderTarget a]] @ [] @ [glGenTextures (renderTarget ?a')] @
        (renderTarget_storage_calls w h m (renderTarget ?a') @
         (if depthStencil a = 0 then [] else [glDeleteRenderbuffers [depthStencil a]]) @
         [glGenRenderbuffers (depthStencil ?a')] @
         depthStencil_storage_calls w h m (depthStencil ?a') @
         [Pipeline (glDrawBuffers [GL_COLOR_ATTACHMENT0]),
          Object (glBindFramebuffer GL_FRAMEBUFFER 0)])"
      using rt by (simp add: between C)
    then show "\<exists>pre mid post. calls_between a ?a' =
           pre @ [glDeleteTextures [renderTarget a]] @ mid @ [glGenTextures (renderTarget ?a')] @ post"
      by blast
  qed
  have rb: "card (renderbuffer_names (gl ?a')) = card (renderbuffer_names (gl a)) \<and>
        (\<exists>pre mid post. calls_between a ?a' =
           pre @ [glDeleteRenderbuffers [depthStencil a]] @ mid @
           [glGenRenderbuffers (depthStencil ?a')] @ post)"
    if ds: "depthStencil a \<noteq> 0"
  proof
    have "depthStencil a \<in> renderbuffer_names (gl a)"
      using ds assms(2) n by (auto simp add: handles_ok_def names_ok_sets)
    then show "card (renderbuffer_names (gl ?a')) = card (renderbuffer_names (gl a))"
      unfolding S(12) using S(11) fin(2) by (intro card_replace)
    have "calls_between a ?a' =
        ([Object (glBindFramebuffer GL_FRAMEBUFFER 0)] @
         (if fbo a = 0 then [glGenFramebuffers (fbo ?a')] else []) @
         [Object (glBindFramebuffer GL_FRAMEBUFFER (fbo ?a'))] @
         (if renderTarget a = 0 then [] else [glDeleteTextures [renderTarget a]]) @
         [glGenTextures (renderTarget ?a')] @
         renderTarget_storage_calls w h m (renderTarget ?a')) @
        [glDeleteRenderbuffers [depthStencil a]] @ [] @ [glGenRenderbuffers (depthStencil ?a')] @
        (depthStencil_storage_calls w h m (depthStencil ?a') @
         [Pipeline (glDrawBuffers [GL_COLOR_ATTACHMENT0]),
          Object (glBindFramebuffer GL_FRAMEBUFFER 0)])"
      using ds by (simp add: between C)
    then show "\<exists>pre mid post. calls_between a ?a' =
           pre @ [glDeleteRenderbuffers [depthStencil a]] @ mid @
           [glGenRenderbuffers (depthStencil ?a')] @ post"
      by blast
  qed
  have tex0: "card (texture_names (gl ?a')) = Suc (card (texture_names (gl a)))"
    if "renderTarget a = 0"
    using that S(5) fin(1,3) by (simp add: S(6))
  have rb0: "card (renderbuffer_names (gl ?a')) = Suc (card (renderbuffer_names (gl a)))"
    if "depthStencil a = 0"
    using that S(11) fin(2,4) by (simp add: S(12))
  show ?thesis
    using createFramebuffer_handles_ok[OF assms, of w h m] S(4,5,6,10,11,12) tex rb tex0 rb0
    by blast
qed

theorem createFramebuffer_no_leak_witness:
  "driver_ok example_env \<and>
   handles_ok (createFramebuffer example_env 800 600 4 (app_initial example_limits example_camera)) \<and>
   renderTarget (createFramebuffer example_env 800 600 4 (app_initial example_limits example_camera)) \<noteq> 0 \<and>
   depthStencil (createFramebuffer example_env 800 600 4 (app_initial example_limits example_camera)) \<noteq> 0 \<and>
   card (texture_names (gl (createFramebuffer example_env 1024 768 1
           (createFramebuffer example_env 800 600 4 (app_initial example_limits example_camera))))) =
     card (texture_names (gl (createFramebuffer example_env 800 600 4 (app_initial example_limits example_camera)))) \<and>
   card (renderbuffer_names (gl (createFramebuffer example_env 1024 768 1
           (createFramebuffer example_env 800 600 4 (app_initial example_limits example_camera))))) =
     card (renderbuffer_names (gl (createFramebuffer example_env 800 600 4 (app_initial example_limits example_camera))))"
proof -
  let ?a = "createFramebuffer example_env 800 600 4 (app_initial example_limits example_camera)"
  note first = createFramebuffer_no_leak[OF driver_ok_example
      handles_ok_initial[of example_limits example_camera], of 800 600 4]
  then have ok: "handles_ok ?a" and rt: "renderTarget ?a \<noteq> 0" and ds: "depthStencil ?a \<noteq> 0"
    by blast+
  note second = createFramebuffer_no_leak[OF driver_ok_example ok, of 1024 768 1]
  show ?thesis
    using driver_ok_example ok rt ds second by blast
qed

section \<open>Commands that reserve no name\<close>

lemma gl_call_keeps_names:
  assumes "\<not> allocates c"
  shows "names_in_use k (gl_call c g) = names_in_use k g"
proof (cases c)
  case (Object oc)
  with assms show ?thesis
    by (cases oc; cases k) simp_all
qed (cases k; simp)+

lemma gl_call_objects:
  assumes "\<not> allocates c" and "names_ok g"
  shows "names_ok (gl_call c g)"
    and "texture_objects g \<subseteq> texture_objects (gl_call c g)"
    and "renderbuffer_objects g \<subseteq> renderbuffer_objects (gl_call c g)"
proof -
  have names: "names_in_use k (gl_call c g) = names_in_use k g" for k
    using assms(1) by (rule gl_call_keeps_names)
  have objs: "texture_objects g \<subseteq> texture_objects (gl_call c g) \<and>
      texture_objects (gl_call c g) \<subseteq> texture_objects g \<union> texture_names g \<and>
      renderbuffer_objects g \<subseteq> renderbuffer_objects (gl_call c g) \<and>
      renderbuffer_objects (gl_call c g) \<subseteq> renderbuffer_objects g \<union> renderbuffer_names g"
  proof (cases c)
    case (Object oc)
    with assms(1) show ?thesis
      by (cases oc) auto
  qed auto
  have "texture_names (gl_call c g) = texture_names g"
    "renderbuffer_names (gl_call c g) = renderbuffer_names g"
    using names[of Texture] names[of Renderbuffer] by simp_all
  moreover have "framebuffer_names (gl_call c g) = framebuffer_names g"
    using names[of Framebuffer] by simp
  ultimately show "names_ok (gl_call c g)"
    using assms(2) objs unfolding names_ok_def by auto
  show "texture_objects g \<subseteq> texture_objects (gl_call c g)"
    and "renderbuffer_objects g \<subseteq> renderbuffer_objects (gl_call c g)"
    using objs by auto
qed

lemma gl_calls_keeps_names:
  "\<forall>c\<in>set cs. \<not> allocates c \<Longrightarrow> names_in_use k (gl_calls cs g) = names_in_use k g"
  by (induction cs arbitrary: g) (simp_all add: gl_run gl_call_keeps_names)

lemma gl_calls_objects:
  "\<forall>c\<in>set cs. \<not> allocates c \<Longrightarrow> names_ok g \<Longrightarrow>
   names_ok (gl_calls cs g) \<and> texture_objects g \<subseteq> texture_objects (gl_calls cs g) \<and>
   renderbuffer_objects g \<subseteq> renderbuffer_objects (gl_calls cs g)"
proof (induction cs arbitrary: g)
  case Nil
  then show ?case by (simp add: gl_run)
next
  case (Cons c cs)
  then have c: "\<not> allocates c" and cs: "\<forall>c\<in>set cs. \<not> allocates c"
    by simp_all
  note step = gl_call_objects[OF c Cons.prems(2)]
  from Cons.IH[OF cs step(1)] step(2,3) show ?case
    by (auto simp add: gl_run)
qed

lemma handles_ok_issue:
  assumes "handles_ok a" and "\<forall>c\<in>set cs. \<not> allocates c"
  shows "handles_ok (issue cs a)"
proof -
  have n: "names_ok (gl a)"
    using assms(1) by (simp add: handles_ok_def)
  note O = gl_calls_objects[OF assms(2) n]
  have F: "framebuffer_names (gl_calls cs (gl a)) = framebuffer_names (gl a)"
    using gl_calls_keeps_names[OF assms(2), of Framebuffer "gl a"] by simp
  show ?thesis
    using assms(1) O F unfolding handles_ok_def by auto
qed

lemma handles_ok_same:
  assumes "gl b = gl a" "fbo b = fbo a" "renderTarget b = renderTarget a"
    "depthStencil b = depthStencil a"
  shows "handles_ok b \<longleftrightarrow> handles_ok a"
  by (simp add: handles_ok_def assms)

section \<open>The callbacks keep the scene\<close>

lemma resizeCallback_eq:
  "resizeCallback e w h a =
     createFramebuffer e w h (msaaLevel a)
       ((issue [Pipeline (glViewport 0 0 w h)] (a\<lparr>width := w, height := h\<rparr>))
          \<lparr>camera := SetProjection e (fov a) (of_int w / of_int h) nearClipPlane farClipPlane
                       (camera a)\<rparr>)"
  by (simp add: resizeCallback_def Let_def)

lemma resizeCallback_fields [simp]:
  "cubePositions (resizeCallback e w h a) = cubePositions a"
  "instanceData (resizeCallback e w h a) = instanceData a"
  "quad (resizeCallback e w h a) = quad a"
  "cube (resizeCallback e w h a) = cube a"
  "msaaLevel (resizeCallback e w h a) = msaaLevel a"
  "width (resizeCallback e w h a) = w"
  "height (resizeCallback e w h a) = h"
  "tonemapping (resizeCallback e w h a) = tonemapping a"
  by (simp_all add: resizeCallback_eq)

lemma resizeCallback_handles_ok:
  assumes "driver_ok e" "handles_ok a"
  shows "handles_ok (resizeCallback e w h a)"
proof -
  have "handles_ok (issue [Pipeline (glViewport 0 0 w h)] a)"
    using assms(2) by (intro handles_ok_issue) simp_all
  then have "handles_ok ((issue [Pipeline (glViewport 0 0 w h)] (a\<lparr>width := w, height := h\<rparr>))
          \<lparr>camera := SetProjection e (fov a) (of_int w / of_int h) nearClipPlane farClipPlane
                       (camera a)\<rparr>)"
    by (simp add: handles_ok_def issue_def)
  then show ?thesis
    unfolding resizeCallback_eq by (rule createFramebuffer_handles_ok[OF assms(1)])
qed

lemma keyCallback_F1:
  "keyCallback e GLFW_KEY_F1 GLFW_PRESS a =
     (createFramebuffer e (width a) (height a) (if msaaLevel a > 1 then 1 else MSAA_SAMPLES)
        (a\<lparr>msaaLevel := (if msaaLevel a > 1 then 1 else MSAA_SAMPLES)\<rparr>))
       \<lparr>camera := SetProjection e (fov a) (of_int (width a) / of_int (height a))
                    nearClipPlane farClipPlane (camera a)\<rparr>"
  by (simp add: keyCallback_def Let_def)

lemma keyCallback_F3:
  "keyCallback e GLFW_KEY_F3 GLFW_PRESS a =
     (issue [Pipeline (if glIsEnabled (gl a) GL_CULL_FACE then glDisable GL_CULL_FACE
                       else glEnable GL_CULL_FACE)] a)
       \<lparr>camera := SetProjection e (fov a) (of_int (width a) / of_int (height a))
                    nearClipPlane farClipPlane (camera a)\<rparr>"
  by (simp add: keyCallback_def Let_def)

lemma keyCallback_other:
  assumes "\<not> (k = GLFW_KEY_F1 \<and> act = GLFW_PRESS)" "\<not> (k = GLFW_KEY_F3 \<and> act = GLFW_PRESS)"
  shows "gl (keyCallback e k act a) = gl a \<and> fbo (keyCallback e k act a) = fbo a \<and>
     renderTarget (keyCallback e k act a) = renderTarget a \<and>
     depthStencil (keyCallback e k act a) = depthStencil a \<and>
     cubePositions (keyCallback e k act a) = cubePositions a \<and>
     instanceData (keyCallback e k act a) = instanceData a \<and>
     quad (keyCallback e k act a) = quad a \<and> cube (keyCallback e k act a) = cube a \<and>
     msaaLevel (keyCallback e k act a) = msaaLevel a"
  using assms by (cases k; cases act; simp add: keyCallback_def Let_def)

lemma keyCallback_fields [simp]:
  "cubePositions (keyCallback e k act a) = cubePositions a"
  "instanceData (keyCallback e k act a) = instanceData a"
  "quad (keyCallback e k act a) = quad a"
  "cube (keyCallback e k act a) = cube a"
proof -
  consider "k = GLFW_KEY_F1 \<and> act = GLFW_PRESS" | "k = GLFW_KEY_F3 \<and> act = GLFW_PRESS"
    | "\<not> (k = GLFW_KEY_F1 \<and> act = GLFW_PRESS)" "\<not> (k = GLFW_KEY_F3 \<and> act = GLFW_PRESS)"
    by blast
  then have "cubePositions (keyCallback e k act a) = cubePositions a \<and>
     instanceData (keyCallback e k act a) = instanceData a \<and>
     quad (keyCallback e k act a) = quad a \<and> cube (keyCallback e k act a) = cube a"
  proof cases
    case 1
    then show ?thesis by (simp add: keyCallback_F1)
  next
    case 2
    then show ?thesis by (simp add: keyCallback_F3)
  next
    case 3
    then show ?thesis using keyCallback_other[of k act e a] by simp
  qed
  then show "cubePositions (keyCallback e k act a) = cubePositions a"
    "instanceData (keyCallback e k act a) = instanceData a"
    "quad (keyCallback e k act a) = quad a"
    "cube (keyCallback e k act a) = cube a"
    by simp_all
qed

lemma keyCallback_msaaLevel:
  "msaaLevel (keyCallback e k act a) =
     (if k = GLFW_KEY_F1 \<and> act = GLFW_PRESS
      then (if msaaLevel a > 1 then 1 else MSAA_SAMPLES) else msaaLevel a)"
proof -
  consider "k = GLFW_KEY_F1 \<and> act = GLFW_PRESS" | "k = GLFW_KEY_F3 \<and> act = GLFW_PRESS"
    | "\<not> (k = GLFW_KEY_F1 \<and> act = GLFW_PRESS)" "\<not> (k = GLFW_KEY_F3 \<and> act = GLFW_PRESS)"
    by blast
  then show ?thesis
  proof cases
    case 1
    then show ?thesis by (simp add: keyCallback_F1)
  next
    case 2
    then show ?thesis by (simp add: keyCallback_F3)
  next
    case 3
    then show ?thesis using keyCallback_other[of k act e a] by auto
  qed
qed

lemma keyCallback_handles_ok:
  assumes "driver_ok e" "handles_ok a"
  shows "handles_ok (keyCallback e k act a)"
proof -
  consider "k = GLFW_KEY_F1 \<and> act = GLFW_PRESS" | "k = GLFW_KEY_F3 \<and> act = GLFW_PRESS"
    | "\<not> (k = GLFW_KEY_F1 \<and> act = GLFW_PRESS)" "\<not> (k = GLFW_KEY_F3 \<and> act = GLFW_PRESS)"
    by blast
  then show ?thesis
  proof cases
    case 1
    have "handles_ok (a\<lparr>msaaLevel := l\<rparr>)" for l
      using assms(2) by (simp add: handles_ok_def)
    then have "handles_ok (createFramebuffer e w h m (a\<lparr>msaaLevel := l\<rparr>))" for w h m l
      using assms(1) by (intro createFramebuffer_handles_ok)
    then show ?thesis
      using 1 by (simp add: keyCallback_F1 handles_ok_def)
  next
    case 2
    have "handles_ok (issue [Pipeline c] a)" for c
      using assms(2) by (intro handles_ok_issue) simp_all
    then show ?thesis
      using 2 by (simp add: keyCallback_F3 handles_ok_def)
  next
    case 3
    then show ?thesis
      using keyCallback_other[of k act e a] assms(2) by (simp add: handles_ok_def)
  qed
qed

section \<open>Start-up\<close>

text \<open>The check \<^verbatim>\<open>numCubes > MAX_INSTANCES\<close> lets pass exactly the counts from 0 to 1024.\<close>

lemma capacity_check:
  fixes n :: "32 word"
  shows "\<not> (n > MAX_INSTANCES) \<longleftrightarrow> 0 \<le> sint n \<and> sint n \<le> 1024"
proof
  assume "\<not> n > MAX_INSTANCES"
  then have u: "uint n \<le> 1024"
    by (simp add: MAX_INSTANCES_def word_less_def not_less)
  have "sint n = signed_take_bit 31 (uint n)"
    by (simp add: sint_uint)
  also have "\<dots> = uint n"
  proof (rule signed_take_bit_int_eq_self)
    have "- (2 ^ 31) \<le> (0 :: int)" by simp
    also have "0 \<le> uint n" by simp
    finally show "- (2 ^ 31) \<le> uint n" .
    show "uint n < 2 ^ 31" using u by simp
  qed
  finally have "sint n = uint n" .
  with u show "0 \<le> sint n \<and> sint n \<le> 1024"
    by simp
next
  assume s: "0 \<le> sint n \<and> sint n \<le> 1024"
  have "uint n = take_bit 32 (sint n)"
    using uint_sint[of n] by simp
  also have "\<dots> = sint n"
    using s by (intro take_bit_int_eq_self) simp_all
  finally have "uint n \<le> 1024"
    using s by simp
  then show "\<not> n > MAX_INSTANCES"
    by (simp add: MAX_INSTANCES_def word_less_def not_less)
qed

lemma initOpenGL_result:
  "fst (initOpenGL e a) \<longleftrightarrow>
     glfwInit e \<and> glfwCreateWindow e \<and> gladLoadGL e \<and> 65536 \<le> GL_MAX_UNIFORM_BLOCK_SIZE e \<and>
     \<not> numCubes e > MAX_INSTANCES"
  by (auto simp add: initOpenGL_def Let_def)

lemma initOpenGL_state:
  assumes "fst (initOpenGL e a)"
  shows "snd (initOpenGL e a) =
     (resizeCallback e DefaultWidth DefaultHeight (init_context a))
       \<lparr>camera := SetTransformation e (-3, 3, -5) (0, 0, 0) (0, 1, 0)
                    (camera (resizeCallback e DefaultWidth DefaultHeight (init_context a)))\<rparr>"
  using assms by (simp add: initOpenGL_def Let_def init_context_def split: if_splits)

lemma init_context_handles_ok: "handles_ok a \<Longrightarrow> handles_ok (init_context a)"
proof -
  assume "handles_ok a"
  then have "handles_ok (a\<lparr>handle := True, swapInterval := (if vsync a then 1 else 0)\<rparr>)"
    by (simp add: handles_ok_def)
  then show ?thesis
    unfolding init_context_def by (intro handles_ok_issue) simp_all
qed

lemma initOpenGL_summary:
  assumes ok: "fst (initOpenGL e a)" and e: "driver_ok e" and h: "handles_ok a"
  defines "a' \<equiv> snd (initOpenGL e a)"
  shows "handles_ok a'"
    and "fbo a' \<noteq> 0" and "renderTarget a' \<noteq> 0" and "depthStencil a' \<noteq> 0"
    and "width a' = DefaultWidth" and "height a' = DefaultHeight"
    and "storage_accepted (limits (gl a)) DefaultWidth DefaultHeight (msaaLevel a) \<Longrightarrow>
         texture_storage (gl a') (renderTarget a') =
           Some (DefaultWidth, DefaultHeight, if msaaLevel a > 1 then msaaLevel a else 1)"
    and "storage_accepted (limits (gl a)) DefaultWidth DefaultHeight (msaaLevel a) \<Longrightarrow>
         renderbuffer_storage (gl a') (depthStencil a') =
           Some (DefaultWidth, DefaultHeight, if msaaLevel a > 1 then msaaLevel a else 1)"
    and "color_attachment (gl a') (fbo a') = renderTarget a'"
    and "depth_attachment (gl a') (fbo a') = depthStencil a'"
    and "cubePositions a' = cubePositions a" and "instanceData a' = instanceData a"
    and "msaaLevel a' = msaaLevel a" and "tonemapping a' = tonemapping a"
    and "quad a' = quad a" and "cube a' = cube a"
    and "limits (gl a') = limits (gl a)"
proof -
  define b where "b = (issue [Pipeline (glViewport 0 0 DefaultWidth DefaultHeight)]
        ((init_context a)\<lparr>width := DefaultWidth, height := DefaultHeight\<rparr>))
          \<lparr>camera := SetProjection e (fov (init_context a))
                       (of_int DefaultWidth / of_int DefaultHeight) nearClipPlane farClipPlane
                       (camera (init_context a))\<rparr>"
  define c where "c = createFramebuffer e DefaultWidth DefaultHeight (msaaLevel a) b"
  have mb: "msaaLevel (init_context a) = msaaLevel a"
    by (simp add: init_context_def)
  have r: "resizeCallback e DefaultWidth DefaultHeight (init_context a) = c"
    by (simp add: resizeCallback_eq c_def b_def mb)
  have a': "a' = c\<lparr>camera := SetTransformation e (-3, 3, -5) (0, 0, 0) (0, 1, 0) (camera c)\<rparr>"
    unfolding a'_def initOpenGL_state[OF ok] r ..
  have "handles_ok (issue [Pipeline (glViewport 0 0 DefaultWidth DefaultHeight)] (init_context a))"
    using init_context_handles_ok[OF h] by (intro handles_ok_issue) simp_all
  then have hb: "handles_ok b"
    by (simp add: handles_ok_def b_def issue_def)
  note S = createFramebuffer_summary[OF e hb, of DefaultWidth DefaultHeight "msaaLevel a", folded c_def]
  have hc: "handles_ok c"
    unfolding c_def using e hb by (rule createFramebuffer_handles_ok)
  show "handles_ok a'"
    using hc by (simp add: a' handles_ok_def)
  show "fbo a' \<noteq> 0" "renderTarget a' \<noteq> 0" "depthStencil a' \<noteq> 0"
    using S(1,4,10) by (simp_all add: a')
  show "width a' = DefaultWidth" "height a' = DefaultHeight"
    by (simp_all add: a' c_def b_def)
  have lb: "limits (gl b) = limits (gl a)"
    by (simp add: b_def init_context_def)
  show "texture_storage (gl a') (renderTarget a') =
           Some (DefaultWidth, DefaultHeight, if msaaLevel a > 1 then msaaLevel a else 1)"
    if "storage_accepted (limits (gl a)) DefaultWidth DefaultHeight (msaaLevel a)"
    using S(8) that by (simp add: a' lb)
  show "renderbuffer_storage (gl a') (depthStencil a') =
           Some (DefaultWidth, DefaultHeight, if msaaLevel a > 1 then msaaLevel a else 1)"
    if "storage_accepted (limits (gl a)) DefaultWidth DefaultHeight (msaaLevel a)"
    using S(14) that by (simp add: a' lb)
  show "limits (gl a') = limits (gl a)"
    by (simp add: a' c_def lb)
  show "color_attachment (gl a') (fbo a') = renderTarget a'"
    using S(9) by (simp add: a')
  show "depth_attachment (gl a') (fbo a') = depthStencil a'"
    using S(15) by (simp add: a')
  show "cubePositions a' = cubePositions a" "instanceData a' = instanceData a"
    "msaaLevel a' = msaaLevel a" "tonemapping a' = tonemapping a"
    "quad a' = quad a" "cube a' = cube a"
    by (simp_all add: a' c_def b_def init_context_def)
qed

text \<open>The position loop adds one position in each round.\<close>

lemma position_loop_ok:
  "n < INT_MAX \<Longrightarrow> i \<le> n + 1 \<Longrightarrow>
   \<exists>ps'. position_loop e i n ps = Inr ps' \<and> length ps' = length ps + nat (n + 1 - i) \<and>
     take (length ps) ps' = ps"
proof (induction e i n ps rule: position_loop.induct)
  case (1 e i n ps)
  show ?case
  proof (cases "i \<le> n")
    case False
    with "1.prems" show ?thesis
      by (subst position_loop.simps) simp
  next
    case True
    define p where "p = (getRandom e (nat (3 * (i - 1))) (-5) 5,
       getRandom e (nat (3 * (i - 1) + 1)) 1 5, getRandom e (nat (3 * (i - 1) + 2)) (-5) 5)"
    have ni: "i \<noteq> INT_MAX"
      using True "1.prems" by simp
    have step: "position_loop e i n ps = position_loop e (i + 1) n (ps @ [p])"
      using True ni by (subst position_loop.simps) (simp add: p_def Let_def)
    from "1.IH"[OF True refl refl refl refl ni] "1.prems" True
    obtain ps' where r: "position_loop e (i + 1) n (ps @ [p]) = Inr ps'"
      "length ps' = length (ps @ [p]) + nat (n + 1 - (i + 1))"
      "take (length (ps @ [p])) ps' = ps @ [p]"
      unfolding p_def by auto
    have "length ps' = length ps + nat (n + 1 - i)"
      using r(2) True by simp
    moreover have "take (length ps) ps' = ps"
    proof -
      have "take (length ps) ps' = take (length ps) (take (length (ps @ [p])) ps')"
        by (simp add: min_def)
      also have "\<dots> = ps"
        unfolding r(3) by simp
      finally show ?thesis .
    qed
    ultimately show ?thesis
      using step r(1) by simp
  qed
qed

lemma create_buffers_fields [simp]:
  "cubePositions (create_buffers e a) = cubePositions a"
  "instanceData (create_buffers e a) = instanceData a"
  "quad (create_buffers e a) = Some (CreateQuadNormalTangentTex e)"
  "cube (create_buffers e a) = Some (CreateCubeNormalTangentTex e)"
  "fbo (create_buffers e a) = fbo a"
  "renderTarget (create_buffers e a) = renderTarget a"
  "depthStencil (create_buffers e a) = depthStencil a"
  "msaaLevel (create_buffers e a) = msaaLevel a"
  "tonemapping (create_buffers e a) = tonemapping a"
  "width (create_buffers e a) = width a"
  "height (create_buffers e a) = height a"
  "shaderProgram (create_buffers e a) = shaderProgram a"
  "texture_names (gl (create_buffers e a)) = texture_names (gl a)"
  "texture_objects (gl (create_buffers e a)) = texture_objects (gl a)"
  "texture_storage (gl (create_buffers e a)) = texture_storage (gl a)"
  "renderbuffer_names (gl (create_buffers e a)) = renderbuffer_names (gl a)"
  "renderbuffer_objects (gl (create_buffers e a)) = renderbuffer_objects (gl a)"
  "renderbuffer_storage (gl (create_buffers e a)) = renderbuffer_storage (gl a)"
  "framebuffer_names (gl (create_buffers e a)) = framebuffer_names (gl a)"
  "color_attachment (gl (create_buffers e a)) = color_attachment (gl a)"
  "depth_attachment (gl (create_buffers e a)) = depth_attachment (gl a)"
  by (simp_all add: create_buffers_def split_def Let_def gl_run)

lemma createGeometry_ok:
  assumes "0 \<le> sint (numCubes e)" "sint (numCubes e) \<le> 1024"
  shows "\<exists>ps. createGeometry e a = Inr ((create_buffers e a)\<lparr>cubePositions := ps\<rparr>) \<and>
     length ps = length (cubePositions a) + 1 + nat (sint (numCubes e)) \<and>
     take (length (cubePositions a) + 1) ps = cubePositions a @ [(0, 1 / 2, 0)]"
proof -
  have "sint (numCubes e) < INT_MAX"
    using assms(2) by (simp add: INT_MAX_def)
  from position_loop_ok[OF this, of 1 e "cubePositions a @ [(0, 1 / 2, 0)]"] assms(1)
  obtain ps where "position_loop e 1 (sint (numCubes e)) (cubePositions a @ [(0, 1 / 2, 0)]) = Inr ps"
    "length ps = length (cubePositions a @ [(0, 1 / 2, 0)]) + nat (sint (numCubes e) + 1 - 1)"
    "take (length (cubePositions a @ [(0, 1 / 2, 0)])) ps = cubePositions a @ [(0, 1 / 2, 0)]"
    by auto
  then show ?thesis
    using assms(1) by (intro exI[of _ ps]) (simp add: createGeometry_def Let_def)
qed

text \<open>The textures of \<^verbatim>\<open>loadTextures\<close> are new objects.\<close>

lemma create_texture_fields [simp]:
  "cubePositions (create_texture e t a) = cubePositions a"
  "instanceData (create_texture e t a) = instanceData a"
  "quad (create_texture e t a) = quad a"
  "cube (create_texture e t a) = cube a"
  "fbo (create_texture e t a) = fbo a"
  "renderTarget (create_texture e t a) = renderTarget a"
  "depthStencil (create_texture e t a) = depthStencil a"
  "msaaLevel (create_texture e t a) = msaaLevel a"
  "tonemapping (create_texture e t a) = tonemapping a"
  "width (create_texture e t a) = width a"
  "height (create_texture e t a) = height a"
  "renderbuffer_names (gl (create_texture e t a)) = renderbuffer_names (gl a)"
  "renderbuffer_objects (gl (create_texture e t a)) = renderbuffer_objects (gl a)"
  "renderbuffer_storage (gl (create_texture e t a)) = renderbuffer_storage (gl a)"
  "framebuffer_names (gl (create_texture e t a)) = framebuffer_names (gl a)"
  "color_attachment (gl (create_texture e t a)) = color_attachment (gl a)"
  "depth_attachment (gl (create_texture e t a)) = depth_attachment (gl a)"
  "texture_storage (gl (create_texture e t a)) = texture_storage (gl a)"
  by (simp_all add: create_texture_def split_def Let_def)

lemma create_texture_handles_ok:
  assumes e: "driver_ok e" and h: "handles_ok a"
  shows "handles_ok (create_texture e t a)"
    and "texture_objects (gl a) \<subseteq> texture_objects (gl (create_texture e t a))"
proof -
  have fin: "finite (names_in_use Texture (gl a))"
    using h by (simp add: handles_ok_def names_ok_def)
  note fresh = driver_fresh[OF e fin]
  have t: "texture_names (gl (create_texture e t a)) = insert (gen_name e Texture (gl a)) (texture_names (gl a))"
    "texture_objects (gl (create_texture e t a)) = insert (gen_name e Texture (gl a)) (texture_objects (gl a))"
    using fresh by (simp_all add: create_texture_def split_def Let_def)
  show "handles_ok (create_texture e t a)"
    using h fresh unfolding handles_ok_def names_ok_def by (auto simp add: t)
  show "texture_objects (gl a) \<subseteq> texture_objects (gl (create_texture e t a))"
    by (auto simp add: t)
qed

lemma loadTextures_fold:
  assumes e: "driver_ok e"
  shows "handles_ok a \<Longrightarrow>
     handles_ok (fold (create_texture e) ts a) \<and>
     cubePositions (fold (create_texture e) ts a) = cubePositions a \<and>
     instanceData (fold (create_texture e) ts a) = instanceData a \<and>
     quad (fold (create_texture e) ts a) = quad a \<and>
     cube (fold (create_texture e) ts a) = cube a \<and>
     fbo (fold (create_texture e) ts a) = fbo a \<and>
     renderTarget (fold (create_texture e) ts a) = renderTarget a \<and>
     depthStencil (fold (create_texture e) ts a) = depthStencil a \<and>
     msaaLevel (fold (create_texture e) ts a) = msaaLevel a \<and>
     tonemapping (fold (create_texture e) ts a) = tonemapping a \<and>
     width (fold (create_texture e) ts a) = width a \<and>
     height (fold (create_texture e) ts a) = height a \<and>
     renderbuffer_names (gl (fold (create_texture e) ts a)) = renderbuffer_names (gl a) \<and>
     renderbuffer_storage (gl (fold (create_texture e) ts a)) = renderbuffer_storage (gl a) \<and>
     texture_storage (gl (fold (create_texture e) ts a)) = texture_storage (gl a) \<and>
     color_attachment (gl (fold (create_texture e) ts a)) = color_attachment (gl a) \<and>
     depth_attachment (gl (fold (create_texture e) ts a)) = depth_attachment (gl a)"
proof (induction ts arbitrary: a)
  case Nil
  then show ?case by simp
next
  case (Cons t ts)
  from Cons.IH[OF create_texture_handles_ok(1)[OF e Cons.prems, of t]]
  show ?case by simp
qed

lemmas loadTextures_summary = loadTextures_fold[of _ _ all_textures, folded loadTextures_def]

section \<open>The commands of a frame\<close>

lemma issue_Nil [simp]: "issue [] a = a"
  by (simp add: issue_def gl_calls_Nil)

lemma issue_instanceData:
  "(issue cs a)\<lparr>instanceData := b\<rparr> = issue cs (a\<lparr>instanceData := b\<rparr>)"
  by (simp add: issue_def)

lemma calls_of_issue [simp]:
  "transform_block_calls (issue cs a) = transform_block_calls a"
  "begin_offscreen_calls (issue cs a) = begin_offscreen_calls a"
  "program_data_calls e p (issue cs a) = program_data_calls e p a"
  "floor_calls e (issue cs a) q = floor_calls e a q"
  "instance_upload_calls e (issue cs a) buf = instance_upload_calls e a buf"
  "cubes_calls e (issue cs a) buf c = cubes_calls e a buf c"
  "light_calls e (issue cs a) = light_calls e a"
  "present_calls (issue cs a) = present_calls a"
  by (simp_all add: transform_block_calls_def begin_offscreen_calls_def program_data_calls_def
      floor_calls_def instance_upload_calls_def cubes_calls_def light_calls_def present_calls_def)

lemma calls_of_instanceData [simp]:
  "instance_upload_calls e (a\<lparr>instanceData := b\<rparr>) buf = instance_upload_calls e a buf"
  "cubes_calls e (a\<lparr>instanceData := b\<rparr>) buf c = cubes_calls e a buf c"
  "light_calls e (a\<lparr>instanceData := b\<rparr>) = light_calls e a"
  "present_calls (a\<lparr>instanceData := b\<rparr>) = present_calls a"
  by (simp_all add: program_data_calls_def instance_upload_calls_def cubes_calls_def
      light_calls_def present_calls_def)

lemma updateTransformBlock_eq: "updateTransformBlock a = issue (transform_block_calls a) a"
  by (simp add: updateTransformBlock_def transform_block_calls_def Let_def issue_issue)

lemma begin_offscreen_eq: "begin_offscreen a = issue (begin_offscreen_calls a) a"
  by (simp add: begin_offscreen_def begin_offscreen_calls_def Let_def issue_issue)

lemma updateProgramData_eq:
  "updateProgramData e p lightPosition a = issue (program_data_calls e p a) a"
  by (simp add: updateProgramData_def program_data_calls_def lightPosition_def Let_def
      split_def issue_issue)

lemma bindTextures_eq:
  "bindTextures e d n s oc a = issue (bind_textures_calls e d n s oc) a"
  by (simp add: bindTextures_def bind_textures_calls_def)

lemma draw_floor_eq:
  "draw_floor e a =
     (case quad a of None \<Rightarrow> Inl NullPointer | Some q \<Rightarrow> Inr (issue (floor_calls e a q) a))"
  by (simp add: draw_floor_def floor_calls_def updateProgramData_eq bindTextures_eq Let_def
      issue_issue split: option.splits)

lemma updateInstanceData_eq:
  assumes "instance_loop 0 (sint (numCubes e)) (cubePositions a) (instanceData a) = Inr buf"
    and "0 \<le> sint (numCubes e)" and "sint (numCubes e) \<le> int (length buf)"
  shows "updateInstanceData e a = Inr (issue (instance_upload_calls e a buf) (a\<lparr>instanceData := buf\<rparr>))"
  using assms by (simp add: updateInstanceData_def instance_upload_calls_def Let_def issue_issue)

lemma draw_cubes_eq:
  assumes "instance_loop 0 (sint (numCubes e)) (cubePositions a) (instanceData a) = Inr buf"
    and "0 \<le> sint (numCubes e)" and "sint (numCubes e) \<le> int (length buf)"
    and "cube a = Some c"
  shows "draw_cubes e a = Inr (issue (cubes_calls e a buf c) (a\<lparr>instanceData := buf\<rparr>))"
proof -
  let ?a1 = "issue (Object (glUseProgram (shaderProgram a Instancing)) #
      program_data_calls e (shaderProgram a Instancing) a) a"
  have loop: "instance_loop 0 (sint (numCubes e)) (cubePositions ?a1) (instanceData ?a1) = Inr buf"
    using assms(1) by simp
  have "draw_cubes e a =
     (case updateInstanceData e ?a1 of
        Inl f \<Rightarrow> Inl f
      | Inr a \<Rightarrow>
          (let a = bindTextures e (loadedTextures a Diffuse) (loadedTextures a Normal)
                     (loadedTextures a Specular) (loadedTextures a Occlusion) a
           in case cube a of
                None \<Rightarrow> Inl NullPointer
              | Some c \<Rightarrow>
                  Inr (issue [Object (glBindVertexArray (GetVAO c)),
                              Draw (glDrawElementsInstanced GL_TRIANGLES (GetIBOSize c)
                                      (sint (numCubes e))),
                              Object (glBindBufferBase 1 0)] a)))"
    by (simp add: draw_cubes_def updateProgramData_eq Let_def issue_issue)
  also have "\<dots> = Inr (issue (cubes_calls e a buf c) (a\<lparr>instanceData := buf\<rparr>))"
    using assms(4)
    by (simp add: updateInstanceData_eq[OF loop assms(2,3)] bindTextures_eq cubes_calls_def
        issue_issue issue_instanceData)
  finally show ?thesis .
qed

lemma draw_light_eq: "draw_light e a = issue (light_calls e a) a"
  by (simp add: draw_light_def light_calls_def lightPosition_def Let_def issue_issue)

lemma present_eq: "present a = issue (present_calls a) a"
  by (simp add: present_def present_calls_def)

text \<open>A frame in a state with the scene in place returns, and issues the commands of the
  lists in their order; only the staging vector and the OpenGL state change.\<close>

lemma renderScene_eq:
  assumes "scene_ok e a"
  shows "\<exists>buf q c. quad a = Some q \<and> cube a = Some c \<and>
     instance_loop 0 (sint (numCubes e)) (cubePositions a) (instanceData a) = Inr buf \<and>
     length buf = length (instanceData a) \<and>
     (\<forall>k. sint (numCubes e) \<le> int k \<longrightarrow> buf ! k = instanceData a ! k) \<and>
     (\<forall>k. int k < sint (numCubes e) \<longrightarrow>
         buf ! k = mat3x4_of_mat4x4 (glm_transpose (instance_transformation (cubePositions a ! k) (int k)))) \<and>
     renderScene e a =
       Inr (issue (transform_block_calls a @ offscreen_calls e a buf q c @ present_calls a)
              (a\<lparr>instanceData := buf\<rparr>))"
proof -
  from assms obtain q c where qc: "quad a = Some q" "cube a = Some c"
    by (auto simp add: scene_ok_def)
  have n: "0 \<le> sint (numCubes e)" "sint (numCubes e) \<le> int (length (cubePositions a))"
    "sint (numCubes e) \<le> int (length (instanceData a))"
    using assms by (simp_all add: scene_ok_def MAX_INSTANCES_def)
  from updateInstanceData_ok[OF n] obtain buf where
    buf: "instance_loop 0 (sint (numCubes e)) (cubePositions a) (instanceData a) = Inr buf"
      "length buf = length (instanceData a)"
      "\<forall>k. sint (numCubes e) \<le> int k \<longrightarrow> buf ! k = instanceData a ! k"
      "\<forall>k. int k < sint (numCubes e) \<longrightarrow>
         buf ! k = mat3x4_of_mat4x4 (glm_transpose (instance_transformation (cubePositions a ! k) (int k)))"
    by blast
  let ?a2 = "issue (transform_block_calls a @ begin_offscreen_calls a @ floor_calls e a q) a"
  have floor: "draw_floor e (begin_offscreen (updateTransformBlock a)) = Inr ?a2"
    using qc(1) by (simp add: draw_floor_eq begin_offscreen_eq updateTransformBlock_eq issue_issue)
  have loop: "instance_loop 0 (sint (numCubes e)) (cubePositions ?a2) (instanceData ?a2) = Inr buf"
    using buf(1) by simp
  have len: "sint (numCubes e) \<le> int (length buf)"
    using n(3) buf(2) by simp
  have cube2: "cube ?a2 = Some c"
    using qc(2) by simp
  have cubes: "draw_cubes e ?a2 =
      Inr (issue (transform_block_calls a @ begin_offscreen_calls a @ floor_calls e a q @
                  cubes_calls e a buf c) (a\<lparr>instanceData := buf\<rparr>))"
    unfolding draw_cubes_eq[OF loop n(1) len cube2]
    by (simp add: issue_issue issue_instanceData)
  have "renderScene e a =
       Inr (issue (transform_block_calls a @ offscreen_calls e a buf q c @ present_calls a)
              (a\<lparr>instanceData := buf\<rparr>))"
    by (simp add: renderScene_def Let_def floor cubes draw_light_eq present_eq issue_issue
        offscreen_calls_def)
  with qc buf show ?thesis
    by blast
qed

section \<open>From start-up through the main loop\<close>

lemma frame_calls_allocate_nothing:
  "\<forall>c\<in>set (transform_block_calls a @ offscreen_calls e a buf q c @ present_calls a). \<not> allocates c"
  by (simp add: transform_block_calls_def offscreen_calls_def begin_offscreen_calls_def
      floor_calls_def cubes_calls_def light_calls_def present_calls_def program_data_calls_def
      bind_textures_calls_def instance_upload_calls_def)

lemma scene_ok_same:
  assumes "instanceData b = instanceData a" "cubePositions b = cubePositions a"
    "quad b = quad a" "cube b = cube a"
  shows "scene_ok e b \<longleftrightarrow> scene_ok e a"
  by (simp add: scene_ok_def assms)

lemma renderScene_ready:
  assumes "ready e a"
  shows "\<exists>a'. renderScene e a = Inr a' \<and> ready e a' \<and> cubePositions a' = cubePositions a \<and>
     fbo a' = fbo a \<and> renderTarget a' = renderTarget a \<and> depthStencil a' = depthStencil a \<and>
     msaaLevel a' = msaaLevel a \<and> width a' = width a \<and> height a' = height a \<and>
     tonemapping a' = tonemapping a \<and> shouldClose a' = shouldClose a \<and>
     length (instanceData a') = length (instanceData a) \<and>
     (\<forall>k. sint (numCubes e) \<le> int k \<longrightarrow> instanceData a' ! k = instanceData a ! k) \<and>
     texture_names (gl a') = texture_names (gl a) \<and>
     renderbuffer_names (gl a') = renderbuffer_names (gl a) \<and>
     framebuffer_names (gl a') = framebuffer_names (gl a)"
proof -
  have s: "scene_ok e a" and h: "handles_ok a"
    using assms by (simp_all add: ready_def)
  from renderScene_eq[OF s] obtain buf q c where
    qc: "quad a = Some q" "cube a = Some c"
    and len: "length buf = length (instanceData a)"
    and old: "\<forall>k. sint (numCubes e) \<le> int k \<longrightarrow> buf ! k = instanceData a ! k"
    and r: "renderScene e a =
       Inr (issue (transform_block_calls a @ offscreen_calls e a buf q c @ present_calls a)
              (a\<lparr>instanceData := buf\<rparr>))"
    by blast
  let ?cs = "transform_block_calls a @ offscreen_calls e a buf q c @ present_calls a"
  let ?a' = "issue ?cs (a\<lparr>instanceData := buf\<rparr>)"
  have "handles_ok (a\<lparr>instanceData := buf\<rparr>)"
    using h by (simp add: handles_ok_def)
  then have h': "handles_ok ?a'"
    using frame_calls_allocate_nothing by (rule handles_ok_issue)
  have s': "scene_ok e ?a'"
    using s len by (simp add: scene_ok_def)
  have names: "names_in_use k (gl ?a') = names_in_use k (gl a)" for k
    by (simp add: gl_calls_keeps_names[OF frame_calls_allocate_nothing])
  have "ready e ?a'"
    using assms h' s' by (simp add: ready_def)
  moreover have "texture_names (gl ?a') = texture_names (gl a)"
    "renderbuffer_names (gl ?a') = renderbuffer_names (gl a)"
    "framebuffer_names (gl ?a') = framebuffer_names (gl a)"
    using names[of Texture] names[of Renderbuffer] names[of Framebuffer] by simp_all
  ultimately show ?thesis
    using r len old by simp
qed

lemma dispatch_ready:
  assumes e: "driver_ok e" and r: "ready e a"
  shows "ready e (dispatch e ev a) \<and> cubePositions (dispatch e ev a) = cubePositions a"
proof (cases ev)
  case (Resize w h)
  have hk: "handles_ok a"
    using r by (simp add: ready_def)
  let ?b = "(issue [Pipeline (glViewport 0 0 w h)] (a\<lparr>width := w, height := h\<rparr>))
          \<lparr>camera := SetProjection e (fov a) (of_int w / of_int h) nearClipPlane farClipPlane
                       (camera a)\<rparr>"
  have "handles_ok (issue [Pipeline (glViewport 0 0 w h)] a)"
    using hk by (intro handles_ok_issue) simp_all
  then have hb: "handles_ok ?b"
    by (simp add: handles_ok_def issue_def)
  note S = createFramebuffer_summary[OF e hb, of w h "msaaLevel a"]
  have "handles_ok (resizeCallback e w h a)"
    using e hk by (rule resizeCallback_handles_ok)
  moreover have "scene_ok e (resizeCallback e w h a)"
    using r by (simp add: ready_def scene_ok_def)
  moreover have "fbo (resizeCallback e w h a) \<noteq> 0" "renderTarget (resizeCallback e w h a) \<noteq> 0"
    "depthStencil (resizeCallback e w h a) \<noteq> 0"
    using S(1,4,10) by (simp_all add: resizeCallback_eq)
  ultimately show ?thesis
    using r Resize by (simp add: ready_def)
next
  case (Key k act)
  have hk: "handles_ok a"
    using r by (simp add: ready_def)
  have "handles_ok (keyCallback e k act a)"
    using e hk by (rule keyCallback_handles_ok)
  moreover have "scene_ok e (keyCallback e k act a)"
    using r by (simp add: ready_def scene_ok_def)
  moreover have "msaaLevel (keyCallback e k act a) = 1 \<or> msaaLevel (keyCallback e k act a) = MSAA_SAMPLES"
    using r by (auto simp add: ready_def keyCallback_msaaLevel)
  moreover have "fbo (keyCallback e k act a) \<noteq> 0 \<and> renderTarget (keyCallback e k act a) \<noteq> 0 \<and>
      depthStencil (keyCallback e k act a) \<noteq> 0"
  proof -
    consider "k = GLFW_KEY_F1 \<and> act = GLFW_PRESS" | "k = GLFW_KEY_F3 \<and> act = GLFW_PRESS"
      | "\<not> (k = GLFW_KEY_F1 \<and> act = GLFW_PRESS)" "\<not> (k = GLFW_KEY_F3 \<and> act = GLFW_PRESS)"
      by blast
    then show ?thesis
    proof cases
      case 1
      have "handles_ok (a\<lparr>msaaLevel := l\<rparr>)" for l
        using hk by (simp add: handles_ok_def)
      note S = createFramebuffer_summary[OF e this]
      show ?thesis
        using 1 S(1,4,10) by (simp add: keyCallback_F1)
    next
      case 2
      then show ?thesis
        using r by (simp add: keyCallback_F3 ready_def)
    next
      case 3
      then show ?thesis
        using keyCallback_other[of k act e a] r by (simp add: ready_def)
    qed
  qed
  ultimately show ?thesis
    using Key by (simp add: ready_def)
next
  case (MouseMove x y)
  then show ?thesis using r by simp
qed

lemma dispatch_all_ready:
  assumes e: "driver_ok e"
  shows "ready e a \<Longrightarrow>
     ready e (fold (dispatch e) evs a) \<and> cubePositions (fold (dispatch e) evs a) = cubePositions a"
proof (induction evs arbitrary: a)
  case Nil
  then show ?case by simp
next
  case (Cons ev evs)
  note d = dispatch_ready[OF e Cons.prems, of ev]
  from Cons.IH[of "dispatch e ev a"] d show ?case
    by simp
qed

lemma frame_ready:
  assumes e: "driver_ok e" and r: "ready e a"
  shows "\<exists>a'. frame e evs a = Inr a' \<and> ready e a' \<and> cubePositions a' = cubePositions a"
proof -
  let ?b = "fold (dispatch e) evs a"
  let ?c = "?b\<lparr>camera := processInput e (camera ?b)\<rparr>"
  note d = dispatch_all_ready[OF e r, of evs]
  have "ready e ?c"
    using d by (auto simp add: ready_def scene_ok_def handles_ok_def)
  from renderScene_ready[OF this] d show ?thesis
    by (auto simp add: frame_def Let_def)
qed

lemma mainLoop_ready:
  assumes e: "driver_ok e"
  shows "ready e a \<Longrightarrow>
     \<exists>a'. mainLoop e evss a = Inr a' \<and> ready e a' \<and> cubePositions a' = cubePositions a"
proof (induction evss arbitrary: a)
  case Nil
  then show ?case by simp
next
  case (Cons evs evss)
  show ?case
  proof (cases "shouldClose a")
    case True
    then show ?thesis using Cons.prems by simp
  next
    case False
    from frame_ready[OF e Cons.prems, of evs] obtain b where
      b: "frame e evs a = Inr b" "ready e b" "cubePositions b = cubePositions a"
      by blast
    from Cons.IH[OF b(2)] b(1,3) False show ?thesis
      by auto
  qed
qed

text \<open>Start-up never ends in undefined behaviour; when it succeeds, frames can be
  rendered.\<close>

lemma startup_result:
  assumes e: "driver_ok e" and h: "handles_ok a"
    and pos: "cubePositions a = []" and buf: "length (instanceData a) = unat MAX_INSTANCES"
    and m: "msaaLevel a = MSAA_SAMPLES"
  shows "fst (initOpenGL e a) \<and> compileShaders e \<longrightarrow>
       (\<exists>a'. startup e a = Inr (True, a') \<and> ready e a' \<and>
          width a' = DefaultWidth \<and> height a' = DefaultHeight \<and>
          (storage_accepted (limits (gl a)) DefaultWidth DefaultHeight MSAA_SAMPLES \<longrightarrow>
             texture_storage (gl a') (renderTarget a') =
               Some (DefaultWidth, DefaultHeight, MSAA_SAMPLES) \<and>
             renderbuffer_storage (gl a') (depthStencil a') =
               Some (DefaultWidth, DefaultHeight, MSAA_SAMPLES)) \<and>
          color_attachment (gl a') (fbo a') = renderTarget a' \<and>
          depth_attachment (gl a') (fbo a') = depthStencil a' \<and>
          msaaLevel a' = MSAA_SAMPLES \<and> tonemapping a' = tonemapping a \<and>
          instanceData a' = instanceData a \<and>
          take 1 (cubePositions a') = [(0, 1 / 2, 0)])"
    and "\<not> (fst (initOpenGL e a) \<and> compileShaders e) \<longrightarrow> (\<exists>a'. startup e a = Inr (False, a'))"
proof -
  show "\<not> (fst (initOpenGL e a) \<and> compileShaders e) \<longrightarrow> (\<exists>a'. startup e a = Inr (False, a'))"
    by (auto simp add: startup_def split_def)
  show "fst (initOpenGL e a) \<and> compileShaders e \<longrightarrow>
       (\<exists>a'. startup e a = Inr (True, a') \<and> ready e a' \<and>
          width a' = DefaultWidth \<and> height a' = DefaultHeight \<and>
          (storage_accepted (limits (gl a)) DefaultWidth DefaultHeight MSAA_SAMPLES \<longrightarrow>
             texture_storage (gl a') (renderTarget a') =
               Some (DefaultWidth, DefaultHeight, MSAA_SAMPLES) \<and>
             renderbuffer_storage (gl a') (depthStencil a') =
               Some (DefaultWidth, DefaultHeight, MSAA_SAMPLES)) \<and>
          color_attachment (gl a') (fbo a') = renderTarget a' \<and>
          depth_attachment (gl a') (fbo a') = depthStencil a' \<and>
          msaaLevel a' = MSAA_SAMPLES \<and> tonemapping a' = tonemapping a \<and>
          instanceData a' = instanceData a \<and>
          take 1 (cubePositions a') = [(0, 1 / 2, 0)])"
  proof
    assume ok: "fst (initOpenGL e a) \<and> compileShaders e"
    then have init: "fst (initOpenGL e a)" and comp: "compileShaders e"
      by simp_all
    have n: "0 \<le> sint (numCubes e)" "sint (numCubes e) \<le> 1024"
      using init capacity_check[of "numCubes e"] by (simp_all add: initOpenGL_result)
    define a1 where "a1 = snd (initOpenGL e a)"
    note I = initOpenGL_summary[OF init e h, folded a1_def]
    define a2 where "a2 = a1\<lparr>shaderProgram := compiledProgram e\<rparr>"
    from createGeometry_ok[OF n, of a2] obtain ps where
      g: "createGeometry e a2 = Inr ((create_buffers e a2)\<lparr>cubePositions := ps\<rparr>)"
      and lps: "length ps = length (cubePositions a2) + 1 + nat (sint (numCubes e))"
      and first: "take (length (cubePositions a2) + 1) ps = cubePositions a2 @ [(0, 1 / 2, 0)]"
      by blast
    define a3 where "a3 = (create_buffers e a2)\<lparr>cubePositions := ps\<rparr>"
    have p2: "cubePositions a2 = []"
      using I(11) pos by (simp add: a2_def)
    have h3: "handles_ok a3"
      using I(1) by (simp add: a3_def a2_def handles_ok_def names_ok_def)
    note L = loadTextures_summary[OF e h3]
    define a4 where "a4 = loadTextures e a3"
    have st: "startup e a = Inr (True, a4)"
      using init comp g
      by (simp add: startup_def split_def a4_def a3_def a2_def a1_def)
    have msaa: "MSAA_SAMPLES > 1"
      by (simp add: MSAA_SAMPLES_def)
    have scene: "scene_ok e a4"
      using L lps p2 n I(12) buf
      by (simp add: scene_ok_def a4_def a3_def a2_def)
    have rdy: "ready e a4"
      using scene L I(2,3,4,13) m
      by (simp add: ready_def a4_def a3_def a2_def)
    have rest: "width a4 = DefaultWidth" "height a4 = DefaultHeight"
      "storage_accepted (limits (gl a)) DefaultWidth DefaultHeight MSAA_SAMPLES \<longrightarrow>
         texture_storage (gl a4) (renderTarget a4) =
           Some (DefaultWidth, DefaultHeight, MSAA_SAMPLES) \<and>
         renderbuffer_storage (gl a4) (depthStencil a4) =
           Some (DefaultWidth, DefaultHeight, MSAA_SAMPLES)"
      "color_attachment (gl a4) (fbo a4) = renderTarget a4"
      "depth_attachment (gl a4) (fbo a4) = depthStencil a4"
      "msaaLevel a4 = MSAA_SAMPLES" "tonemapping a4 = tonemapping a"
      "instanceData a4 = instanceData a"
      using L I(5-14) m msaa
      by (simp_all add: a4_def a3_def a2_def)
    have "take 1 (cubePositions a4) = [(0, 1 / 2, 0)]"
      using L first p2 by (simp add: a4_def a3_def)
    with st rdy rest show "\<exists>a'. startup e a = Inr (True, a') \<and> ready e a' \<and>
          width a' = DefaultWidth \<and> height a' = DefaultHeight \<and>
          (storage_accepted (limits (gl a)) DefaultWidth DefaultHeight MSAA_SAMPLES \<longrightarrow>
             texture_storage (gl a') (renderTarget a') =
               Some (DefaultWidth, DefaultHeight, MSAA_SAMPLES) \<and>
             renderbuffer_storage (gl a') (depthStencil a') =
               Some (DefaultWidth, DefaultHeight, MSAA_SAMPLES)) \<and>
          color_attachment (gl a') (fbo a') = renderTarget a' \<and>
          depth_attachment (gl a') (fbo a') = depthStencil a' \<and>
          msaaLevel a' = MSAA_SAMPLES \<and> tonemapping a' = tonemapping a \<and>
          instanceData a' = instanceData a \<and>
          take 1 (cubePositions a') = [(0, 1 / 2, 0)]"
      by blast
  qed
qed

section \<open>Commands that leave the render targets alone\<close>

lemma gl_call_keeps_targets:
  assumes "\<not> changes_targets c"
  shows "texture_storage (gl_call c g) = texture_storage g \<and>
     renderbuffer_storage (gl_call c g) = renderbuffer_storage g \<and>
     color_attachment (gl_call c g) = color_attachment g \<and>
     depth_attachment (gl_call c g) = depth_attachment g"
proof (cases c)
  case (Object oc)
  with assms show ?thesis
    by (cases oc) simp_all
next
  case (Data dc)
  with assms show ?thesis
    by (cases dc) simp_all
qed simp_all

lemma gl_calls_keeps_targets:
  "\<forall>c\<in>set cs. \<not> changes_targets c \<Longrightarrow>
   texture_storage (gl_calls cs g) = texture_storage g \<and>
   renderbuffer_storage (gl_calls cs g) = renderbuffer_storage g \<and>
   color_attachment (gl_calls cs g) = color_attachment g \<and>
   depth_attachment (gl_calls cs g) = depth_attachment g"
  by (induction cs arbitrary: g) (simp_all add: gl_run gl_call_keeps_targets)

lemma frame_calls_keep_targets:
  "\<forall>c\<in>set (transform_block_calls a @ offscreen_calls e a buf q c @ present_calls a).
     \<not> changes_targets c"
  by (simp add: transform_block_calls_def offscreen_calls_def begin_offscreen_calls_def
      floor_calls_def cubes_calls_def light_calls_def present_calls_def program_data_calls_def
      bind_textures_calls_def instance_upload_calls_def)

section \<open>The example configuration starts\<close>

lemma example_init: "fst (initOpenGL example_env a)"
  by (simp add: initOpenGL_result example_env_def MAX_INSTANCES_def)

lemma limits_initial: "limits (gl (app_initial lims cam)) = lims"
  by (simp add: app_initial_def gl_initial_def)

lemma example_limits_accept:
  "storage_accepted example_limits DefaultWidth DefaultHeight MSAA_SAMPLES"
  by (simp add: storage_accepted_def size_ok_def example_limits_def DefaultWidth_def
      DefaultHeight_def MSAA_SAMPLES_def)

lemma example_startup:
  "startup example_env (app_initial example_limits example_camera) = Inr (True, example_scene)"
  "ready example_env example_scene"
  "width example_scene = DefaultWidth" "height example_scene = DefaultHeight"
  "texture_storage (gl example_scene) (renderTarget example_scene) =
     Some (DefaultWidth, DefaultHeight, MSAA_SAMPLES)"
  "tonemapping example_scene"
  "msaaLevel example_scene = MSAA_SAMPLES"
proof -
  have c: "compileShaders example_env"
    by (simp add: example_env_def)
  have i: "cubePositions (app_initial example_limits example_camera) = []"
    "length (instanceData (app_initial example_limits example_camera)) = unat MAX_INSTANCES"
    "msaaLevel (app_initial example_limits example_camera) = MSAA_SAMPLES"
    "tonemapping (app_initial example_limits example_camera)"
    by (simp_all add: app_initial_def)
  from startup_result(1)[OF driver_ok_example handles_ok_initial i(1,2,3)] example_init c
    example_limits_accept
  obtain a' where a': "startup example_env (app_initial example_limits example_camera) = Inr (True, a')"
    "ready example_env a'" "width a' = DefaultWidth" "height a' = DefaultHeight"
    "texture_storage (gl a') (renderTarget a') = Some (DefaultWidth, DefaultHeight, MSAA_SAMPLES)"
    "tonemapping a' = tonemapping (app_initial example_limits example_camera)"
    "msaaLevel a' = MSAA_SAMPLES"
    unfolding limits_initial by blast
  have "example_scene = a'"
    by (simp add: example_scene_def a'(1))
  with a' i(4) show "startup example_env (app_initial example_limits example_camera) = Inr (True, example_scene)"
    "ready example_env example_scene"
    "width example_scene = DefaultWidth" "height example_scene = DefaultHeight"
    "texture_storage (gl example_scene) (renderTarget example_scene) =
       Some (DefaultWidth, DefaultHeight, MSAA_SAMPLES)"
    "tonemapping example_scene"
    "msaaLevel example_scene = MSAA_SAMPLES"
    by simp_all
qed

text \<open>The camera after start-up is the one \<^verbatim>\<open>initOpenGL\<close> leaves.\<close>

lemma startup_camera:
  assumes "startup e a = Inr (True, a')"
  shows "camera a' =
     SetTransformation e (-3, 3, -5) (0, 0, 0) (0, 1, 0)
       (SetProjection e (fov a) (of_int DefaultWidth / of_int DefaultHeight)
          nearClipPlane farClipPlane (camera a))"
proof -
  have init: "fst (initOpenGL e a)"
    using assms by (auto simp add: startup_def split_def split: if_splits)
  define a1 where "a1 = snd (initOpenGL e a)"
  have c1: "camera a1 =
     SetTransformation e (-3, 3, -5) (0, 0, 0) (0, 1, 0)
       (SetProjection e (fov a) (of_int DefaultWidth / of_int DefaultHeight)
          nearClipPlane farClipPlane (camera a))"
    unfolding a1_def initOpenGL_state[OF init]
    by (simp add: resizeCallback_eq init_context_def)
  have tex: "camera (fold (create_texture e) ts b) = camera b" for ts b
    by (induction ts arbitrary: b) (simp_all add: create_texture_def split_def Let_def)
  have buf: "camera (create_buffers e b) = camera b" for b
    by (simp add: create_buffers_def split_def Let_def gl_run)
  from assms init obtain a3 where
    g: "createGeometry e (a1\<lparr>shaderProgram := compiledProgram e\<rparr>) = Inr a3"
    and a': "a' = loadTextures e a3"
    by (auto simp add: startup_def split_def a1_def split: if_splits sum.splits)
  from g have "camera a3 = camera a1"
    by (auto simp add: createGeometry_def Let_def buf split: if_splits sum.splits)
  then show ?thesis
    by (simp add: a' loadTextures_def tex c1)
qed

lemma example_camera_kept: "camera example_scene = example_camera"
  using startup_camera[OF example_startup(1)]
  by (simp add: example_env_def app_initial_def)

section \<open>The instance capacity\<close>

text \<open>
  C1. A count of cubes above \<^verbatim>\<open>MAX_INSTANCES\<close> makes \<^verbatim>\<open>initOpenGL\<close> return false, and
  start-up ends with the failure exit; no frame is rendered. In every state in which
  frames are rendered the count is at most 1024; a frame returns without reading or
  writing outside a vector, leaves the staging vector at its \<^verbatim>\<open>MAX_INSTANCES\<close> records,
  and changes none of the records from index \<open>numCubes\<close> on. After a start-up that
  succeeded, the main loop runs through any events without undefined behaviour.
\<close>

theorem capacity_enforced:
  "(1024 < sint (numCubes e) \<longrightarrow>
      \<not> fst (initOpenGL e a) \<and> (\<exists>a'. startup e a = Inr (False, a'))) \<and>
   (ready e b \<longrightarrow>
      sint (numCubes e) \<le> 1024 \<and>
      (\<exists>b'. renderScene e b = Inr b' \<and>
         length (instanceData b') = unat MAX_INSTANCES \<and>
         (\<forall>k. sint (numCubes e) \<le> int k \<longrightarrow> instanceData b' ! k = instanceData b ! k))) \<and>
   (driver_ok e \<and> handles_ok a \<and> cubePositions a = [] \<and>
    length (instanceData a) = unat MAX_INSTANCES \<and> msaaLevel a = MSAA_SAMPLES \<longrightarrow>
      (\<exists>r. startup e a = Inr r) \<and>
      (\<forall>a'. startup e a = Inr (True, a') \<longrightarrow>
         ready e a' \<and> (\<forall>evss. \<exists>a''. mainLoop e evss a' = Inr a'' \<and> ready e a'')))"
proof (intro conjI impI)
  assume big: "1024 < sint (numCubes e)"
  then show no: "\<not> fst (initOpenGL e a)"
    using capacity_check[of "numCubes e"] by (simp add: initOpenGL_result)
  then show "\<exists>a'. startup e a = Inr (False, a')"
    by (simp add: startup_def split_def)
next
  assume r: "ready e b"
  then show "sint (numCubes e) \<le> 1024"
    by (simp add: ready_def scene_ok_def)
  from renderScene_ready[OF r] r
  show "\<exists>b'. renderScene e b = Inr b' \<and>
         length (instanceData b') = unat MAX_INSTANCES \<and>
         (\<forall>k. sint (numCubes e) \<le> int k \<longrightarrow> instanceData b' ! k = instanceData b ! k)"
    by (auto simp add: ready_def scene_ok_def)
next
  assume h: "driver_ok e \<and> handles_ok a \<and> cubePositions a = [] \<and>
    length (instanceData a) = unat MAX_INSTANCES \<and> msaaLevel a = MSAA_SAMPLES"
  then have e: "driver_ok e" and ok: "handles_ok a" and p: "cubePositions a = []"
    and l: "length (instanceData a) = unat MAX_INSTANCES" and m: "msaaLevel a = MSAA_SAMPLES"
    by simp_all
  note S = startup_result[OF e ok p l m]
  show "\<exists>r. startup e a = Inr r"
    using S by blast
  show "\<forall>a'. startup e a = Inr (True, a') \<longrightarrow>
         ready e a' \<and> (\<forall>evss. \<exists>a''. mainLoop e evss a' = Inr a'' \<and> ready e a'')"
  proof (intro allI impI)
    fix a'
    assume st: "startup e a = Inr (True, a')"
    then have "fst (initOpenGL e a) \<and> compileShaders e"
      using S(2) by auto
    with S(1) st have r: "ready e a'"
      by auto
    have "\<exists>a''. mainLoop e evss a' = Inr a'' \<and> ready e a''" for evss
      using mainLoop_ready[OF e r, of evss] by blast
    with r show "ready e a' \<and> (\<forall>evss. \<exists>a''. mainLoop e evss a' = Inr a'' \<and> ready e a'')"
      by blast
  qed
qed

theorem capacity_enforced_witness:
  "1024 < sint (numCubes (example_env\<lparr>numCubes := 2000\<rparr>)) \<and>
   \<not> fst (initOpenGL (example_env\<lparr>numCubes := 2000\<rparr>) (app_initial example_limits example_camera)) \<and>
   ready example_env example_scene \<and>
   (\<exists>b'. renderScene example_env example_scene = Inr b' \<and>
      length (instanceData b') = unat MAX_INSTANCES) \<and>
   driver_ok example_env \<and> handles_ok (app_initial example_limits example_camera) \<and>
   cubePositions (app_initial example_limits example_camera) = [] \<and>
   length (instanceData (app_initial example_limits example_camera)) = unat MAX_INSTANCES \<and>
   msaaLevel (app_initial example_limits example_camera) = MSAA_SAMPLES \<and>
   startup example_env (app_initial example_limits example_camera) = Inr (True, example_scene) \<and>
   (\<exists>a''. mainLoop example_env [[Key GLFW_KEY_F1 GLFW_PRESS], [Resize 1024 768], []] example_scene = Inr a'')"
proof -
  have big: "1024 < sint (numCubes (example_env\<lparr>numCubes := 2000\<rparr>))"
    by simp
  note reject = capacity_enforced[of "example_env\<lparr>numCubes := 2000\<rparr>" "app_initial example_limits example_camera"
      example_scene]
  have i: "cubePositions (app_initial example_limits example_camera) = []"
    "length (instanceData (app_initial example_limits example_camera)) = unat MAX_INSTANCES"
    "msaaLevel (app_initial example_limits example_camera) = MSAA_SAMPLES"
    by (simp_all add: app_initial_def)
  note run = capacity_enforced[of example_env "app_initial example_limits example_camera" example_scene]
  from run example_startup(1,2) driver_ok_example handles_ok_initial i
  have "\<exists>a''. mainLoop example_env [[Key GLFW_KEY_F1 GLFW_PRESS], [Resize 1024 768], []] example_scene = Inr a''"
    by blast
  moreover from run example_startup(2)
  have "\<exists>b'. renderScene example_env example_scene = Inr b' \<and>
      length (instanceData b') = unat MAX_INSTANCES"
    by blast
  ultimately show ?thesis
    using big reject example_startup(1,2) driver_ok_example handles_ok_initial i by blast
qed

section \<open>Tonemapping and the offscreen target\<close>

lemma present_keeps_offscreen:
  assumes "f \<noteq> 0"
  shows "fb_image (gl_calls (present_calls a) g) f = fb_image g f"
  using assms by (simp add: present_calls_def gl_run)

lemma calls_of_tonemapping [simp]:
  "transform_block_calls (a\<lparr>tonemapping := t\<rparr>) = transform_block_calls a"
  "offscreen_calls e (a\<lparr>tonemapping := t\<rparr>) buf q c = offscreen_calls e a buf q c"
  by (simp_all add: transform_block_calls_def offscreen_calls_def begin_offscreen_calls_def
      floor_calls_def cubes_calls_def light_calls_def program_data_calls_def
      instance_upload_calls_def)

lemma renderScene_tonemapping:
  assumes "scene_ok e a" and "fbo a \<noteq> 0"
  shows "\<exists>buf q c. quad a = Some q \<and> cube a = Some c \<and>
     renderScene e (a\<lparr>tonemapping := t\<rparr>) =
       Inr (issue (transform_block_calls a @ offscreen_calls e a buf q c @
                   present_calls (a\<lparr>tonemapping := t\<rparr>))
              (a\<lparr>tonemapping := t, instanceData := buf\<rparr>)) \<and>
     instance_loop 0 (sint (numCubes e)) (cubePositions a) (instanceData a) = Inr buf"
proof -
  have "scene_ok e (a\<lparr>tonemapping := t\<rparr>)"
    using assms(1) by (simp add: scene_ok_def)
  from renderScene_eq[OF this] show ?thesis
    by auto
qed

text \<open>
  C3. For a state with the scene in place and an offscreen framebuffer object, the frame
  with tonemapping on and the frame with tonemapping off both return; they issue the
  same commands up to the presentation, which alone depends on the flag; and the image
  of the offscreen framebuffer is the same after both, namely the one left by the common
  commands: the presentation writes to the window only.
\<close>

theorem tonemapping_keeps_offscreen:
  assumes "scene_ok e a" and "fbo a \<noteq> 0"
  shows "\<exists>a1 a2 pre.
     renderScene e (a\<lparr>tonemapping := True\<rparr>) = Inr a1 \<and>
     renderScene e (a\<lparr>tonemapping := False\<rparr>) = Inr a2 \<and>
     calls (gl a1) = calls (gl a) @ pre @ present_calls (a\<lparr>tonemapping := True\<rparr>) \<and>
     calls (gl a2) = calls (gl a) @ pre @ present_calls (a\<lparr>tonemapping := False\<rparr>) \<and>
     fb_image (gl a1) (fbo a) = fb_image (gl_calls pre (gl a)) (fbo a) \<and>
     fb_image (gl a2) (fbo a) = fb_image (gl_calls pre (gl a)) (fbo a) \<and>
     fb_image (gl a1) (fbo a) = fb_image (gl a2) (fbo a)"
proof -
  from renderScene_tonemapping[OF assms, of True] obtain buf q c where
    on: "renderScene e (a\<lparr>tonemapping := True\<rparr>) =
       Inr (issue (transform_block_calls a @ offscreen_calls e a buf q c @
                   present_calls (a\<lparr>tonemapping := True\<rparr>))
              (a\<lparr>tonemapping := True, instanceData := buf\<rparr>))"
    and qc: "quad a = Some q" "cube a = Some c"
    and loop: "instance_loop 0 (sint (numCubes e)) (cubePositions a) (instanceData a) = Inr buf"
    by blast
  from renderScene_tonemapping[OF assms, of False] qc loop have
    off: "renderScene e (a\<lparr>tonemapping := False\<rparr>) =
       Inr (issue (transform_block_calls a @ offscreen_calls e a buf q c @
                   present_calls (a\<lparr>tonemapping := False\<rparr>))
              (a\<lparr>tonemapping := False, instanceData := buf\<rparr>))"
    by auto
  let ?pre = "transform_block_calls a @ offscreen_calls e a buf q c"
  let ?a1 = "issue (?pre @ present_calls (a\<lparr>tonemapping := True\<rparr>))
              (a\<lparr>tonemapping := True, instanceData := buf\<rparr>)"
  let ?a2 = "issue (?pre @ present_calls (a\<lparr>tonemapping := False\<rparr>))
              (a\<lparr>tonemapping := False, instanceData := buf\<rparr>)"
  have i1: "fb_image (gl ?a1) (fbo a) = fb_image (gl_calls ?pre (gl a)) (fbo a)"
    by (simp add: gl_calls_append present_keeps_offscreen[OF assms(2)])
  have i2: "fb_image (gl ?a2) (fbo a) = fb_image (gl_calls ?pre (gl a)) (fbo a)"
    by (simp add: gl_calls_append present_keeps_offscreen[OF assms(2)])
  have "renderScene e (a\<lparr>tonemapping := True\<rparr>) = Inr ?a1 \<and>
     renderScene e (a\<lparr>tonemapping := False\<rparr>) = Inr ?a2 \<and>
     calls (gl ?a1) = calls (gl a) @ ?pre @ present_calls (a\<lparr>tonemapping := True\<rparr>) \<and>
     calls (gl ?a2) = calls (gl a) @ ?pre @ present_calls (a\<lparr>tonemapping := False\<rparr>) \<and>
     fb_image (gl ?a1) (fbo a) = fb_image (gl_calls ?pre (gl a)) (fbo a) \<and>
     fb_image (gl ?a2) (fbo a) = fb_image (gl_calls ?pre (gl a)) (fbo a) \<and>
     fb_image (gl ?a1) (fbo a) = fb_image (gl ?a2) (fbo a)"
    using on off i1 i2 by simp
  then show ?thesis
    by blast
qed

theorem tonemapping_keeps_offscreen_witness:
  "scene_ok example_env example_scene \<and> fbo example_scene \<noteq> 0 \<and>
   (\<exists>a1 a2. renderScene example_env (example_scene\<lparr>tonemapping := True\<rparr>) = Inr a1 \<and>
      renderScene example_env (example_scene\<lparr>tonemapping := False\<rparr>) = Inr a2 \<and>
      fb_image (gl a1) (fbo example_scene) = fb_image (gl a2) (fbo example_scene))"
proof -
  have s: "scene_ok example_env example_scene" and f: "fbo example_scene \<noteq> 0"
    using example_startup(2) by (simp_all add: ready_def)
  from tonemapping_keeps_offscreen[OF s f] s f show ?thesis
    by blast
qed

section \<open>The order of the commands of a frame\<close>

lemma calls_between_issue [simp]:
  "gl b = gl a \<Longrightarrow> calls_between a (issue cs b) = cs"
  by (simp add: calls_between_def)

lemma calls_of_msaaLevel [simp]:
  "transform_block_calls (a\<lparr>msaaLevel := l\<rparr>) = transform_block_calls a"
  "floor_calls e (a\<lparr>msaaLevel := l\<rparr>) q = floor_calls e a q"
  "cubes_calls e (a\<lparr>msaaLevel := l\<rparr>) buf c = cubes_calls e a buf c"
  "light_calls e (a\<lparr>msaaLevel := l\<rparr>) = light_calls e a"
  "instance_upload_calls e (a\<lparr>msaaLevel := l\<rparr>) buf = instance_upload_calls e a buf"
  "program_data_calls e p (a\<lparr>msaaLevel := l\<rparr>) = program_data_calls e p a"
  by (simp_all add: transform_block_calls_def floor_calls_def cubes_calls_def light_calls_def
      program_data_calls_def instance_upload_calls_def)

lemma draws_of_frame:
  "filter is_draw (transform_block_calls a) = []"
  "filter is_instanced_draw (transform_block_calls a) = []"
  "filter is_instanced_draw (begin_offscreen_calls a) = []"
  "filter is_instanced_draw (floor_calls e a q) = []"
  "filter is_instanced_draw (program_data_calls e p a) = []"
  "filter is_instanced_draw (instance_upload_calls e a buf) = []"
  "filter is_instanced_draw (bind_textures_calls e d n s oc) = []"
  "filter is_instanced_draw (light_calls e a) = []"
  "filter is_instanced_draw (present_calls a) = []"
  by (simp_all add: transform_block_calls_def begin_offscreen_calls_def floor_calls_def
      light_calls_def present_calls_def program_data_calls_def bind_textures_calls_def
      instance_upload_calls_def)

lemma renderScene_calls:
  assumes "scene_ok e a"
  shows "\<exists>a' q c. renderScene e a = Inr a' \<and> quad a = Some q \<and> cube a = Some c \<and>
     calls_between a a' =
       transform_block_calls a @ offscreen_calls e a (instanceData a') q c @ present_calls a \<and>
     texture_storage (gl a') = texture_storage (gl a) \<and>
     renderbuffer_storage (gl a') = renderbuffer_storage (gl a) \<and>
     color_attachment (gl a') = color_attachment (gl a) \<and>
     depth_attachment (gl a') = depth_attachment (gl a) \<and>
     fbo a' = fbo a \<and> width a' = width a \<and> height a' = height a \<and> camera a' = camera a"
proof -
  from renderScene_eq[OF assms] obtain buf q c where
    qc: "quad a = Some q" "cube a = Some c"
    and r: "renderScene e a =
       Inr (issue (transform_block_calls a @ offscreen_calls e a buf q c @ present_calls a)
              (a\<lparr>instanceData := buf\<rparr>))"
    by blast
  let ?a' = "issue (transform_block_calls a @ offscreen_calls e a buf q c @ present_calls a)
              (a\<lparr>instanceData := buf\<rparr>)"
  note T = gl_calls_keeps_targets[OF frame_calls_keep_targets, of a e buf q c "gl a"]
  have "calls_between a ?a' =
       transform_block_calls a @ offscreen_calls e a (instanceData ?a') q c @ present_calls a"
    by simp
  moreover have "texture_storage (gl ?a') = texture_storage (gl a)"
    "renderbuffer_storage (gl ?a') = renderbuffer_storage (gl a)"
    "color_attachment (gl ?a') = color_attachment (gl a)"
    "depth_attachment (gl ?a') = depth_attachment (gl a)"
    using T by simp_all
  ultimately show ?thesis
    using r qc by simp
qed

text \<open>
  C4. A frame in a state with the scene in place, whatever the multisample level,
  returns, and its commands are, in this order: the update of the transform block (which
  is what \<^verbatim>\<open>updateTransformBlock\<close> issues, and holds no draw call), further commands, the
  upload of the instance buffer, further commands, one instanced draw of \<open>numCubes\<close>
  instances, and the rest. That draw is the only instanced draw of the frame.
\<close>

theorem frame_order:
  assumes "scene_ok e a"
  shows "\<exists>a' before between after ibo.
     renderScene e (a\<lparr>msaaLevel := l\<rparr>) = Inr a' \<and>
     calls_between (a\<lparr>msaaLevel := l\<rparr>) a' =
       transform_block_calls a @ before @ instance_upload_calls e a (instanceData a') @ between @
       [Draw (glDrawElementsInstanced GL_TRIANGLES ibo (sint (numCubes e)))] @ after \<and>
     updateTransformBlock a = issue (transform_block_calls a) a \<and>
     filter is_draw (transform_block_calls a) = [] \<and>
     filter is_instanced_draw (calls_between (a\<lparr>msaaLevel := l\<rparr>) a') =
       [Draw (glDrawElementsInstanced GL_TRIANGLES ibo (sint (numCubes e)))]"
proof -
  let ?b = "a\<lparr>msaaLevel := l\<rparr>"
  have "scene_ok e ?b"
    using assms by (simp add: scene_ok_def)
  from renderScene_calls[OF this] obtain a' q c where
    r: "renderScene e ?b = Inr a'" and qc: "cube a = Some c"
    and cb: "calls_between ?b a' =
       transform_block_calls a @ offscreen_calls e ?b (instanceData a') q c @ present_calls ?b"
    by auto
  let ?before = "begin_offscreen_calls ?b @ floor_calls e a q @
      [Object (glUseProgram (shaderProgram a Instancing))] @
      program_data_calls e (shaderProgram a Instancing) a"
  let ?between = "bind_textures_calls e (loadedTextures a Diffuse) (loadedTextures a Normal)
       (loadedTextures a Specular) (loadedTextures a Occlusion) @
     [Object (glBindVertexArray (GetVAO c))]"
  let ?after = "[Object (glBindBufferBase 1 0)] @ light_calls e a @ present_calls ?b"
  have split: "calls_between ?b a' =
       transform_block_calls a @ ?before @ instance_upload_calls e a (instanceData a') @ ?between @
       [Draw (glDrawElementsInstanced GL_TRIANGLES (GetIBOSize c) (sint (numCubes e)))] @ ?after"
    by (simp add: cb offscreen_calls_def cubes_calls_def)
  have one: "filter is_instanced_draw (calls_between ?b a') =
       [Draw (glDrawElementsInstanced GL_TRIANGLES (GetIBOSize c) (sint (numCubes e)))]"
    unfolding split by (simp add: draws_of_frame)
  show ?thesis
    using r split one updateTransformBlock_eq[of a] draws_of_frame(1)[of a] by blast
qed

theorem frame_order_witness:
  "scene_ok example_env example_scene \<and>
   (\<exists>a' ibo. renderScene example_env (example_scene\<lparr>msaaLevel := 1\<rparr>) = Inr a' \<and>
      filter is_instanced_draw (calls_between (example_scene\<lparr>msaaLevel := 1\<rparr>) a') =
        [Draw (glDrawElementsInstanced GL_TRIANGLES ibo (sint (numCubes example_env)))]) \<and>
   (\<exists>a' ibo. renderScene example_env (example_scene\<lparr>msaaLevel := MSAA_SAMPLES\<rparr>) = Inr a' \<and>
      filter is_instanced_draw (calls_between (example_scene\<lparr>msaaLevel := MSAA_SAMPLES\<rparr>) a') =
        [Draw (glDrawElementsInstanced GL_TRIANGLES ibo (sint (numCubes example_env)))])"
proof -
  have s: "scene_ok example_env example_scene"
    using example_startup(2) by (simp add: ready_def)
  from frame_order[OF s, of 1] frame_order[OF s, of MSAA_SAMPLES] s show ?thesis
    by blast
qed

section \<open>The transform block and the first frame\<close>

lemma transform_block_layout:
  "transform_block_calls a =
     [Object (glBindBuffer (transformBlockUBO a)),
      Data (glBufferSubData 0 48
              (mat3x4_floats (mat3x4_of_mat4x4 (glm_transpose (GetWorldToView (camera a)))))),
      Data (glBufferSubData 48 64 (mat4x4_floats (GetProjection (camera a)))),
      Object (glBindBuffer 0)]"
  by (simp add: transform_block_calls_def sizeof_mat3x4_def sizeof_mat4x4_def sizeof_float_def)

text \<open>The floats written for a matrix given by its columns: of the world-to-view matrix
  the first three rows, entry by entry; of the projection matrix the four columns.\<close>

lemma transform_block_floats:
  "mat3x4_floats (mat3x4_of_mat4x4 (glm_transpose
       ((v00, v10, v20, v30), (v01, v11, v21, v31), (v02, v12, v22, v32), (v03, v13, v23, v33)))) =
     [v00, v01, v02, v03, v10, v11, v12, v13, v20, v21, v22, v23]"
  "mat4x4_floats
       ((p00, p10, p20, p30), (p01, p11, p21, p31), (p02, p12, p22, p32), (p03, p13, p23, p33)) =
     [p00, p10, p20, p30, p01, p11, p21, p31, p02, p12, p22, p32, p03, p13, p23, p33]"
  by simp_all

lemma mat4x4_entries:
  "\<exists>m00 m10 m20 m30 m01 m11 m21 m31 m02 m12 m22 m32 m03 m13 m23 m33.
     (M :: mat4x4) =
       ((m00, m10, m20, m30), (m01, m11, m21, m31), (m02, m12, m22, m32), (m03, m13, m23, m33))"
  by (cases M rule: glm_transpose.cases) blast

lemma floats_length:
  "length (mat3x4_floats m) = 12" "length (mat4x4_floats M) = 16"
proof -
  obtain a0 a1 a2 a3 b0 b1 b2 b3 c0 c1 c2 c3 where "m = ((a0, a1, a2, a3), (b0, b1, b2, b3), (c0, c1, c2, c3))"
    by (metis prod_cases4 prod_cases3)
  then show "length (mat3x4_floats m) = 12"
    by simp
  show "length (mat4x4_floats M) = 16"
    by (cases M rule: glm_transpose.cases) simp
qed

lemma upload_size:
  assumes "0 \<le> sint (numCubes e)" "sint (numCubes e) \<le> int (length buf)"
  shows "length (concat (map mat3x4_floats (take (nat (sint (numCubes e))) buf))) =
     12 * nat (sint (numCubes e))"
proof -
  have "length (concat (map mat3x4_floats xs)) = 12 * length xs" for xs
    by (induction xs) (simp_all add: floats_length)
  then show ?thesis
    using assms by simp
qed

text \<open>
  C7. In every frame the first commands are those of the transform block: the buffer is
  bound; of the world-to-view matrix, whose entry in row \<open>r\<close> and column \<open>c\<close> is \<open>vrc\<close>,
  the first three rows are written entry by entry, twelve floats and 48 bytes at offset
  0 (the matrix transposed and cut to 3x4, in memory order); the projection matrix is
  written column by column, sixteen floats and 64 bytes at offset 48; every draw call
  comes later. After a start-up with ten cubes from the initial state (four samples) in
  a context that accepts storage of 800 by 600 with four samples, the first frame
  returns; then the window and the storage of the colour and depth attachments of the
  framebuffer are 800 by 600 with four samples, and the frame uploads ten instance
  records (480 bytes, 120 floats) and draws ten instances.
\<close>

theorem transform_block_and_first_frame:
  "(scene_ok e a \<longrightarrow>
      (\<exists>a' rest v00 v10 v20 v30 v01 v11 v21 v31 v02 v12 v22 v32 v03 v13 v23 v33
          p00 p10 p20 p30 p01 p11 p21 p31 p02 p12 p22 p32 p03 p13 p23 p33.
         renderScene e a = Inr a' \<and>
         GetWorldToView (camera a) =
           ((v00, v10, v20, v30), (v01, v11, v21, v31), (v02, v12, v22, v32), (v03, v13, v23, v33)) \<and>
         GetProjection (camera a) =
           ((p00, p10, p20, p30), (p01, p11, p21, p31), (p02, p12, p22, p32), (p03, p13, p23, p33)) \<and>
         calls_between a a' =
           [Object (glBindBuffer (transformBlockUBO a)),
            Data (glBufferSubData 0 48
                    [v00, v01, v02, v03, v10, v11, v12, v13, v20, v21, v22, v23]),
            Data (glBufferSubData 48 64
                    [p00, p10, p20, p30, p01, p11, p21, p31, p02, p12, p22, p32, p03, p13, p23, p33]),
            Object (glBindBuffer 0)] @ rest \<and>
         filter is_draw (take 4 (calls_between a a')) = [] \<and>
         12 * sizeof_float = 48 \<and> 16 * sizeof_float = 64)) \<and>
   (driver_ok e \<and> numCubes e = 10 \<and> storage_accepted lims 800 600 4 \<and>
    startup e (app_initial lims cam) = Inr (True, a) \<longrightarrow>
      (\<exists>a' ibo floats.
         frame e [] a = Inr a' \<and>
         width a' = 800 \<and> height a' = 600 \<and>
         texture_storage (gl a') (color_attachment (gl a') (fbo a')) = Some (800, 600, 4) \<and>
         renderbuffer_storage (gl a') (depth_attachment (gl a') (fbo a')) = Some (800, 600, 4) \<and>
         instance_upload_calls e a (instanceData a') =
           [Object (glBindBufferBase 1 (instancingBuffer a)), Data glMapBuffer,
            Data (memcpy_mapped 480 floats), Data glUnmapBuffer] \<and>
         length floats = 120 \<and>
         set (instance_upload_calls e a (instanceData a')) \<subseteq> set (calls_between a a') \<and>
         filter is_instanced_draw (calls_between a a') =
           [Draw (glDrawElementsInstanced GL_TRIANGLES ibo 10)]))"
proof (intro conjI impI)
  assume s: "scene_ok e a"
  from renderScene_calls[OF s] obtain a' q c where
    r: "renderScene e a = Inr a'"
    and cb: "calls_between a a' =
       transform_block_calls a @ offscreen_calls e a (instanceData a') q c @ present_calls a"
    by blast
  obtain v00 v10 v20 v30 v01 v11 v21 v31 v02 v12 v22 v32 v03 v13 v23 v33 where
    v: "GetWorldToView (camera a) =
           ((v00, v10, v20, v30), (v01, v11, v21, v31), (v02, v12, v22, v32), (v03, v13, v23, v33))"
    using mat4x4_entries[of "GetWorldToView (camera a)"] by blast
  obtain p00 p10 p20 p30 p01 p11 p21 p31 p02 p12 p22 p32 p03 p13 p23 p33 where
    p: "GetProjection (camera a) =
           ((p00, p10, p20, p30), (p01, p11, p21, p31), (p02, p12, p22, p32), (p03, p13, p23, p33))"
    using mat4x4_entries[of "GetProjection (camera a)"] by blast
  let ?block = "[Object (glBindBuffer (transformBlockUBO a)),
            Data (glBufferSubData 0 48
                    [v00, v01, v02, v03, v10, v11, v12, v13, v20, v21, v22, v23]),
            Data (glBufferSubData 48 64
                    [p00, p10, p20, p30, p01, p11, p21, p31, p02, p12, p22, p32, p03, p13, p23, p33]),
            Object (glBindBuffer 0)]"
  have block: "transform_block_calls a = ?block"
    unfolding transform_block_layout v p transform_block_floats ..
  have all: "calls_between a a' =
      ?block @ (offscreen_calls e a (instanceData a') q c @ present_calls a)"
    unfolding cb block by simp
  have none: "filter is_draw (take 4 (calls_between a a')) = []"
    unfolding all by simp
  have sizes: "12 * sizeof_float = 48" "16 * sizeof_float = 64"
    by (simp_all add: sizeof_float_def)
  show "\<exists>a' rest v00 v10 v20 v30 v01 v11 v21 v31 v02 v12 v22 v32 v03 v13 v23 v33
          p00 p10 p20 p30 p01 p11 p21 p31 p02 p12 p22 p32 p03 p13 p23 p33.
         renderScene e a = Inr a' \<and>
         GetWorldToView (camera a) =
           ((v00, v10, v20, v30), (v01, v11, v21, v31), (v02, v12, v22, v32), (v03, v13, v23, v33)) \<and>
         GetProjection (camera a) =
           ((p00, p10, p20, p30), (p01, p11, p21, p31), (p02, p12, p22, p32), (p03, p13, p23, p33)) \<and>
         calls_between a a' =
           [Object (glBindBuffer (transformBlockUBO a)),
            Data (glBufferSubData 0 48
                    [v00, v01, v02, v03, v10, v11, v12, v13, v20, v21, v22, v23]),
            Data (glBufferSubData 48 64
                    [p00, p10, p20, p30, p01, p11, p21, p31, p02, p12, p22, p32, p03, p13, p23, p33]),
            Object (glBindBuffer 0)] @ rest \<and>
         filter is_draw (take 4 (calls_between a a')) = [] \<and>
         12 * sizeof_float = 48 \<and> 16 * sizeof_float = 64"
    by (intro exI conjI) (rule r v p all none sizes)+
next
  assume h: "driver_ok e \<and> numCubes e = 10 \<and> storage_accepted lims 800 600 4 \<and>
    startup e (app_initial lims cam) = Inr (True, a)"
  then have e: "driver_ok e" and n: "numCubes e = 10"
    and acc: "storage_accepted lims 800 600 4"
    and st: "startup e (app_initial lims cam) = Inr (True, a)"
    by simp_all
  have i: "cubePositions (app_initial lims cam) = []"
    "length (instanceData (app_initial lims cam)) = unat MAX_INSTANCES"
    "msaaLevel (app_initial lims cam) = MSAA_SAMPLES"
    by (simp_all add: app_initial_def)
  have acc': "storage_accepted (limits (gl (app_initial lims cam))) DefaultWidth DefaultHeight MSAA_SAMPLES"
    using acc by (simp add: limits_initial DefaultWidth_def DefaultHeight_def MSAA_SAMPLES_def)
  note S = startup_result[OF e handles_ok_initial i]
  have ok: "fst (initOpenGL e (app_initial lims cam)) \<and> compileShaders e"
    using S(2) st by auto
  with S(1) st acc' have a: "ready e a" "width a = DefaultWidth" "height a = DefaultHeight"
    "texture_storage (gl a) (renderTarget a) = Some (DefaultWidth, DefaultHeight, MSAA_SAMPLES)"
    "renderbuffer_storage (gl a) (depthStencil a) = Some (DefaultWidth, DefaultHeight, MSAA_SAMPLES)"
    "color_attachment (gl a) (fbo a) = renderTarget a"
    "depth_attachment (gl a) (fbo a) = depthStencil a"
    by auto
  let ?b = "a\<lparr>camera := processInput e (camera a)\<rparr>"
  have sb: "scene_ok e ?b"
    using a(1) by (simp add: ready_def scene_ok_def)
  from renderScene_calls[OF sb] obtain a' q c where
    r: "renderScene e ?b = Inr a'" and qc: "cube a = Some c"
    and cb: "calls_between ?b a' =
       transform_block_calls ?b @ offscreen_calls e ?b (instanceData a') q c @ present_calls ?b"
    and keep: "texture_storage (gl a') = texture_storage (gl a)"
      "renderbuffer_storage (gl a') = renderbuffer_storage (gl a)"
      "color_attachment (gl a') = color_attachment (gl a)"
      "depth_attachment (gl a') = depth_attachment (gl a)"
      "fbo a' = fbo a" "width a' = width a" "height a' = height a"
    by auto
  from renderScene_ready[of e ?b] a(1) r have len: "length (instanceData a') = unat MAX_INSTANCES"
    by (auto simp add: ready_def scene_ok_def handles_ok_def)
  have sn: "sint (numCubes e) = 10"
    by (simp add: n)
  let ?floats = "concat (map mat3x4_floats (take (nat (sint (numCubes e))) (instanceData a')))"
  have fl: "length ?floats = 120"
    using upload_size[of e "instanceData a'"] len by (simp add: sn MAX_INSTANCES_def)
  have up: "instance_upload_calls e a (instanceData a') =
           [Object (glBindBufferBase 1 (instancingBuffer a)), Data glMapBuffer,
            Data (memcpy_mapped 480 ?floats), Data glUnmapBuffer]"
    by (simp add: instance_upload_calls_def sn sizeof_InstanceData_def sizeof_mat3x4_def
        sizeof_float_def)
  have between: "calls_between a a' = calls_between ?b a'"
    by (simp add: calls_between_def)
  have sub: "set (instance_upload_calls e a (instanceData a')) \<subseteq> set (calls_between a a')"
  proof -
    have "instance_upload_calls e ?b (instanceData a') = instance_upload_calls e a (instanceData a')"
      by (simp add: instance_upload_calls_def)
    then show ?thesis
      unfolding between cb by (auto simp add: offscreen_calls_def cubes_calls_def)
  qed
  have one: "filter is_instanced_draw (calls_between a a') =
           [Draw (glDrawElementsInstanced GL_TRIANGLES (GetIBOSize c) 10)]"
    using qc unfolding between cb
    by (simp add: offscreen_calls_def cubes_calls_def draws_of_frame sn)
  have fr: "frame e [] a = Inr a'"
    using r by (simp add: frame_def Let_def)
  have dims: "width a' = 800" "height a' = 600"
    "texture_storage (gl a') (color_attachment (gl a') (fbo a')) = Some (800, 600, 4)"
    "renderbuffer_storage (gl a') (depth_attachment (gl a') (fbo a')) = Some (800, 600, 4)"
    using a(2-7) keep
    by (simp_all add: DefaultWidth_def DefaultHeight_def MSAA_SAMPLES_def)
  show "\<exists>a' ibo floats.
         frame e [] a = Inr a' \<and>
         width a' = 800 \<and> height a' = 600 \<and>
         texture_storage (gl a') (color_attachment (gl a') (fbo a')) = Some (800, 600, 4) \<and>
         renderbuffer_storage (gl a') (depth_attachment (gl a') (fbo a')) = Some (800, 600, 4) \<and>
         instance_upload_calls e a (instanceData a') =
           [Object (glBindBufferBase 1 (instancingBuffer a)), Data glMapBuffer,
            Data (memcpy_mapped 480 floats), Data glUnmapBuffer] \<and>
         length floats = 120 \<and>
         set (instance_upload_calls e a (instanceData a')) \<subseteq> set (calls_between a a') \<and>
         filter is_instanced_draw (calls_between a a') =
           [Draw (glDrawElementsInstanced GL_TRIANGLES ibo 10)]"
    using fr dims up fl sub one by blast
qed

theorem transform_block_and_first_frame_witness:
  "scene_ok example_env example_scene \<and>
   driver_ok example_env \<and> numCubes example_env = 10 \<and>
   storage_accepted example_limits 800 600 4 \<and>
   startup example_env (app_initial example_limits example_camera) = Inr (True, example_scene) \<and>
   (\<exists>a' ibo. frame example_env [] example_scene = Inr a' \<and>
      width a' = 800 \<and> height a' = 600 \<and>
      texture_storage (gl a') (color_attachment (gl a') (fbo a')) = Some (800, 600, 4) \<and>
      renderbuffer_storage (gl a') (depth_attachment (gl a') (fbo a')) = Some (800, 600, 4) \<and>
      filter is_instanced_draw (calls_between example_scene a') =
        [Draw (glDrawElementsInstanced GL_TRIANGLES ibo 10)]) \<and>
   (\<exists>a' rest. renderScene example_env example_scene = Inr a' \<and>
      calls_between example_scene a' =
        [Object (glBindBuffer (transformBlockUBO example_scene)),
         Data (glBufferSubData 0 48 [1, 0, 0, 1, 0, 1, 0, 2, 0, 0, 1, 3]),
         Data (glBufferSubData 48 64 [2, 0, 0, 0, 0, 3, 0, 0, 0, 0, -1, -1, 0, 0, -2, 0]),
         Object (glBindBuffer 0)] @ rest)"
proof -
  have s: "scene_ok example_env example_scene"
    using example_startup(2) by (simp add: ready_def)
  have n: "numCubes example_env = 10"
    by (simp add: example_env_def)
  have acc: "storage_accepted example_limits 800 600 4"
    using example_limits_accept by (simp add: DefaultWidth_def DefaultHeight_def MSAA_SAMPLES_def)
  note T = transform_block_and_first_frame[of example_env example_scene example_limits example_camera]
  from mp[OF conjunct1[OF T] s] obtain a' rest v00 v10 v20 v30 v01 v11 v21 v31 v02 v12 v22 v32 v03 v13 v23 v33
          p00 p10 p20 p30 p01 p11 p21 p31 p02 p12 p22 p32 p03 p13 p23 p33 where
    r: "renderScene example_env example_scene = Inr a'"
    and v: "GetWorldToView (camera example_scene) =
           ((v00, v10, v20, v30), (v01, v11, v21, v31), (v02, v12, v22, v32), (v03, v13, v23, v33))"
    and p: "GetProjection (camera example_scene) =
           ((p00, p10, p20, p30), (p01, p11, p21, p31), (p02, p12, p22, p32), (p03, p13, p23, p33))"
    and cb: "calls_between example_scene a' =
           [Object (glBindBuffer (transformBlockUBO example_scene)),
            Data (glBufferSubData 0 48
                    [v00, v01, v02, v03, v10, v11, v12, v13, v20, v21, v22, v23]),
            Data (glBufferSubData 48 64
                    [p00, p10, p20, p30, p01, p11, p21, p31, p02, p12, p22, p32, p03, p13, p23, p33]),
            Object (glBindBuffer 0)] @ rest"
    by (elim exE conjE) (rule that, assumption+)
  have cam: "camera example_scene = example_camera"
    by (rule example_camera_kept)
  have "calls_between example_scene a' =
        [Object (glBindBuffer (transformBlockUBO example_scene)),
         Data (glBufferSubData 0 48 [1, 0, 0, 1, 0, 1, 0, 2, 0, 0, 1, 3]),
         Data (glBufferSubData 48 64 [2, 0, 0, 0, 0, 3, 0, 0, 0, 0, -1, -1, 0, 0, -2, 0]),
         Object (glBindBuffer 0)] @ rest"
    using v p unfolding cb cam by (simp add: example_camera_def)
  with r have block: "\<exists>a' rest. renderScene example_env example_scene = Inr a' \<and>
      calls_between example_scene a' =
        [Object (glBindBuffer (transformBlockUBO example_scene)),
         Data (glBufferSubData 0 48 [1, 0, 0, 1, 0, 1, 0, 2, 0, 0, 1, 3]),
         Data (glBufferSubData 48 64 [2, 0, 0, 0, 0, 3, 0, 0, 0, 0, -1, -1, 0, 0, -2, 0]),
         Object (glBindBuffer 0)] @ rest"
    by blast
  from T driver_ok_example n acc example_startup(1)
  have "\<exists>a' ibo. frame example_env [] example_scene = Inr a' \<and>
      width a' = 800 \<and> height a' = 600 \<and>
      texture_storage (gl a') (color_attachment (gl a') (fbo a')) = Some (800, 600, 4) \<and>
      renderbuffer_storage (gl a') (depth_attachment (gl a') (fbo a')) = Some (800, 600, 4) \<and>
      filter is_instanced_draw (calls_between example_scene a') =
        [Draw (glDrawElementsInstanced GL_TRIANGLES ibo 10)]"
    by blast
  with block show ?thesis
    using s driver_ok_example n acc example_startup(1) by blast
qed

section \<open>The arguments of \<^verbatim>\<open>createFramebuffer\<close>\<close>

text \<open>The commands of \<^verbatim>\<open>createFramebuffer\<close>, the same for all arguments, and the storage
  commands among them.\<close>

lemma createFramebuffer_between:
  fixes e :: env and w h m :: int
  assumes ok: "handles_ok a"
  shows "calls_between a (createFramebuffer e w h m a) =
     [Object (glBindFramebuffer GL_FRAMEBUFFER 0)] @
     (if fbo a = 0 then [glGenFramebuffers (fbo (createFramebuffer e w h m a))] else []) @
     [Object (glBindFramebuffer GL_FRAMEBUFFER (fbo (createFramebuffer e w h m a)))] @
     (if renderTarget a = 0 then [] else [glDeleteTextures [renderTarget a]]) @
     [glGenTextures (renderTarget (createFramebuffer e w h m a))] @
     renderTarget_storage_calls w h m (renderTarget (createFramebuffer e w h m a)) @
     (if depthStencil a = 0 then [] else [glDeleteRenderbuffers [depthStencil a]]) @
     [glGenRenderbuffers (depthStencil (createFramebuffer e w h m a))] @
     depthStencil_storage_calls w h m (depthStencil (createFramebuffer e w h m a)) @
     [Pipeline (glDrawBuffers [GL_COLOR_ATTACHMENT0]),
      Object (glBindFramebuffer GL_FRAMEBUFFER 0)]"
  unfolding calls_between_def createFramebuffer_calls[OF ok] by simp

lemma createFramebuffer_storage_commands:
  fixes e :: env and w h m :: int
  assumes ok: "handles_ok a"
  shows "Data (if m > 1 then glTexImage2DMultisample GL_TEXTURE_2D_MULTISAMPLE m w h
               else glTexImage2D GL_TEXTURE_2D w h)
           \<in> set (calls_between a (createFramebuffer e w h m a))"
    and "Data (if m > 1 then glRenderbufferStorageMultisample m w h else glRenderbufferStorage w h)
           \<in> set (calls_between a (createFramebuffer e w h m a))"
    and "renderTarget a \<noteq> 0 \<Longrightarrow>
         glDeleteTextures [renderTarget a] \<in> set (calls_between a (createFramebuffer e w h m a))"
    and "depthStencil a \<noteq> 0 \<Longrightarrow>
         glDeleteRenderbuffers [depthStencil a] \<in> set (calls_between a (createFramebuffer e w h m a))"
  unfolding createFramebuffer_between[OF ok]
  by (simp_all add: renderTarget_storage_calls_def depthStencil_storage_calls_def)

lemma calls_between_prefix:
  assumes "length (calls (gl b)) \<le> length (calls (gl c))"
    and "take (length (calls (gl b))) (calls (gl c)) = calls (gl b)"
    and g: "gl b = gl_calls cs (gl a)"
  shows "calls_between a c = cs @ calls_between b c"
proof -
  have b: "calls (gl b) = calls (gl a) @ cs"
    by (simp add: g)
  have "calls (gl c) = calls (gl b) @ drop (length (calls (gl b))) (calls (gl c))"
    using assms(2) by (metis append_take_drop_id)
  then have "calls (gl c) = calls (gl a) @ (cs @ calls_between b c)"
    by (simp add: b calls_between_def)
  then have "drop (length (calls (gl a))) (calls (gl c)) =
      drop (length (calls (gl a))) (calls (gl a) @ (cs @ calls_between b c))"
    by (rule arg_cong)
  then show ?thesis
    by (simp add: calls_between_def)
qed

lemma createFramebuffer_extends:
  fixes e :: env and w h m :: int
  assumes "handles_ok b"
  shows "length (calls (gl b)) \<le> length (calls (gl (createFramebuffer e w h m b)))"
    and "take (length (calls (gl b))) (calls (gl (createFramebuffer e w h m b))) = calls (gl b)"
  by (simp_all add: createFramebuffer_calls[OF assms])

text \<open>
  C8, as the specification states it, fails. After the start-up of the example
  configuration the multisample level is 4; a call of \<^verbatim>\<open>createFramebuffer\<close> with the width
  0 and the height 0, which is what a resize of the window to nothing passes and which
  the specification does not call valid, deletes the render target and the depth
  buffer and issues the storage commands with these sizes.
\<close>

theorem createFramebuffer_validates_counterexample:
  "\<not> valid_fb_args 0 0 4 \<and> msaaLevel example_scene = 4 \<and>
   glDeleteTextures [renderTarget example_scene]
     \<in> set (calls_between example_scene (createFramebuffer example_env 0 0 4 example_scene)) \<and>
   glDeleteRenderbuffers [depthStencil example_scene]
     \<in> set (calls_between example_scene (createFramebuffer example_env 0 0 4 example_scene)) \<and>
   glGenTextures (renderTarget (createFramebuffer example_env 0 0 4 example_scene))
     \<in> set (calls_between example_scene (createFramebuffer example_env 0 0 4 example_scene)) \<and>
   Data (glTexImage2DMultisample GL_TEXTURE_2D_MULTISAMPLE 4 0 0)
     \<in> set (calls_between example_scene (createFramebuffer example_env 0 0 4 example_scene)) \<and>
   Data (glRenderbufferStorageMultisample 4 0 0)
     \<in> set (calls_between example_scene (createFramebuffer example_env 0 0 4 example_scene)) \<and>
   Data (glTexImage2DMultisample GL_TEXTURE_2D_MULTISAMPLE 4 0 0)
     \<in> set (calls_between example_scene (dispatch example_env (Resize 0 0) example_scene))"
proof -
  have r: "handles_ok example_scene" "renderTarget example_scene \<noteq> 0"
    "depthStencil example_scene \<noteq> 0" "msaaLevel example_scene = 4"
    using example_startup(2,7) by (simp_all add: ready_def MSAA_SAMPLES_def)
  note B = createFramebuffer_between[OF r(1), of example_env 0 0 4]
  let ?b = "(issue [Pipeline (glViewport 0 0 0 0)] (example_scene\<lparr>width := 0, height := 0\<rparr>))
          \<lparr>camera := SetProjection example_env (fov example_scene) (of_int 0 / of_int 0)
                       nearClipPlane farClipPlane (camera example_scene)\<rparr>"
  have "handles_ok (issue [Pipeline (glViewport 0 0 0 0)] example_scene)"
    using r(1) by (intro handles_ok_issue) simp_all
  then have hb: "handles_ok ?b"
    by (simp add: handles_ok_def issue_def)
  have "calls_between example_scene (createFramebuffer example_env 0 0 4 ?b) =
      [Pipeline (glViewport 0 0 0 0)] @ calls_between ?b (createFramebuffer example_env 0 0 4 ?b)"
    by (rule calls_between_prefix[OF createFramebuffer_extends[OF hb]]) simp
  moreover have "Data (glTexImage2DMultisample GL_TEXTURE_2D_MULTISAMPLE 4 0 0)
      \<in> set (calls_between ?b (createFramebuffer example_env 0 0 4 ?b))"
    using createFramebuffer_storage_commands(1)[OF hb, of 4 0 0 example_env] by simp
  ultimately have resize: "Data (glTexImage2DMultisample GL_TEXTURE_2D_MULTISAMPLE 4 0 0)
     \<in> set (calls_between example_scene (dispatch example_env (Resize 0 0) example_scene))"
    by (simp add: resizeCallback_eq r(4))
  show ?thesis
    using r(2,3,4) resize unfolding B
    by (simp add: valid_fb_args_def renderTarget_storage_calls_def depthStencil_storage_calls_def)
qed

text \<open>
  C8, amended. \<^verbatim>\<open>createFramebuffer\<close> checks none of its arguments. Whatever the width,
  the height and the sample count, it issues the same commands: it binds the
  framebuffer object, deletes the old render target when there is one and generates a
  new name, hands the width, the height and the sample count as they are to
  \<^verbatim>\<open>glTexImage2DMultisample\<close> when the count is above 1 and the width and the height to
  \<^verbatim>\<open>glTexImage2D\<close> otherwise, and does the same for the depth buffer. What its callers
  pass as the sample count is \<^verbatim>\<open>msaaLevel\<close>, which stays 1 or \<^verbatim>\<open>MSAA_SAMPLES\<close>: the F1
  key assigns nothing else and passes the window's width and height, and resizing
  leaves the level and passes the new width and height, unchecked.
\<close>

theorem createFramebuffer_unvalidated:
  assumes "driver_ok e" and "handles_ok a"
  shows "calls_between a (createFramebuffer e w h m a) =
       [Object (glBindFramebuffer GL_FRAMEBUFFER 0)] @
       (if fbo a = 0 then [glGenFramebuffers (fbo (createFramebuffer e w h m a))] else []) @
       [Object (glBindFramebuffer GL_FRAMEBUFFER (fbo (createFramebuffer e w h m a)))] @
       (if renderTarget a = 0 then [] else [glDeleteTextures [renderTarget a]]) @
       [glGenTextures (renderTarget (createFramebuffer e w h m a))] @
       (if m > 1
        then [Object (glBindTexture GL_TEXTURE_2D_MULTISAMPLE (renderTarget (createFramebuffer e w h m a))),
              Data (glTexImage2DMultisample GL_TEXTURE_2D_MULTISAMPLE m w h),
              Data (glFramebufferTexture2D GL_FRAMEBUFFER GL_COLOR_ATTACHMENT0
                      GL_TEXTURE_2D_MULTISAMPLE (renderTarget (createFramebuffer e w h m a)))]
        else [Object (glBindTexture GL_TEXTURE_2D (renderTarget (createFramebuffer e w h m a))),
              Data (glTexImage2D GL_TEXTURE_2D w h),
              Data (glTexParameteri GL_TEXTURE_2D),
              Data (glTexParameteri GL_TEXTURE_2D),
              Data (glFramebufferTexture2D GL_FRAMEBUFFER GL_COLOR_ATTACHMENT0
                      GL_TEXTURE_2D (renderTarget (createFramebuffer e w h m a)))]) @
       (if depthStencil a = 0 then [] else [glDeleteRenderbuffers [depthStencil a]]) @
       [glGenRenderbuffers (depthStencil (createFramebuffer e w h m a)),
        Object (glBindRenderbuffer (depthStencil (createFramebuffer e w h m a))),
        Data (if m > 1 then glRenderbufferStorageMultisample m w h else glRenderbufferStorage w h),
        Data (glFramebufferRenderbuffer GL_FRAMEBUFFER GL_DEPTH_ATTACHMENT
                (depthStencil (createFramebuffer e w h m a))),
        Pipeline (glDrawBuffers [GL_COLOR_ATTACHMENT0]),
        Object (glBindFramebuffer GL_FRAMEBUFFER 0)] \<and>
     texture_names (gl (createFramebuffer e w h m a)) =
       insert (renderTarget (createFramebuffer e w h m a)) (texture_names (gl a) - {renderTarget a}) \<and>
     renderbuffer_names (gl (createFramebuffer e w h m a)) =
       insert (depthStencil (createFramebuffer e w h m a))
         (renderbuffer_names (gl a) - {depthStencil a}) \<and>
     (msaaLevel a = 1 \<or> msaaLevel a = MSAA_SAMPLES \<longrightarrow>
        (msaaLevel (keyCallback e k act a) = 1 \<or> msaaLevel (keyCallback e k act a) = MSAA_SAMPLES) \<and>
        (msaaLevel (resizeCallback e w h a) = 1 \<or> msaaLevel (resizeCallback e w h a) = MSAA_SAMPLES)) \<and>
     Data (if msaaLevel a > 1 then glTexImage2D GL_TEXTURE_2D (width a) (height a)
           else glTexImage2DMultisample GL_TEXTURE_2D_MULTISAMPLE MSAA_SAMPLES (width a) (height a))
       \<in> set (calls_between a (keyCallback e GLFW_KEY_F1 GLFW_PRESS a)) \<and>
     Data (if msaaLevel a > 1
           then glTexImage2DMultisample GL_TEXTURE_2D_MULTISAMPLE (msaaLevel a) w h
           else glTexImage2D GL_TEXTURE_2D w h)
       \<in> set (calls_between a (resizeCallback e w h a))"
proof -
  note S = createFramebuffer_summary[where w = w and h = h and m = m, OF assms]
  have calls: "calls_between a (createFramebuffer e w h m a) =
       [Object (glBindFramebuffer GL_FRAMEBUFFER 0)] @
       (if fbo a = 0 then [glGenFramebuffers (fbo (createFramebuffer e w h m a))] else []) @
       [Object (glBindFramebuffer GL_FRAMEBUFFER (fbo (createFramebuffer e w h m a)))] @
       (if renderTarget a = 0 then [] else [glDeleteTextures [renderTarget a]]) @
       [glGenTextures (renderTarget (createFramebuffer e w h m a))] @
       (if m > 1
        then [Object (glBindTexture GL_TEXTURE_2D_MULTISAMPLE (renderTarget (createFramebuffer e w h m a))),
              Data (glTexImage2DMultisample GL_TEXTURE_2D_MULTISAMPLE m w h),
              Data (glFramebufferTexture2D GL_FRAMEBUFFER GL_COLOR_ATTACHMENT0
                      GL_TEXTURE_2D_MULTISAMPLE (renderTarget (createFramebuffer e w h m a)))]
        else [Object (glBindTexture GL_TEXTURE_2D (renderTarget (createFramebuffer e w h m a))),
              Data (glTexImage2D GL_TEXTURE_2D w h),
              Data (glTexParameteri GL_TEXTURE_2D),
              Data (glTexParameteri GL_TEXTURE_2D),
              Data (glFramebufferTexture2D GL_FRAMEBUFFER GL_COLOR_ATTACHMENT0
                      GL_TEXTURE_2D (renderTarget (createFramebuffer e w h m a)))]) @
       (if depthStencil a = 0 then [] else [glDeleteRenderbuffers [depthStencil a]]) @
       [glGenRenderbuffers (depthStencil (createFramebuffer e w h m a)),
        Object (glBindRenderbuffer (depthStencil (createFramebuffer e w h m a))),
        Data (if m > 1 then glRenderbufferStorageMultisample m w h else glRenderbufferStorage w h),
        Data (glFramebufferRenderbuffer GL_FRAMEBUFFER GL_DEPTH_ATTACHMENT
                (depthStencil (createFramebuffer e w h m a))),
        Pipeline (glDrawBuffers [GL_COLOR_ATTACHMENT0]),
        Object (glBindFramebuffer GL_FRAMEBUFFER 0)]"
    unfolding createFramebuffer_between[OF assms(2)]
    by (simp add: renderTarget_storage_calls_def depthStencil_storage_calls_def)
  have levels: "(msaaLevel (keyCallback e k act a) = 1 \<or> msaaLevel (keyCallback e k act a) = MSAA_SAMPLES) \<and>
        (msaaLevel (resizeCallback e w h a) = 1 \<or> msaaLevel (resizeCallback e w h a) = MSAA_SAMPLES)"
    if "msaaLevel a = 1 \<or> msaaLevel a = MSAA_SAMPLES"
    using that by (auto simp add: keyCallback_msaaLevel)
  let ?l = "if msaaLevel a > 1 then 1 else MSAA_SAMPLES"
  let ?k = "a\<lparr>msaaLevel := ?l\<rparr>"
  have hk: "handles_ok ?k"
    using assms(2) by (simp add: handles_ok_def)
  have "calls_between a (createFramebuffer e (width a) (height a) ?l ?k) =
      calls_between ?k (createFramebuffer e (width a) (height a) ?l ?k)"
    by (simp add: calls_between_def)
  moreover have "Data (if ?l > 1 then glTexImage2DMultisample GL_TEXTURE_2D_MULTISAMPLE ?l (width a) (height a)
               else glTexImage2D GL_TEXTURE_2D (width a) (height a))
           \<in> set (calls_between ?k (createFramebuffer e (width a) (height a) ?l ?k))"
    by (rule createFramebuffer_storage_commands(1)[OF hk])
  ultimately have key: "Data (if msaaLevel a > 1 then glTexImage2D GL_TEXTURE_2D (width a) (height a)
           else glTexImage2DMultisample GL_TEXTURE_2D_MULTISAMPLE MSAA_SAMPLES (width a) (height a))
       \<in> set (calls_between a (keyCallback e GLFW_KEY_F1 GLFW_PRESS a))"
    by (simp add: keyCallback_F1 calls_between_def MSAA_SAMPLES_def split: if_splits)
  let ?b = "(issue [Pipeline (glViewport 0 0 w h)] (a\<lparr>width := w, height := h\<rparr>))
          \<lparr>camera := SetProjection e (fov a) (of_int w / of_int h) nearClipPlane farClipPlane
                       (camera a)\<rparr>"
  have "handles_ok (issue [Pipeline (glViewport 0 0 w h)] a)"
    using assms(2) by (intro handles_ok_issue) simp_all
  then have hb: "handles_ok ?b"
    by (simp add: handles_ok_def issue_def)
  have "calls_between a (createFramebuffer e w h (msaaLevel a) ?b) =
      [Pipeline (glViewport 0 0 w h)] @ calls_between ?b (createFramebuffer e w h (msaaLevel a) ?b)"
    by (rule calls_between_prefix[OF createFramebuffer_extends[OF hb]]) simp
  moreover have "Data (if msaaLevel a > 1
           then glTexImage2DMultisample GL_TEXTURE_2D_MULTISAMPLE (msaaLevel a) w h
           else glTexImage2D GL_TEXTURE_2D w h)
       \<in> set (calls_between ?b (createFramebuffer e w h (msaaLevel a) ?b))"
    by (rule createFramebuffer_storage_commands(1)[OF hb])
  ultimately have resize: "Data (if msaaLevel a > 1
           then glTexImage2DMultisample GL_TEXTURE_2D_MULTISAMPLE (msaaLevel a) w h
           else glTexImage2D GL_TEXTURE_2D w h)
       \<in> set (calls_between a (resizeCallback e w h a))"
    by (simp add: resizeCallback_eq)
  show ?thesis
    using calls S(6,12) levels key resize by blast
qed

theorem createFramebuffer_unvalidated_witness:
  "driver_ok example_env \<and> handles_ok example_scene \<and> msaaLevel example_scene = MSAA_SAMPLES \<and>
   Data (glTexImage2DMultisample GL_TEXTURE_2D_MULTISAMPLE 7 (-1) 0)
     \<in> set (calls_between example_scene (createFramebuffer example_env (-1) 0 7 example_scene)) \<and>
   msaaLevel (keyCallback example_env GLFW_KEY_F1 GLFW_PRESS example_scene) = 1 \<and>
   Data (glTexImage2D GL_TEXTURE_2D 800 600)
     \<in> set (calls_between example_scene (keyCallback example_env GLFW_KEY_F1 GLFW_PRESS example_scene)) \<and>
   Data (glTexImage2DMultisample GL_TEXTURE_2D_MULTISAMPLE 4 (-1) 0)
     \<in> set (calls_between example_scene (resizeCallback example_env (-1) 0 example_scene))"
proof -
  have r: "handles_ok example_scene" "msaaLevel example_scene = MSAA_SAMPLES"
    using example_startup(2,7) by (simp_all add: ready_def)
  have k: "msaaLevel (keyCallback example_env GLFW_KEY_F1 GLFW_PRESS example_scene) = 1"
    by (simp add: keyCallback_msaaLevel r(2) MSAA_SAMPLES_def)
  note T = createFramebuffer_unvalidated[OF driver_ok_example r(1),
      where w = "-1" and h = 0 and m = 7 and k = GLFW_KEY_F1 and act = GLFW_PRESS]
  have "Data (glTexImage2DMultisample GL_TEXTURE_2D_MULTISAMPLE 7 (-1) 0)
     \<in> set (calls_between example_scene (createFramebuffer example_env (-1) 0 7 example_scene))"
    unfolding conjunct1[OF T] by simp
  moreover have "Data (glTexImage2D GL_TEXTURE_2D 800 600)
     \<in> set (calls_between example_scene (keyCallback example_env GLFW_KEY_F1 GLFW_PRESS example_scene))"
    using T by (simp add: r(2) MSAA_SAMPLES_def example_startup(3,4) DefaultWidth_def DefaultHeight_def)
  moreover have "Data (glTexImage2DMultisample GL_TEXTURE_2D_MULTISAMPLE 4 (-1) 0)
     \<in> set (calls_between example_scene (resizeCallback example_env (-1) 0 example_scene))"
    using T by (simp add: r(2) MSAA_SAMPLES_def)
  ultimately show ?thesis
    using driver_ok_example r k by blast
qed

section \<open>\<^verbatim>\<open>shutDown\<close> and the depth buffer\<close>

lemma shutDown_names:
  "renderbuffer_names (gl (shutDown a)) = renderbuffer_names (gl a)"
  "renderbuffer_objects (gl (shutDown a)) = renderbuffer_objects (gl a)"
  "framebuffer_names (gl (shutDown a)) = framebuffer_names (gl a) - {fbo a}"
  "texture_names (gl (shutDown a)) =
     texture_names (gl a) - {renderTarget a} - {depthStencil a} - set (map (loadedTextures a) all_textures)"
  by (simp_all add: shutDown_def Let_def all_programs_def all_textures_def gl_run)

lemma shutDown_calls:
  "calls_between a (shutDown a) =
     [glDeleteProgram (shaderProgram a Default), glDeleteProgram (shaderProgram a Instancing),
      glDeleteProgram (shaderProgram a PointRendering), glDeleteProgram (shaderProgram a Tonemapping),
      glDeleteBuffers [instancingBuffer a],
      glDeleteTextures [renderTarget a], glDeleteTextures [depthStencil a],
      glDeleteFramebuffers [fbo a], glDeleteVertexArrays [vao a],
      glDeleteTextures (map (loadedTextures a) all_textures)]"
  by (simp add: shutDown_def Let_def all_programs_def calls_between_def)

text \<open>
  C9 does not hold of the code. \<^verbatim>\<open>shutDown\<close> issues \<^verbatim>\<open>glDeleteTextures\<close> for the render
  target and again for the depth buffer, which is a renderbuffer: in every state the
  renderbuffer names in use, and the renderbuffer objects, are the same after the
  deleting commands of \<^verbatim>\<open>shutDown\<close> as before, while the framebuffer object and the render
  target are released. After the start-up of the example configuration the depth buffer
  is an object, and it is still one when \<^verbatim>\<open>shutDown\<close> destroys the window.
\<close>

theorem shutDown_keeps_depthStencil:
  "renderbuffer_names (gl (shutDown a)) = renderbuffer_names (gl a) \<and>
   renderbuffer_objects (gl (shutDown a)) = renderbuffer_objects (gl a) \<and>
   fbo a \<notin> framebuffer_names (gl (shutDown a)) \<and>
   renderTarget a \<notin> texture_names (gl (shutDown a)) \<and>
   calls_between a (shutDown a) =
     [glDeleteProgram (shaderProgram a Default), glDeleteProgram (shaderProgram a Instancing),
      glDeleteProgram (shaderProgram a PointRendering), glDeleteProgram (shaderProgram a Tonemapping),
      glDeleteBuffers [instancingBuffer a],
      glDeleteTextures [renderTarget a], glDeleteTextures [depthStencil a],
      glDeleteFramebuffers [fbo a], glDeleteVertexArrays [vao a],
      glDeleteTextures (map (loadedTextures a) all_textures)] \<and>
   depthStencil example_scene \<noteq> 0 \<and>
   depthStencil example_scene \<in> renderbuffer_objects (gl (shutDown example_scene)) \<and>
   depthStencil example_scene \<in> renderbuffer_names (gl (shutDown example_scene))"
proof -
  have "depthStencil example_scene \<noteq> 0"
    "depthStencil example_scene \<in> renderbuffer_objects (gl example_scene)"
    "depthStencil example_scene \<in> renderbuffer_names (gl example_scene)"
    using example_startup(2) by (auto simp add: ready_def handles_ok_def names_ok_def)
  then show ?thesis
    by (simp add: shutDown_names shutDown_calls)
qed

section \<open>The cube positions\<close>

lemma calls_of_cubePositions [simp]:
  "transform_block_calls (a\<lparr>cubePositions := ps\<rparr>) = transform_block_calls a"
  "offscreen_calls e (a\<lparr>cubePositions := ps\<rparr>) buf q c = offscreen_calls e a buf q c"
  "present_calls (a\<lparr>cubePositions := ps\<rparr>) = present_calls a"
  by (simp_all add: transform_block_calls_def offscreen_calls_def begin_offscreen_calls_def
      floor_calls_def cubes_calls_def light_calls_def program_data_calls_def
      instance_upload_calls_def present_calls_def)

lemma renderScene_last_position:
  assumes s: "scene_ok e a"
  shows "\<exists>a1 a2 c. renderScene e a = Inr a1 \<and>
     renderScene e (a\<lparr>cubePositions := (cubePositions a)[nat (sint (numCubes e)) := p]\<rparr>) = Inr a2 \<and>
     instanceData a2 = instanceData a1 \<and> gl a2 = gl a1 \<and> cube a = Some c \<and>
     (\<forall>k. int k < sint (numCubes e) \<longrightarrow>
        instanceData a1 ! k =
          mat3x4_of_mat4x4 (glm_transpose (instance_transformation (cubePositions a ! k) (int k)))) \<and>
     filter is_instanced_draw (calls_between a a1) =
       [Draw (glDrawElementsInstanced GL_TRIANGLES (GetIBOSize c) (sint (numCubes e)))]"
proof -
  let ?n = "nat (sint (numCubes e))"
  let ?b = "a\<lparr>cubePositions := (cubePositions a)[?n := p]\<rparr>"
  have s': "scene_ok e ?b"
    using s by (simp add: scene_ok_def)
  from renderScene_eq[OF s] obtain buf q c where
    qc: "quad a = Some q" "cube a = Some c"
    and len: "length buf = length (instanceData a)"
    and hi: "\<forall>k. sint (numCubes e) \<le> int k \<longrightarrow> buf ! k = instanceData a ! k"
    and lo: "\<forall>k. int k < sint (numCubes e) \<longrightarrow>
         buf ! k = mat3x4_of_mat4x4 (glm_transpose (instance_transformation (cubePositions a ! k) (int k)))"
    and r: "renderScene e a =
       Inr (issue (transform_block_calls a @ offscreen_calls e a buf q c @ present_calls a)
              (a\<lparr>instanceData := buf\<rparr>))"
    by blast
  from renderScene_eq[OF s'] qc obtain buf' where
    len': "length buf' = length (instanceData a)"
    and hi': "\<forall>k. sint (numCubes e) \<le> int k \<longrightarrow> buf' ! k = instanceData a ! k"
    and lo': "\<forall>k. int k < sint (numCubes e) \<longrightarrow>
         buf' ! k = mat3x4_of_mat4x4 (glm_transpose
            (instance_transformation ((cubePositions a)[?n := p] ! k) (int k)))"
    and r': "renderScene e ?b =
       Inr (issue (transform_block_calls a @ offscreen_calls e a buf' q c @ present_calls a)
              (?b\<lparr>instanceData := buf'\<rparr>))"
    by auto
  have same: "buf' = buf"
  proof (rule nth_equalityI)
    show "length buf' = length buf"
      using len len' by simp
  next
    fix k
    assume "k < length buf'"
    show "buf' ! k = buf ! k"
    proof (cases "int k < sint (numCubes e)")
      case True
      then have "k \<noteq> ?n" by linarith
      then have "(cubePositions a)[?n := p] ! k = cubePositions a ! k"
        by simp
      then show ?thesis
        using lo lo' True by simp
    next
      case False
      then show ?thesis
        using hi hi' by simp
    qed
  qed
  let ?cs = "transform_block_calls a @ offscreen_calls e a buf q c @ present_calls a"
  let ?a1 = "issue ?cs (a\<lparr>instanceData := buf\<rparr>)"
  let ?a2 = "issue ?cs (?b\<lparr>instanceData := buf\<rparr>)"
  have cb: "calls_between a ?a1 = ?cs"
    by simp
  have one: "filter is_instanced_draw (calls_between a ?a1) =
       [Draw (glDrawElementsInstanced GL_TRIANGLES (GetIBOSize c) (sint (numCubes e)))]"
    unfolding cb by (simp add: offscreen_calls_def cubes_calls_def draws_of_frame)
  have "instanceData ?a2 = instanceData ?a1" "gl ?a2 = gl ?a1"
    by (simp_all add: issue_def)
  moreover have "\<forall>k. int k < sint (numCubes e) \<longrightarrow>
        instanceData ?a1 ! k =
          mat3x4_of_mat4x4 (glm_transpose (instance_transformation (cubePositions a ! k) (int k)))"
    using lo by simp
  ultimately show ?thesis
    using r r' same qc(2) one by (intro exI[of _ ?a1] exI[of _ ?a2] exI[of _ c]) simp
qed

text \<open>
  C10. With a cube count from 0 to 1024 \<^verbatim>\<open>createGeometry\<close> returns, and its position list
  is the old one (empty at start-up), the fixed position (0, 0.5, 0), and \<open>numCubes\<close> more:
  one fixed entry and \<open>numCubes\<close> generated ones. In a state in which frames are rendered
  the list has \<open>numCubes + 1\<close> entries; the main loop, whatever the events, returns with
  the same list; and a frame in which the last position is replaced by any other one
  returns with the same instance buffer and the same state of the graphics library as
  the frame with the list as it is: the entries of the buffer below \<open>numCubes\<close> are the
  transformations of the positions below \<open>numCubes\<close>, and the one instanced draw of the
  frame draws \<open>numCubes\<close> instances.
\<close>

theorem cube_positions_last_unused:
  assumes "driver_ok e"
  shows "(0 \<le> sint (numCubes e) \<and> sint (numCubes e) \<le> 1024 \<longrightarrow>
       (\<exists>a'. createGeometry e a = Inr a' \<and>
          length (cubePositions a') = length (cubePositions a) + 1 + nat (sint (numCubes e)) \<and>
          take (length (cubePositions a) + 1) (cubePositions a') = cubePositions a @ [(0, 1 / 2, 0)])) \<and>
     (ready e b \<longrightarrow>
       int (length (cubePositions b)) = sint (numCubes e) + 1 \<and>
       (\<exists>b'. mainLoop e evss b = Inr b' \<and> cubePositions b' = cubePositions b) \<and>
       (\<exists>b1 b2 ibo. renderScene e b = Inr b1 \<and>
          renderScene e (b\<lparr>cubePositions := (cubePositions b)[nat (sint (numCubes e)) := p]\<rparr>) = Inr b2 \<and>
          instanceData b2 = instanceData b1 \<and> gl b2 = gl b1 \<and>
          (\<forall>k. int k < sint (numCubes e) \<longrightarrow>
             instanceData b1 ! k =
               mat3x4_of_mat4x4 (glm_transpose (instance_transformation (cubePositions b ! k) (int k)))) \<and>
          filter is_instanced_draw (calls_between b b1) =
            [Draw (glDrawElementsInstanced GL_TRIANGLES ibo (sint (numCubes e)))]))"
proof -
  have geometry: "\<exists>a'. createGeometry e a = Inr a' \<and>
          length (cubePositions a') = length (cubePositions a) + 1 + nat (sint (numCubes e)) \<and>
          take (length (cubePositions a) + 1) (cubePositions a') = cubePositions a @ [(0, 1 / 2, 0)]"
    if "0 \<le> sint (numCubes e) \<and> sint (numCubes e) \<le> 1024"
  proof -
    from that createGeometry_ok[of e a] obtain ps where
      "createGeometry e a = Inr ((create_buffers e a)\<lparr>cubePositions := ps\<rparr>)"
      "length ps = length (cubePositions a) + 1 + nat (sint (numCubes e))"
      "take (length (cubePositions a) + 1) ps = cubePositions a @ [(0, 1 / 2, 0)]"
      by blast
    then show ?thesis by simp
  qed
  have run: "int (length (cubePositions b)) = sint (numCubes e) + 1 \<and>
       (\<exists>b'. mainLoop e evss b = Inr b' \<and> cubePositions b' = cubePositions b) \<and>
       (\<exists>b1 b2 ibo. renderScene e b = Inr b1 \<and>
          renderScene e (b\<lparr>cubePositions := (cubePositions b)[nat (sint (numCubes e)) := p]\<rparr>) = Inr b2 \<and>
          instanceData b2 = instanceData b1 \<and> gl b2 = gl b1 \<and>
          (\<forall>k. int k < sint (numCubes e) \<longrightarrow>
             instanceData b1 ! k =
               mat3x4_of_mat4x4 (glm_transpose (instance_transformation (cubePositions b ! k) (int k)))) \<and>
          filter is_instanced_draw (calls_between b b1) =
            [Draw (glDrawElementsInstanced GL_TRIANGLES ibo (sint (numCubes e)))])"
    if r: "ready e b"
  proof -
    have s: "scene_ok e b"
      using r by (simp add: ready_def)
    then have "int (length (cubePositions b)) = sint (numCubes e) + 1"
      by (simp add: scene_ok_def)
    moreover from mainLoop_ready[OF assms r, of evss]
    have "\<exists>b'. mainLoop e evss b = Inr b' \<and> cubePositions b' = cubePositions b"
      by blast
    moreover from renderScene_last_position[OF s, of p]
    have "\<exists>b1 b2 ibo. renderScene e b = Inr b1 \<and>
          renderScene e (b\<lparr>cubePositions := (cubePositions b)[nat (sint (numCubes e)) := p]\<rparr>) = Inr b2 \<and>
          instanceData b2 = instanceData b1 \<and> gl b2 = gl b1 \<and>
          (\<forall>k. int k < sint (numCubes e) \<longrightarrow>
             instanceData b1 ! k =
               mat3x4_of_mat4x4 (glm_transpose (instance_transformation (cubePositions b ! k) (int k)))) \<and>
          filter is_instanced_draw (calls_between b b1) =
            [Draw (glDrawElementsInstanced GL_TRIANGLES ibo (sint (numCubes e)))]"
      by blast
    ultimately show ?thesis by blast
  qed
  show ?thesis
    using geometry run by blast
qed

theorem cube_positions_last_unused_witness:
  "driver_ok example_env \<and> ready example_env example_scene \<and>
   0 \<le> sint (numCubes example_env) \<and> sint (numCubes example_env) \<le> 1024 \<and>
   (\<exists>a'. createGeometry example_env (app_initial example_limits example_camera) = Inr a' \<and>
      length (cubePositions a') = 11 \<and> take 1 (cubePositions a') = [(0, 1 / 2, 0)]) \<and>
   length (cubePositions example_scene) = 11 \<and>
   (\<exists>b'. mainLoop example_env [[], [Key GLFW_KEY_F1 GLFW_PRESS]] example_scene = Inr b' \<and>
      cubePositions b' = cubePositions example_scene) \<and>
   (\<exists>b1 b2 ibo. renderScene example_env example_scene = Inr b1 \<and>
      renderScene example_env
        (example_scene\<lparr>cubePositions := (cubePositions example_scene)[10 := (7, 7, 7)]\<rparr>) = Inr b2 \<and>
      instanceData b2 = instanceData b1 \<and> gl b2 = gl b1 \<and>
      filter is_instanced_draw (calls_between example_scene b1) =
        [Draw (glDrawElementsInstanced GL_TRIANGLES ibo 10)])"
proof -
  have n: "sint (numCubes example_env) = 10"
    by (simp add: example_env_def)
  have i: "cubePositions (app_initial example_limits example_camera) = []"
    by (simp add: app_initial_def)
  note r = example_startup(2)
  from cube_positions_last_unused[OF driver_ok_example, of "app_initial example_limits example_camera" example_scene
      "[[], [Key GLFW_KEY_F1 GLFW_PRESS]]" "(7, 7, 7)"]
  show ?thesis
    using driver_ok_example r by (simp add: n i) blast
qed

end
